theory Spec2Isabelle
  imports Complex_Main "HOL-Library.Word" "HOL-Library.Signed_Division" "HOL-Library.AList"
begin

section \<open>Frame-resource pipelining of the Castle renderer (Castle.cpp)\<close>

text \<open>
  The development embeds the frame loop of \<^verbatim>\<open>TreeBillboardsApp\<close>: the ring of frame
  resources, the fence that guards their reuse, the dirty counters of render items and
  materials, the per-frame constant uploads and the order of the recorded draws.

  Floating point is not modelled. The float type is the type variable \<open>'f\<close> and every
  float or matrix operation of DirectXMath and the C runtime is a field of the parameter
  record \<open>DirectXMath\<close>; only the transposition of a matrix, which moves entries and
  computes nothing, is defined here.
\<close>

subsection \<open>Numbers, vectors and matrices\<close>

definition gNumFrameResources :: int where
  "gNumFrameResources = 3"

text \<open>
  Modelled from the spec: the type of a fence value (\<^verbatim>\<open>mCurrentFence\<close> of \<^verbatim>\<open>D3DApp\<close> and
  \<^verbatim>\<open>FrameResource::Fence\<close> are declared in Common/d3dApp.h and FrameResource.h, which
  are not among the sources). It is an unsigned 64-bit counter.
\<close>

type_synonym FenceValue = "64 word"
type_synonym UINT = "32 word"

type_synonym 'f XMFLOAT2 = "'f \<times> 'f"
type_synonym 'f XMFLOAT3 = "'f \<times> 'f \<times> 'f"
type_synonym 'f XMFLOAT4 = "'f \<times> 'f \<times> 'f \<times> 'f"

text \<open>A 4x4 matrix, read as \<open>m (row, column)\<close>, the way \<^verbatim>\<open>MatTransform(3, 0)\<close> reads it.\<close>

type_synonym 'f XMFLOAT4X4 = "nat \<times> nat \<Rightarrow> 'f"

definition XMMatrixTranspose :: "'f XMFLOAT4X4 \<Rightarrow> 'f XMFLOAT4X4" where
  "XMMatrixTranspose m = (\<lambda>(i, j). m (j, i))"

record 'f DirectXMath =
  flt :: "rat \<Rightarrow> 'f"
  fint :: "int \<Rightarrow> 'f"
  fadd :: "'f \<Rightarrow> 'f \<Rightarrow> 'f"
  fsub :: "'f \<Rightarrow> 'f \<Rightarrow> 'f"
  fmul :: "'f \<Rightarrow> 'f \<Rightarrow> 'f"
  fdiv :: "'f \<Rightarrow> 'f \<Rightarrow> 'f"
  fge :: "'f \<Rightarrow> 'f \<Rightarrow> bool"
  sinf :: "'f \<Rightarrow> 'f"
  cosf :: "'f \<Rightarrow> 'f"
  XMMatrixMultiply :: "'f XMFLOAT4X4 \<Rightarrow> 'f XMFLOAT4X4 \<Rightarrow> 'f XMFLOAT4X4"
  XMMatrixInverse :: "'f XMFLOAT4X4 \<Rightarrow> 'f XMFLOAT4X4"
  XMMatrixLookAtLH :: "'f XMFLOAT4 \<Rightarrow> 'f XMFLOAT4 \<Rightarrow> 'f XMFLOAT4 \<Rightarrow> 'f XMFLOAT4X4"
  XMMatrixScaling :: "'f \<Rightarrow> 'f \<Rightarrow> 'f \<Rightarrow> 'f XMFLOAT4X4"
  XMMatrixTranslation :: "'f \<Rightarrow> 'f \<Rightarrow> 'f \<Rightarrow> 'f XMFLOAT4X4"

definition Identity4x4 :: "'f DirectXMath \<Rightarrow> 'f XMFLOAT4X4" where
  "Identity4x4 M = (\<lambda>(i, j). if i = j then flt M 1 else flt M 0)"

record 'f GameTimer =
  DeltaTime :: 'f
  TotalTime :: 'f

subsection \<open>Errors\<close>

text \<open>
  The source has no error path of its own in the frame loop. What the model makes explicit
  is where C++ leaves the behaviour undefined or never returns: a null or dangling pointer
  is dereferenced (\<open>NullPointer\<close>), a vector is indexed out of range (\<open>OutOfRange\<close>),
  or the wait with \<^verbatim>\<open>INFINITE\<close> timeout is never woken (\<open>WaitsForever\<close>).
\<close>

datatype error = NullPointer | OutOfRange | WaitsForever

subsection \<open>Upload buffers and frame resources\<close>

text \<open>
  Modelled from the spec: \<^verbatim>\<open>UploadBuffer<T>\<close> (Common/UploadBuffer.h is not among the
  sources). A buffer is a writable region of \<open>mElementCount\<close> entries and
  \<^verbatim>\<open>CopyData(i, d)\<close> writes \<open>d\<close> into entry \<open>i\<close>. The memory is kept as the history of
  its writes, newest first: \<open>ReadData b i\<close> is what entry \<open>i\<close> holds, and the history
  tells which writes a buffer has received.
\<close>

record 'c UploadBuffer =
  mElementCount :: nat
  mMappedData :: "(nat \<times> 'c) list"

definition NewUploadBuffer :: "nat \<Rightarrow> 'c UploadBuffer" where
  "NewUploadBuffer elementCount = \<lparr>mElementCount = elementCount, mMappedData = []\<rparr>"

definition CopyData :: "nat \<Rightarrow> 'c \<Rightarrow> 'c UploadBuffer \<Rightarrow> 'c UploadBuffer" where
  "CopyData elementIndex d b = b\<lparr>mMappedData := (elementIndex, d) # mMappedData b\<rparr>"

definition ReadData :: "'c UploadBuffer \<Rightarrow> nat \<Rightarrow> 'c option" where
  "ReadData b elementIndex = map_of (mMappedData b) elementIndex"

record 'f ObjectConstants =
  World :: "'f XMFLOAT4X4"
  TexTransform :: "'f XMFLOAT4X4"

record 'f MaterialConstants =
  DiffuseAlbedo :: "'f XMFLOAT4"
  FresnelR0 :: "'f XMFLOAT3"
  Roughness :: 'f
  MatTransform :: "'f XMFLOAT4X4"

record 'f Light =
  Strength :: "'f XMFLOAT3"
  Position :: "'f XMFLOAT3"

record 'f PassConstants =
  View :: "'f XMFLOAT4X4"
  InvView :: "'f XMFLOAT4X4"
  Proj :: "'f XMFLOAT4X4"
  InvProj :: "'f XMFLOAT4X4"
  ViewProj :: "'f XMFLOAT4X4"
  InvViewProj :: "'f XMFLOAT4X4"
  EyePosW :: "'f XMFLOAT3"
  RenderTargetSize :: "'f XMFLOAT2"
  InvRenderTargetSize :: "'f XMFLOAT2"
  NearZ :: 'f
  FarZ :: 'f
  TotalTime :: 'f
  DeltaTime :: 'f
  AmbientLight :: "'f XMFLOAT4"
  FogColor :: "'f XMFLOAT4"
  Lights :: "nat \<Rightarrow> 'f Light"

record 'f Vertex =
  Pos :: "'f XMFLOAT3"
  Normal :: "'f XMFLOAT3"
  TexC :: "'f XMFLOAT2"

text \<open>
  Modelled from the spec: \<^verbatim>\<open>FrameResource\<close> (FrameResource.h is not among the sources):
  one bundle of the ring, with its own copy of the pass, object and material constants
  and of the wave vertices, tagged with the fence value of its last submission,
  0 for "never submitted".
\<close>

record 'f FrameResource =
  PassCB :: "'f PassConstants UploadBuffer"
  ObjectCB :: "'f ObjectConstants UploadBuffer"
  MaterialCB :: "'f MaterialConstants UploadBuffer"
  WavesVB :: "'f Vertex UploadBuffer"
  Fence :: FenceValue

definition NewFrameResource :: "nat \<Rightarrow> nat \<Rightarrow> nat \<Rightarrow> nat \<Rightarrow> 'f FrameResource" where
  "NewFrameResource passCount objectCount materialCount waveVertCount =
     \<lparr>PassCB = NewUploadBuffer passCount,
      ObjectCB = NewUploadBuffer objectCount,
      MaterialCB = NewUploadBuffer materialCount,
      WavesVB = NewUploadBuffer waveVertCount,
      Fence = 0\<rparr>"

subsection \<open>Render items and materials\<close>

datatype D3D12_PRIMITIVE_TOPOLOGY =
  D3D_PRIMITIVE_TOPOLOGY_TRIANGLELIST | D3D_PRIMITIVE_TOPOLOGY_POINTLIST

text \<open>
  \<open>Mat\<close> and \<open>Geo\<close> are pointers into the tables \<^verbatim>\<open>mMaterials\<close> and
  \<^verbatim>\<open>mGeometries\<close>: the key of the entry, \<open>None\<close> for \<^verbatim>\<open>nullptr\<close>.
\<close>

record 'f RenderItem =
  World :: "'f XMFLOAT4X4"
  TexTransform :: "'f XMFLOAT4X4"
  NumFramesDirty :: int
  ObjCBIndex :: UINT
  Mat :: "string option"
  Geo :: "string option"
  PrimitiveType :: D3D12_PRIMITIVE_TOPOLOGY
  IndexCount :: UINT
  StartIndexLocation :: UINT
  BaseVertexLocation :: int

text \<open>\<^verbatim>\<open>RenderItem() = default\<close> with the member initialisers of the struct.\<close>

definition NewRenderItem :: "'f DirectXMath \<Rightarrow> 'f RenderItem" where
  "NewRenderItem M =
     \<lparr>World = Identity4x4 M,
      TexTransform = Identity4x4 M,
      NumFramesDirty = gNumFrameResources,
      ObjCBIndex = - 1,
      Mat = None,
      Geo = None,
      PrimitiveType = D3D_PRIMITIVE_TOPOLOGY_TRIANGLELIST,
      IndexCount = 0,
      StartIndexLocation = 0,
      BaseVertexLocation = 0\<rparr>"

text \<open>
  Modelled from the spec: \<^verbatim>\<open>Material\<close> (Common/d3dUtil.h is not among the sources):
  shared shading parameters, an index into the material-constant region and a dirty
  counter of its own, set to the number of frame resources by the initial build.
\<close>

record 'f Material =
  MatCBIndex :: nat
  DiffuseSrvHeapIndex :: nat
  NumFramesDirty :: int
  DiffuseAlbedo :: "'f XMFLOAT4"
  FresnelR0 :: "'f XMFLOAT3"
  Roughness :: 'f
  MatTransform :: "'f XMFLOAT4X4"

definition NewMaterial :: "'f DirectXMath \<Rightarrow> 'f Material" where
  "NewMaterial M =
     \<lparr>MatCBIndex = 0,
      DiffuseSrvHeapIndex = 0,
      NumFramesDirty = gNumFrameResources,
      DiffuseAlbedo = (flt M 1, flt M 1, flt M 1, flt M 1),
      FresnelR0 = (flt M (1 / 100), flt M (1 / 100), flt M (1 / 100)),
      Roughness = flt M (1 / 4),
      MatTransform = Identity4x4 M\<rparr>"

datatype RenderLayer = Opaque | Transparent | AlphaTested | AlphaTestedTreeSprites

subsection \<open>The command list, the fence and the application state\<close>

text \<open>
  Modelled from the spec: \<^verbatim>\<open>d3dUtil::CalcConstantBufferByteSize\<close> and the sizes of the
  constant structs (Common/d3dUtil.h and FrameResource.h are not among the sources). The
  stride of a constant-buffer entry is the size of the struct rounded up to the next
  multiple of 256 bytes. The struct sizes are those of the fields that the upload loops
  fill: two 4x4 float matrices for an object, and a float4, a float3, a float and a 4x4
  float matrix for a material. All of it is 32-bit \<^verbatim>\<open>UINT\<close> arithmetic.
\<close>

unbundle bit_operations_syntax

definition CalcConstantBufferByteSize :: "UINT \<Rightarrow> UINT" where
  "CalcConstantBufferByteSize byteSize = (byteSize + 255) AND NOT 255"

definition sizeofObjectConstants :: UINT where
  "sizeofObjectConstants = 128"

definition sizeofMaterialConstants :: UINT where
  "sizeofMaterialConstants = 96"

text \<open>
  A buffer address names the frame resource whose buffer it points into and the byte
  offset from the start of that buffer (\<^verbatim>\<open>GetGPUVirtualAddress\<close>, a value that the driver
  chooses). \<^verbatim>\<open>DrawRenderItems\<close> computes the offset as index times stride in 32-bit
  arithmetic, so the product is taken modulo \<open>2 ^ 32\<close> before it is added to the start.
\<close>

datatype BufferAddress =
  PassCBAddress nat nat | ObjectCBAddress nat nat | MaterialCBAddress nat nat

text \<open>The commands that \<^verbatim>\<open>Draw\<close> records, in the order of their recording.\<close>

datatype 'f Command =
  Reset string
| RSSetViewports
| RSSetScissorRects
| ResourceBarrierToRenderTarget
| ClearRenderTargetView "'f XMFLOAT4"
| ClearDepthStencilView
| OMSetRenderTargets
| SetDescriptorHeaps
| SetGraphicsRootSignature
| SetGraphicsRootConstantBufferView nat BufferAddress
| SetPipelineState string
| IASetVertexBuffers string
| IASetIndexBuffer string
| IASetPrimitiveTopology D3D12_PRIMITIVE_TOPOLOGY
| SetGraphicsRootDescriptorTable nat nat
| DrawIndexedInstanced UINT UINT UINT int UINT
| ResourceBarrierToPresent
| Close

text \<open>
  Modelled from the spec: \<^verbatim>\<open>Waves\<close> (Waves.h is not among the sources). The model takes
  the solution of the simulation after this frame's \<^verbatim>\<open>Disturb\<close> and \<^verbatim>\<open>Update\<close> as an
  input of the frame: position and normal of every vertex, and the extent of the grid.
\<close>

record 'f Waves =
  Width :: 'f
  Depth :: 'f
  Solution :: "('f XMFLOAT3 \<times> 'f XMFLOAT3) list"

text \<open>
  The members of \<^verbatim>\<open>TreeBillboardsApp\<close> and of its base \<^verbatim>\<open>D3DApp\<close> that the frame loop
  reads or writes.
  \<^item> \<open>mAllRitems\<close> owns the render items; a \<^verbatim>\<open>RenderItem*\<close> is the position of the
    item in \<open>mAllRitems\<close>, and \<open>mCurrFrameResource\<close> is the position of a frame
    resource in \<open>mFrameResources\<close>.
  \<^item> \<open>mMaterials\<close> lists the entries of the table in the order in which the table is
    iterated.
  \<^item> Modelled from the spec: the completion fence and the command queue of the graphics
    API. \<open>mFence\<close> is the value that \<^verbatim>\<open>GetCompletedValue\<close> returns. \<open>mCommandQueue\<close>
    holds the fence values whose \<^verbatim>\<open>Signal\<close> the GPU has not reached yet, oldest first;
    the GPU retires them in this order.
  \<^item> \<open>VertexBufferGPU g\<close> is the frame resource whose \<open>WavesVB\<close> is the vertex buffer
    of geometry \<open>g\<close>, \<open>None\<close> while \<open>g\<close> keeps the buffer it was built with.
\<close>

record 'f TreeBillboardsApp =
  mFrameResources :: "'f FrameResource list"
  mCurrFrameResource :: "nat option"
  mCurrFrameResourceIndex :: int
  mMaterials :: "(string \<times> 'f Material) list"
  mAllRitems :: "'f RenderItem list"
  mRitemLayer :: "RenderLayer \<Rightarrow> nat list"
  mWavesRitem :: "nat option"
  VertexBufferGPU :: "string \<Rightarrow> nat option"
  mMainPassCB :: "'f PassConstants"
  mEyePos :: "'f XMFLOAT3"
  mView :: "'f XMFLOAT4X4"
  mProj :: "'f XMFLOAT4X4"
  mTheta :: 'f
  mPhi :: 'f
  mRadius :: 'f
  mClientWidth :: int
  mClientHeight :: int
  mCurrentFence :: FenceValue
  mFence :: FenceValue
  mCommandQueue :: "FenceValue list"
  mCommandList :: "'f Command list"

subsection \<open>The GPU side of the fence\<close>

text \<open>The GPU reaches the oldest pending \<^verbatim>\<open>Signal\<close>: the fence takes its value.\<close>

definition GpuRetire :: "'f TreeBillboardsApp \<Rightarrow> 'f TreeBillboardsApp" where
  "GpuRetire s =
     (case mCommandQueue s of
        [] \<Rightarrow> s
      | v # q \<Rightarrow> s\<lparr>mFence := v, mCommandQueue := q\<rparr>)"

text \<open>
  \<^verbatim>\<open>SetEventOnCompletion(target, event)\<close> followed by
  \<^verbatim>\<open>WaitForSingleObject(event, INFINITE)\<close>: the thread sleeps while the GPU retires
  signals, and wakes at the first moment the fence has reached \<open>target\<close>. With no signal
  left to retire and the target not reached, it sleeps forever: \<open>None\<close>.
\<close>

fun WaitForSingleObject ::
  "FenceValue \<Rightarrow> FenceValue \<Rightarrow> FenceValue list \<Rightarrow> (FenceValue \<times> FenceValue list) option" where
  "WaitForSingleObject target completed [] =
     (if target \<le> completed then Some (completed, []) else None)"
| "WaitForSingleObject target completed (v # q) =
     (if target \<le> completed then Some (completed, v # q)
      else WaitForSingleObject target v q)"

subsection \<open>Update\<close>

definition CurrFrameResource :: "'f TreeBillboardsApp \<Rightarrow> error + nat \<times> 'f FrameResource" where
  "CurrFrameResource s =
     (case mCurrFrameResource s of
        None \<Rightarrow> Inl NullPointer
      | Some p \<Rightarrow>
          if p < length (mFrameResources s) then Inr (p, mFrameResources s ! p)
          else Inl NullPointer)"

definition UpdateCamera :: "'f DirectXMath \<Rightarrow> 'f TreeBillboardsApp \<Rightarrow> 'f TreeBillboardsApp" where
  "UpdateCamera M s =
     (let x = fmul M (fmul M (mRadius s) (sinf M (mPhi s))) (cosf M (mTheta s));
          z = fmul M (fmul M (mRadius s) (sinf M (mPhi s))) (sinf M (mTheta s));
          y = fmul M (mRadius s) (cosf M (mPhi s));
          pos = (x, y, z, flt M 1);
          target = (flt M 0, flt M 0, flt M 0, flt M 0);
          up = (flt M 0, flt M 1, flt M 0, flt M 0)
      in s\<lparr>mEyePos := (x, y, z), mView := XMMatrixLookAtLH M pos target up\<rparr>)"

text \<open>
  The first half of \<^verbatim>\<open>Update\<close>: the ring moves to the next frame resource, and the CPU
  waits for the GPU when that frame resource is still in flight.
\<close>

definition CycleFrameResource :: "'f TreeBillboardsApp \<Rightarrow> error + 'f TreeBillboardsApp" where
  "CycleFrameResource s =
     (let i = (mCurrFrameResourceIndex s + 1) smod gNumFrameResources
      in if 0 \<le> i \<and> nat i < length (mFrameResources s)
         then Inr (s\<lparr>mCurrFrameResourceIndex := i, mCurrFrameResource := Some (nat i)\<rparr>)
         else Inl OutOfRange)"

definition WaitForFrameResource :: "'f TreeBillboardsApp \<Rightarrow> error + 'f TreeBillboardsApp" where
  "WaitForFrameResource s =
     (case CurrFrameResource s of
        Inl e \<Rightarrow> Inl e
      | Inr (p, fr) \<Rightarrow>
          if Fence fr \<noteq> 0 \<and> mFence s < Fence fr
          then (case WaitForSingleObject (Fence fr) (mFence s) (mCommandQueue s) of
                  None \<Rightarrow> Inl WaitsForever
                | Some (completed, q) \<Rightarrow> Inr (s\<lparr>mFence := completed, mCommandQueue := q\<rparr>))
          else Inr s)"

definition AnimateMaterials ::
  "'f DirectXMath \<Rightarrow> 'f GameTimer \<Rightarrow> 'f TreeBillboardsApp \<Rightarrow> error + 'f TreeBillboardsApp" where
  "AnimateMaterials M gt s =
     (case map_of (mMaterials s) ''water'' of
        None \<Rightarrow> Inl NullPointer
      | Some waterMat \<Rightarrow>
          let tu = Material.MatTransform waterMat (3, 0);
              tv = Material.MatTransform waterMat (3, 1);
              tu = fadd M tu (fmul M (flt M (1 / 10)) (GameTimer.DeltaTime gt));
              tv = fadd M tv (fmul M (flt M (2 / 100)) (GameTimer.DeltaTime gt));
              tu = (if fge M tu (flt M 1) then fsub M tu (flt M 1) else tu);
              tv = (if fge M tv (flt M 1) then fsub M tv (flt M 1) else tv);
              waterMat = waterMat
                \<lparr>Material.MatTransform := (Material.MatTransform waterMat)((3, 0) := tu, (3, 1) := tv),
                 Material.NumFramesDirty := gNumFrameResources\<rparr>
          in Inr (s\<lparr>mMaterials := AList.update ''water'' waterMat (mMaterials s)\<rparr>))"

text \<open>The packed constants of a render item and of a material, as the two loops build them.\<close>

definition objConstants :: "'f RenderItem \<Rightarrow> 'f ObjectConstants" where
  "objConstants e =
     \<lparr>ObjectConstants.World = XMMatrixTranspose (RenderItem.World e),
      ObjectConstants.TexTransform = XMMatrixTranspose (RenderItem.TexTransform e)\<rparr>"

definition matConstants :: "'f Material \<Rightarrow> 'f MaterialConstants" where
  "matConstants mat =
     \<lparr>MaterialConstants.DiffuseAlbedo = Material.DiffuseAlbedo mat,
      MaterialConstants.FresnelR0 = Material.FresnelR0 mat,
      MaterialConstants.Roughness = Material.Roughness mat,
      MaterialConstants.MatTransform = XMMatrixTranspose (Material.MatTransform mat)\<rparr>"

fun UpdateObjectCBs_loop ::
  "'f RenderItem list \<Rightarrow> 'f ObjectConstants UploadBuffer \<Rightarrow>
   'f RenderItem list \<times> 'f ObjectConstants UploadBuffer" where
  "UpdateObjectCBs_loop [] currObjectCB = ([], currObjectCB)"
| "UpdateObjectCBs_loop (e # es) currObjectCB =
     (if RenderItem.NumFramesDirty e > 0
      then
        let (es', cb') =
              UpdateObjectCBs_loop es
                (CopyData (unat (ObjCBIndex e)) (objConstants e) currObjectCB)
        in (e\<lparr>RenderItem.NumFramesDirty := RenderItem.NumFramesDirty e - 1\<rparr> # es', cb')
      else
        let (es', cb') = UpdateObjectCBs_loop es currObjectCB
        in (e # es', cb'))"

definition UpdateObjectCBs :: "'f TreeBillboardsApp \<Rightarrow> error + 'f TreeBillboardsApp" where
  "UpdateObjectCBs s =
     (case CurrFrameResource s of
        Inl e \<Rightarrow> Inl e
      | Inr (p, fr) \<Rightarrow>
          let (es', cb') = UpdateObjectCBs_loop (mAllRitems s) (ObjectCB fr)
          in Inr (s\<lparr>mAllRitems := es',
                    mFrameResources := (mFrameResources s)[p := fr\<lparr>ObjectCB := cb'\<rparr>]\<rparr>))"

fun UpdateMaterialCBs_loop ::
  "(string \<times> 'f Material) list \<Rightarrow> 'f MaterialConstants UploadBuffer \<Rightarrow>
   (string \<times> 'f Material) list \<times> 'f MaterialConstants UploadBuffer" where
  "UpdateMaterialCBs_loop [] currMaterialCB = ([], currMaterialCB)"
| "UpdateMaterialCBs_loop ((name, mat) # es) currMaterialCB =
     (if Material.NumFramesDirty mat > 0
      then
        let (es', cb') =
              UpdateMaterialCBs_loop es
                (CopyData (MatCBIndex mat) (matConstants mat) currMaterialCB)
        in ((name, mat\<lparr>Material.NumFramesDirty := Material.NumFramesDirty mat - 1\<rparr>) # es', cb')
      else
        let (es', cb') = UpdateMaterialCBs_loop es currMaterialCB
        in ((name, mat) # es', cb'))"

definition UpdateMaterialCBs :: "'f TreeBillboardsApp \<Rightarrow> error + 'f TreeBillboardsApp" where
  "UpdateMaterialCBs s =
     (case CurrFrameResource s of
        Inl e \<Rightarrow> Inl e
      | Inr (p, fr) \<Rightarrow>
          let (es', cb') = UpdateMaterialCBs_loop (mMaterials s) (MaterialCB fr)
          in Inr (s\<lparr>mMaterials := es',
                    mFrameResources := (mFrameResources s)[p := fr\<lparr>MaterialCB := cb'\<rparr>]\<rparr>))"

definition MainPassConstants ::
  "'f DirectXMath \<Rightarrow> 'f GameTimer \<Rightarrow> 'f TreeBillboardsApp \<Rightarrow> 'f PassConstants" where
  "MainPassConstants M gt s =
     (let view = mView s;
          proj = mProj s;
          viewProj = XMMatrixMultiply M view proj;
          invView = XMMatrixInverse M view;
          invProj = XMMatrixInverse M proj;
          invViewProj = XMMatrixInverse M viewProj;
          lights = Lights (mMainPassCB s);
          lights = lights(3 := (lights 3)
            \<lparr>Position := (flt M 0, flt M (35 / 10), flt M (- 75 / 100)),
             Strength := (flt M 0, flt M 0, flt M 2)\<rparr>);
          lights = lights(4 := (lights 4)
            \<lparr>Position := (flt M 0, flt M (35 / 10), flt M (- 11)),
             Strength := (flt M 2, flt M 0, flt M 0)\<rparr>)
      in (mMainPassCB s)
           \<lparr>View := XMMatrixTranspose view,
            InvView := XMMatrixTranspose invView,
            Proj := XMMatrixTranspose proj,
            InvProj := XMMatrixTranspose invProj,
            ViewProj := XMMatrixTranspose viewProj,
            InvViewProj := XMMatrixTranspose invViewProj,
            EyePosW := mEyePos s,
            RenderTargetSize := (fint M (mClientWidth s), fint M (mClientHeight s)),
            InvRenderTargetSize :=
              (fdiv M (flt M 1) (fint M (mClientWidth s)),
               fdiv M (flt M 1) (fint M (mClientHeight s))),
            NearZ := flt M 1,
            FarZ := flt M 1000,
            PassConstants.TotalTime := GameTimer.TotalTime gt,
            PassConstants.DeltaTime := GameTimer.DeltaTime gt,
            AmbientLight := (flt M (25 / 100), flt M (25 / 100), flt M (35 / 100), flt M 1),
            Lights := lights\<rparr>)"

definition UpdateMainPassCB ::
  "'f DirectXMath \<Rightarrow> 'f GameTimer \<Rightarrow> 'f TreeBillboardsApp \<Rightarrow> error + 'f TreeBillboardsApp" where
  "UpdateMainPassCB M gt s =
     (let pc = MainPassConstants M gt s
      in case CurrFrameResource s of
           Inl e \<Rightarrow> Inl e
         | Inr (p, fr) \<Rightarrow>
             Inr (s\<lparr>mMainPassCB := pc,
                    mFrameResources :=
                      (mFrameResources s)[p := fr\<lparr>PassCB := CopyData 0 pc (PassCB fr)\<rparr>]\<rparr>))"

definition WaveVertex :: "'f DirectXMath \<Rightarrow> 'f Waves \<Rightarrow> 'f XMFLOAT3 \<times> 'f XMFLOAT3 \<Rightarrow> 'f Vertex" where
  "WaveVertex M w pn =
     (case pn of
        ((px, py, pz), n) \<Rightarrow>
          \<lparr>Pos = (px, py, pz),
           Normal = n,
           TexC = (fadd M (flt M (1 / 2)) (fdiv M px (Width w)),
                   fsub M (flt M (1 / 2)) (fdiv M pz (Depth w)))\<rparr>)"

definition UpdateWaves_loop ::
  "'f DirectXMath \<Rightarrow> 'f Waves \<Rightarrow> 'f Vertex UploadBuffer \<Rightarrow> 'f Vertex UploadBuffer" where
  "UpdateWaves_loop M w currWavesVB =
     fold (\<lambda>i vb. CopyData i (WaveVertex M w (Solution w ! i)) vb)
       [0 ..< length (Solution w)] currWavesVB"

definition UpdateWaves ::
  "'f DirectXMath \<Rightarrow> 'f Waves \<Rightarrow> 'f TreeBillboardsApp \<Rightarrow> error + 'f TreeBillboardsApp" where
  "UpdateWaves M w s =
     (case CurrFrameResource s of
        Inl e \<Rightarrow> Inl e
      | Inr (p, fr) \<Rightarrow>
          let s = s\<lparr>mFrameResources :=
                     (mFrameResources s)[p := fr\<lparr>WavesVB := UpdateWaves_loop M w (WavesVB fr)\<rparr>]\<rparr>
          in case mWavesRitem s of
               None \<Rightarrow> Inl NullPointer
             | Some r \<Rightarrow>
                 if r < length (mAllRitems s)
                 then (case Geo (mAllRitems s ! r) of
                         None \<Rightarrow> Inl NullPointer
                       | Some g \<Rightarrow> Inr (s\<lparr>VertexBufferGPU := (VertexBufferGPU s)(g := Some p)\<rparr>))
                 else Inl NullPointer)"

text \<open>
  Sequencing of steps that can fail: the first failure ends the frame, as the crash or
  the endless wait would.
\<close>

definition andThen :: "error + 'a \<Rightarrow> ('a \<Rightarrow> error + 'b) \<Rightarrow> error + 'b" where
  "andThen r f = (case r of Inl e \<Rightarrow> Inl e | Inr x \<Rightarrow> f x)"

text \<open>The second half of \<^verbatim>\<open>Update\<close>: the scene mutation and the constant uploads.\<close>

definition UpdateConstants ::
  "'f DirectXMath \<Rightarrow> 'f GameTimer \<Rightarrow> 'f Waves \<Rightarrow> 'f TreeBillboardsApp \<Rightarrow>
   error + 'f TreeBillboardsApp" where
  "UpdateConstants M gt w s =
     andThen (andThen (andThen (andThen
       (AnimateMaterials M gt s)
       UpdateObjectCBs)
       UpdateMaterialCBs)
       (UpdateMainPassCB M gt))
       (UpdateWaves M w)"

definition OnKeyboardInput :: "'f TreeBillboardsApp \<Rightarrow> 'f TreeBillboardsApp" where
  "OnKeyboardInput s = s"

definition Update ::
  "'f DirectXMath \<Rightarrow> 'f GameTimer \<Rightarrow> 'f Waves \<Rightarrow> 'f TreeBillboardsApp \<Rightarrow>
   error + 'f TreeBillboardsApp" where
  "Update M gt w s =
     andThen (andThen
       (CycleFrameResource (UpdateCamera M (OnKeyboardInput s)))
       WaitForFrameResource)
       (UpdateConstants M gt w)"

subsection \<open>Draw\<close>

text \<open>
  The draws of one layer. Each pointer of the layer is followed to its render item, and
  the item's \<open>Geo\<close> and \<open>Mat\<close> pointers to their tables; \<open>p\<close> is the current frame
  resource, whose object and material buffers the constant-buffer views address. The
  byte offsets \<^verbatim>\<open>ri->ObjCBIndex*objCBByteSize\<close> and \<^verbatim>\<open>ri->Mat->MatCBIndex*matCBByteSize\<close>
  are products of 32-bit words and wrap around.
\<close>

definition objCBByteSize :: UINT where
  "objCBByteSize = CalcConstantBufferByteSize sizeofObjectConstants"

definition matCBByteSize :: UINT where
  "matCBByteSize = CalcConstantBufferByteSize sizeofMaterialConstants"

fun DrawRenderItems ::
  "'f TreeBillboardsApp \<Rightarrow> nat \<Rightarrow> nat list \<Rightarrow> error + 'f Command list" where
  "DrawRenderItems s p [] = Inr []"
| "DrawRenderItems s p (r # ritems) =
     (if r < length (mAllRitems s)
      then
        let ri = mAllRitems s ! r
        in case Geo ri of
             None \<Rightarrow> Inl NullPointer
           | Some geo \<Rightarrow>
               (case Mat ri of
                  None \<Rightarrow> Inl NullPointer
                | Some m \<Rightarrow>
                    (case map_of (mMaterials s) m of
                       None \<Rightarrow> Inl NullPointer
                     | Some mat \<Rightarrow>
                         andThen (DrawRenderItems s p ritems)
                           (\<lambda>cmds. Inr
                             ([IASetVertexBuffers geo,
                               IASetIndexBuffer geo,
                               IASetPrimitiveTopology (PrimitiveType ri),
                               SetGraphicsRootDescriptorTable 0 (DiffuseSrvHeapIndex mat),
                               SetGraphicsRootConstantBufferView 1
                                 (ObjectCBAddress p (unat (ObjCBIndex ri * objCBByteSize))),
                               SetGraphicsRootConstantBufferView 3
                                 (MaterialCBAddress p
                                    (unat (word_of_nat (MatCBIndex mat) * matCBByteSize))),
                               DrawIndexedInstanced (IndexCount ri) 1 (StartIndexLocation ri)
                                 (BaseVertexLocation ri) 0]
                              @ cmds))))
      else Inl NullPointer)"

text \<open>
  \<^verbatim>\<open>Draw\<close> records the frame into the command list, hands it to the queue, and then
  advances the fence: the current frame resource is stamped with the new fence value and
  a \<^verbatim>\<open>Signal\<close> of that value is queued behind the frame's commands. The swap chain
  (\<^verbatim>\<open>Present\<close>, \<^verbatim>\<open>mCurrBackBuffer\<close>) is outside the model.
\<close>

definition Draw :: "'f TreeBillboardsApp \<Rightarrow> error + 'f TreeBillboardsApp" where
  "Draw s =
     (case CurrFrameResource s of
        Inl e \<Rightarrow> Inl e
      | Inr (p, fr) \<Rightarrow>
          andThen (DrawRenderItems s p (mRitemLayer s Opaque)) (\<lambda>opaque.
          andThen (DrawRenderItems s p (mRitemLayer s AlphaTested)) (\<lambda>alphaTested.
          andThen (DrawRenderItems s p (mRitemLayer s AlphaTestedTreeSprites)) (\<lambda>treeSprites.
          andThen (DrawRenderItems s p (mRitemLayer s Transparent)) (\<lambda>transparent.
            let cmds =
                  [Reset ''opaque'',
                   RSSetViewports,
                   RSSetScissorRects,
                   ResourceBarrierToRenderTarget,
                   ClearRenderTargetView (FogColor (mMainPassCB s)),
                   ClearDepthStencilView,
                   OMSetRenderTargets,
                   SetDescriptorHeaps,
                   SetGraphicsRootSignature,
                   SetGraphicsRootConstantBufferView 2 (PassCBAddress p 0)]
                  @ opaque
                  @ [SetPipelineState ''alphaTested''] @ alphaTested
                  @ [SetPipelineState ''treeSprites''] @ treeSprites
                  @ [SetPipelineState ''transparent''] @ transparent
                  @ [ResourceBarrierToPresent, Close];
                fence = mCurrentFence s + 1
            in Inr (s\<lparr>mCommandList := cmds,
                      mCurrentFence := fence,
                      mFrameResources := (mFrameResources s)[p := fr\<lparr>Fence := fence\<rparr>],
                      mCommandQueue := mCommandQueue s @ [fence]\<rparr>))))))"

text \<open>
  Modelled from the spec: one iteration of the application loop (\<^verbatim>\<open>D3DApp::Run\<close> is not
  among the sources): \<^verbatim>\<open>Update\<close>, then \<^verbatim>\<open>Draw\<close>. The GPU runs beside the CPU: the
  input of a frame says how many pending signals the GPU retires on its own before the
  frame starts, and carries the timer and the wave solution of the frame.
\<close>

type_synonym 'f FrameInput = "nat \<times> 'f GameTimer \<times> 'f Waves"

definition runFrame ::
  "'f DirectXMath \<Rightarrow> 'f FrameInput \<Rightarrow> 'f TreeBillboardsApp \<Rightarrow> error + 'f TreeBillboardsApp" where
  "runFrame M inp s =
     (case inp of
        (n, gt, w) \<Rightarrow> andThen (Update M gt w ((GpuRetire ^^ n) s)) Draw)"

fun runFrames ::
  "'f DirectXMath \<Rightarrow> 'f FrameInput list \<Rightarrow> 'f TreeBillboardsApp \<Rightarrow>
   error + 'f TreeBillboardsApp" where
  "runFrames M [] s = Inr s"
| "runFrames M (inp # inps) s = andThen (runFrame M inp s) (runFrames M inps)"

subsection \<open>Building the scene\<close>

text \<open>
  \<^verbatim>\<open>BuildMaterials\<close>: the table, empty before, receives thirteen materials, listed in
  the order of their insertion. C++ leaves the order in which an \<^verbatim>\<open>unordered_map\<close> is
  iterated unspecified; the order of the list stands for it, and what is stated about
  materials below is stated by name or as a set, not by position.
\<close>

definition BuildMaterial ::
  "'f DirectXMath \<Rightarrow> nat \<Rightarrow> 'f XMFLOAT4 \<Rightarrow> rat \<Rightarrow> rat \<Rightarrow> 'f Material" where
  "BuildMaterial M i albedo r0 roughness =
     (NewMaterial M)
       \<lparr>MatCBIndex := i,
        DiffuseSrvHeapIndex := i,
        Material.DiffuseAlbedo := albedo,
        Material.FresnelR0 := (flt M r0, flt M r0, flt M r0),
        Material.Roughness := flt M roughness\<rparr>"

definition BuildMaterials :: "'f DirectXMath \<Rightarrow> 'f TreeBillboardsApp \<Rightarrow> 'f TreeBillboardsApp" where
  "BuildMaterials M s =
     (let white = (flt M 1, flt M 1, flt M 1, flt M 1)
      in s\<lparr>mMaterials :=
        [(''grass0'', BuildMaterial M 0 white (1 / 100) 1),
         (''water'', BuildMaterial M 1 (flt M 1, flt M 1, flt M 1, flt M (1 / 2)) (1 / 10) 0),
         (''wirefence'', BuildMaterial M 2 white (2 / 100) (1 / 4)),
         (''treeSprites'', BuildMaterial M 12 white (1 / 100) (1 / 8)),
         (''bricks0'', BuildMaterial M 3 white (2 / 100) (1 / 2)),
         (''stone0'', BuildMaterial M 4 white (5 / 100) (1 / 2)),
         (''tile0'', BuildMaterial M 5 white (2 / 100) (3 / 10)),
         (''wood0'', BuildMaterial M 6 white (2 / 100) 1),
         (''ice0'', BuildMaterial M 7 white (2 / 100) 0),
         (''gate0'', BuildMaterial M 8 (flt M 1, flt M 1, flt M 1, flt M 0) (2 / 100) (3 / 10)),
         (''roof0'', BuildMaterial M 9 white (2 / 100) (1 / 2)),
         (''metal0'', BuildMaterial M 10 white (2 / 100) (1 / 10)),
         (''bricks2'', BuildMaterial M 11 white (2 / 100) 1)]\<rparr>)"

text \<open>
  \<^verbatim>\<open>BuildRenderItems\<close>. \<open>DrawArgs geo submesh\<close> gives the index count, start index and
  base vertex of a submesh; geometry generation is outside the model. \<open>BuildRenderItem\<close>
  sets what every item of the scene sets after its construction; the texture transform
  and the topology are set by the items that set them in the source.
\<close>

type_synonym DrawArgs = "string \<Rightarrow> string \<Rightarrow> UINT \<times> UINT \<times> int"

definition BuildRenderItem ::
  "'f DirectXMath \<Rightarrow> DrawArgs \<Rightarrow> 'f XMFLOAT4X4 \<Rightarrow> UINT \<Rightarrow> string \<Rightarrow> string \<Rightarrow> string \<Rightarrow>
   'f RenderItem" where
  "BuildRenderItem M args world i mat geo submesh =
     (case args geo submesh of
        (indexCount, startIndexLocation, baseVertexLocation) \<Rightarrow>
          (NewRenderItem M)
            \<lparr>RenderItem.World := world,
             ObjCBIndex := i,
             Mat := Some mat,
             Geo := Some geo,
             PrimitiveType := D3D_PRIMITIVE_TOPOLOGY_TRIANGLELIST,
             IndexCount := indexCount,
             StartIndexLocation := startIndexLocation,
             BaseVertexLocation := baseVertexLocation\<rparr>)"

definition ScaleTranslate ::
  "'f DirectXMath \<Rightarrow> rat \<times> rat \<times> rat \<Rightarrow> 'f \<times> 'f \<times> 'f \<Rightarrow> 'f XMFLOAT4X4" where
  "ScaleTranslate M sc t =
     (case (sc, t) of
        ((sx, sy, sz), (tx, ty, tz)) \<Rightarrow>
          XMMatrixMultiply M (XMMatrixScaling M (flt M sx) (flt M sy) (flt M sz))
            (XMMatrixTranslation M tx ty tz))"

text \<open>The float \<^verbatim>\<open>a + i * b\<close> of the two loops, with the loop counter \<open>i\<close> an \<^verbatim>\<open>int\<close>.\<close>

definition affine :: "'f DirectXMath \<Rightarrow> rat \<Rightarrow> int \<Rightarrow> rat \<Rightarrow> 'f" where
  "affine M a i b = fadd M (flt M a) (fmul M (fint M i) (flt M b))"

definition wavesRitem :: "'f DirectXMath \<Rightarrow> DrawArgs \<Rightarrow> 'f RenderItem" where
  "wavesRitem M args =
     (BuildRenderItem M args (Identity4x4 M) 0 ''water'' ''waterGeo'' ''grid'')
       \<lparr>RenderItem.TexTransform := XMMatrixScaling M (flt M 5) (flt M 5) (flt M 1)\<rparr>"

definition treeSpritesRitem :: "'f DirectXMath \<Rightarrow> DrawArgs \<Rightarrow> 'f RenderItem" where
  "treeSpritesRitem M args =
     (BuildRenderItem M args (Identity4x4 M) 1 ''treeSprites'' ''treeSpritesGeo'' ''points'')
       \<lparr>PrimitiveType := D3D_PRIMITIVE_TOPOLOGY_POINTLIST\<rparr>"

definition pedastalRitem :: "'f DirectXMath \<Rightarrow> DrawArgs \<Rightarrow> 'f RenderItem" where
  "pedastalRitem M args =
     (BuildRenderItem M args
        (ScaleTranslate M (2, 2, 2) (flt M 0, flt M (3 / 2), flt M 0))
        2 ''metal0'' ''shapeGeo'' ''pedastal'')
       \<lparr>RenderItem.TexTransform := XMMatrixScaling M (flt M 1) (flt M 1) (flt M 1)\<rparr>"

definition diamondRitem :: "'f DirectXMath \<Rightarrow> DrawArgs \<Rightarrow> 'f RenderItem" where
  "diamondRitem M args =
     BuildRenderItem M args
       (ScaleTranslate M (2, 2, 2) (flt M 0, flt M (5 / 2), flt M 0))
       3 ''ice0'' ''shapeGeo'' ''diamond''"

definition gridRitem :: "'f DirectXMath \<Rightarrow> DrawArgs \<Rightarrow> 'f RenderItem" where
  "gridRitem M args =
     BuildRenderItem M args
       (ScaleTranslate M (15, 1, 19) (flt M 0, flt M 1, flt M 0))
       4 ''bricks2'' ''shapeGeo'' ''grid''"

definition frontWallRitem :: "'f DirectXMath \<Rightarrow> DrawArgs \<Rightarrow> int \<Rightarrow> 'f RenderItem" where
  "frontWallRitem M args i =
     BuildRenderItem M args
       (ScaleTranslate M (1, 1, 1) (flt M 0, flt M (7 / 2), affine M (- 875 / 100) i 18))
       (5 + 2 * word_of_int i) ''bricks0'' ''shapeGeo'' ''wall''"

definition sideWallRitem :: "'f DirectXMath \<Rightarrow> DrawArgs \<Rightarrow> int \<Rightarrow> 'f RenderItem" where
  "sideWallRitem M args i =
     BuildRenderItem M args
       (ScaleTranslate M (1 / 10, 1, 89 / 10) (affine M (- 7) i 14, flt M (7 / 2), flt M 0))
       (6 + 2 * word_of_int i) ''bricks0'' ''shapeGeo'' ''wall''"

definition rampRitem :: "'f DirectXMath \<Rightarrow> DrawArgs \<Rightarrow> 'f RenderItem" where
  "rampRitem M args =
     BuildRenderItem M args
       (ScaleTranslate M (2, 2, 2) (flt M 0, flt M (3 / 2), flt M 0))
       9 ''wood0'' ''shapeGeo'' ''ramp''"

definition leftCylRitem :: "'f DirectXMath \<Rightarrow> DrawArgs \<Rightarrow> int \<Rightarrow> 'f RenderItem" where
  "leftCylRitem M args i =
     BuildRenderItem M args
       (XMMatrixTranslation M (flt M (- 15 / 2)) (flt M (5 / 2)) (affine M (- 10) i 20))
       (10 + 4 * word_of_int i) ''bricks0'' ''shapeGeo'' ''cylinder''"

definition rightCylRitem :: "'f DirectXMath \<Rightarrow> DrawArgs \<Rightarrow> int \<Rightarrow> 'f RenderItem" where
  "rightCylRitem M args i =
     BuildRenderItem M args
       (XMMatrixTranslation M (flt M (15 / 2)) (flt M (5 / 2)) (affine M (- 10) i 20))
       (11 + 4 * word_of_int i) ''bricks0'' ''shapeGeo'' ''cylinder''"

definition frontPyramidRitem :: "'f DirectXMath \<Rightarrow> DrawArgs \<Rightarrow> int \<Rightarrow> 'f RenderItem" where
  "frontPyramidRitem M args i =
     BuildRenderItem M args
       (ScaleTranslate M (1, 2, 1) (affine M (- 15 / 2) i 15, flt M 9, flt M (- 10)))
       (12 + 4 * word_of_int i) ''roof0'' ''shapeGeo'' ''pyramid''"

definition backPyramidRitem :: "'f DirectXMath \<Rightarrow> DrawArgs \<Rightarrow> int \<Rightarrow> 'f RenderItem" where
  "backPyramidRitem M args i =
     BuildRenderItem M args
       (ScaleTranslate M (1, 2, 1) (affine M (- 15 / 2) i 15, flt M 9, flt M 10))
       (13 + 4 * word_of_int i) ''roof0'' ''shapeGeo'' ''pyramid''"

definition kiteRitem :: "'f DirectXMath \<Rightarrow> DrawArgs \<Rightarrow> 'f RenderItem" where
  "kiteRitem M args =
     BuildRenderItem M args
       (ScaleTranslate M (2, 2, 2) (flt M 0, flt M 2, flt M (37 / 4)))
       18 ''metal0'' ''shapeGeo'' ''kite''"

definition pentagonRitem :: "'f DirectXMath \<Rightarrow> DrawArgs \<Rightarrow> 'f RenderItem" where
  "pentagonRitem M args =
     BuildRenderItem M args
       (ScaleTranslate M (2, 2, 2) (flt M 0, flt M (7 / 2), flt M (- 875 / 100)))
       19 ''gate0'' ''shapeGeo'' ''pentagon''"

definition grid2Ritem :: "'f DirectXMath \<Rightarrow> DrawArgs \<Rightarrow> 'f RenderItem" where
  "grid2Ritem M args =
     BuildRenderItem M args
       (ScaleTranslate M (30, 1, 30) (flt M 0, flt M (9 / 10), flt M 0))
       20 ''grass0'' ''shapeGeo'' ''grid''"

text \<open>
  The items in the order in which \<^verbatim>\<open>mAllRitems\<close> receives them (positions 0 to 20), and
  the layers in the order of their \<^verbatim>\<open>push_back\<close>, each pointer written as the position
  that its item takes in \<open>mAllRitems\<close>: the walls 0 to 3, the cylinders and pyramids 4 to
  11, then grid2 12, pentagon 13, kite 14, ramp 15, grid 16, diamond 17, pedastal 18,
  waves 19 and the tree sprites 20.
\<close>

definition BuildRenderItems ::
  "'f DirectXMath \<Rightarrow> DrawArgs \<Rightarrow> 'f TreeBillboardsApp \<Rightarrow> 'f TreeBillboardsApp" where
  "BuildRenderItems M args s =
     s\<lparr>mWavesRitem := Some 19,
       mRitemLayer := (mRitemLayer s)
         (Transparent := mRitemLayer s Transparent @ [19],
          AlphaTestedTreeSprites := mRitemLayer s AlphaTestedTreeSprites @ [20],
          Opaque := mRitemLayer s Opaque @
            [18, 17, 16, 0, 1, 2, 3, 15, 4, 5, 6, 7, 8, 9, 10, 11, 14, 13, 12]),
       mAllRitems := mAllRitems s @
         [frontWallRitem M args 0, sideWallRitem M args 0,
          frontWallRitem M args 1, sideWallRitem M args 1,
          leftCylRitem M args 0, rightCylRitem M args 0,
          frontPyramidRitem M args 0, backPyramidRitem M args 0,
          leftCylRitem M args 1, rightCylRitem M args 1,
          frontPyramidRitem M args 1, backPyramidRitem M args 1,
          grid2Ritem M args, pentagonRitem M args, kiteRitem M args, rampRitem M args,
          gridRitem M args, diamondRitem M args, pedastalRitem M args,
          wavesRitem M args, treeSpritesRitem M args]\<rparr>"

text \<open>
  \<^verbatim>\<open>BuildFrameResources\<close>: every frame resource gets one pass block, one object entry
  per render item and one material entry per material present at this moment.
\<close>

definition BuildFrameResources ::
  "nat \<Rightarrow> 'f TreeBillboardsApp \<Rightarrow> 'f TreeBillboardsApp" where
  "BuildFrameResources waveVertexCount s =
     s\<lparr>mFrameResources := mFrameResources s @
         replicate (nat gNumFrameResources)
           (NewFrameResource 1 (length (mAllRitems s)) (length (mMaterials s)) waveVertexCount)\<rparr>"

text \<open>
  The application object before \<^verbatim>\<open>Initialize\<close>, with the member initialisers of the
  class. The members inherited from \<^verbatim>\<open>D3DApp\<close>, the pass constants and the camera
  angles are taken from \<open>base\<close>.
\<close>

definition NewTreeBillboardsApp :: "'f TreeBillboardsApp \<Rightarrow> 'f TreeBillboardsApp" where
  "NewTreeBillboardsApp base =
     base\<lparr>mFrameResources := [],
          mCurrFrameResource := None,
          mCurrFrameResourceIndex := 0,
          mMaterials := [],
          mAllRitems := [],
          mRitemLayer := (\<lambda>layer. []),
          mWavesRitem := None,
          VertexBufferGPU := (\<lambda>g. None)\<rparr>"

text \<open>
  The part of \<^verbatim>\<open>Initialize\<close> that builds what the frame loop works on, in the order of
  the source: materials, render items, frame resources. The calls of \<^verbatim>\<open>Initialize\<close> into
  \<^verbatim>\<open>D3DApp\<close> (\<^verbatim>\<open>D3DApp::Initialize\<close>, \<^verbatim>\<open>FlushCommandQueue\<close>) touch only members
  inherited from \<^verbatim>\<open>D3DApp\<close>; the fence counter, the completed value and the queue of
  \<open>base\<close> stand for what they leave behind.
\<close>

definition Initialize ::
  "'f DirectXMath \<Rightarrow> DrawArgs \<Rightarrow> nat \<Rightarrow> 'f TreeBillboardsApp \<Rightarrow> 'f TreeBillboardsApp" where
  "Initialize M args waveVertexCount s =
     BuildFrameResources waveVertexCount (BuildRenderItems M args (BuildMaterials M s))"

section \<open>Observations and invariants\<close>

text \<open>
  What one pass of an upload loop does to an entity, and the writes that the pass adds to
  the buffer of the current frame resource, newest first.
\<close>

definition ritemAfterUpload :: "'f RenderItem \<Rightarrow> 'f RenderItem" where
  "ritemAfterUpload e =
     (if RenderItem.NumFramesDirty e > 0
      then e\<lparr>RenderItem.NumFramesDirty := RenderItem.NumFramesDirty e - 1\<rparr>
      else e)"

definition materialAfterUpload :: "'f Material \<Rightarrow> 'f Material" where
  "materialAfterUpload mat =
     (if Material.NumFramesDirty mat > 0
      then mat\<lparr>Material.NumFramesDirty := Material.NumFramesDirty mat - 1\<rparr>
      else mat)"

definition objectWrites :: "'f RenderItem list \<Rightarrow> (nat \<times> 'f ObjectConstants) list" where
  "objectWrites es =
     rev (map (\<lambda>e. (unat (ObjCBIndex e), objConstants e))
            (filter (\<lambda>e. RenderItem.NumFramesDirty e > 0) es))"

definition materialWrites ::
  "(string \<times> 'f Material) list \<Rightarrow> (nat \<times> 'f MaterialConstants) list" where
  "materialWrites es =
     rev (map (\<lambda>e. (MatCBIndex (snd e), matConstants (snd e)))
            (filter (\<lambda>e. Material.NumFramesDirty (snd e) > 0) es))"

text \<open>The writes that a buffer has received between two moments, newest first.\<close>

definition WritesSince :: "'c UploadBuffer \<Rightarrow> 'c UploadBuffer \<Rightarrow> (nat \<times> 'c) list" where
  "WritesSince before after =
     take (length (mMappedData after) - length (mMappedData before)) (mMappedData after)"

text \<open>The frame resource that \<^verbatim>\<open>Update\<close> moves to.\<close>

definition nextSlot :: "'f TreeBillboardsApp \<Rightarrow> nat" where
  "nextSlot s = nat ((mCurrFrameResourceIndex s + 1) mod 3)"

text \<open>
  The ring index and the fence value of every frame of a run, in the order of the frames;
  the lists end where a frame does not return.
\<close>

fun ringIndices ::
  "'f DirectXMath \<Rightarrow> 'f FrameInput list \<Rightarrow> 'f TreeBillboardsApp \<Rightarrow> int list" where
  "ringIndices M [] s = []"
| "ringIndices M (inp # inps) s =
     (case runFrame M inp s of
        Inl e \<Rightarrow> []
      | Inr s' \<Rightarrow> mCurrFrameResourceIndex s' # ringIndices M inps s')"

fun fenceValues ::
  "'f DirectXMath \<Rightarrow> 'f FrameInput list \<Rightarrow> 'f TreeBillboardsApp \<Rightarrow> FenceValue list" where
  "fenceValues M [] s = []"
| "fenceValues M (inp # inps) s =
     (case runFrame M inp s of
        Inl e \<Rightarrow> []
      | Inr s' \<Rightarrow> mCurrentFence s' # fenceValues M inps s')"

text \<open>
  The pointers that a frame follows are valid: three frame resources, a ring index that
  is not negative, the water material, the waves item with its geometry, and for every
  pointer of a layer its item, its geometry and its material.
\<close>

definition RitemOK :: "'f TreeBillboardsApp \<Rightarrow> nat \<Rightarrow> bool" where
  "RitemOK s r \<longleftrightarrow>
     r < length (mAllRitems s) \<and>
     Geo (mAllRitems s ! r) \<noteq> None \<and>
     (case Mat (mAllRitems s ! r) of
        None \<Rightarrow> False
      | Some m \<Rightarrow> map_of (mMaterials s) m \<noteq> None)"

definition SceneOK :: "'f TreeBillboardsApp \<Rightarrow> bool" where
  "SceneOK s \<longleftrightarrow>
     length (mFrameResources s) = nat gNumFrameResources \<and>
     0 \<le> mCurrFrameResourceIndex s \<and>
     map_of (mMaterials s) ''water'' \<noteq> None \<and>
     (case mWavesRitem s of
        None \<Rightarrow> False
      | Some r \<Rightarrow> r < length (mAllRitems s) \<and> Geo (mAllRitems s ! r) \<noteq> None) \<and>
     (\<forall>layer \<in> set [Opaque, Transparent, AlphaTested, AlphaTestedTreeSprites].
        \<forall>r \<in> set (mRitemLayer s layer). RitemOK s r)"

text \<open>
  The fence is consistent: the completed value and the pending signals increase in the
  order of their submission and none exceeds the last value allocated, and the stamp of
  every frame resource is 0, already completed, or a pending signal.
\<close>

definition FenceOK :: "'f TreeBillboardsApp \<Rightarrow> bool" where
  "FenceOK s \<longleftrightarrow>
     sorted (mFence s # mCommandQueue s) \<and>
     (\<forall>v \<in> set (mFence s # mCommandQueue s). v \<le> mCurrentFence s) \<and>
     (\<forall>fr \<in> set (mFrameResources s).
        Fence fr = 0 \<or> Fence fr \<le> mFence s \<or> Fence fr \<in> set (mCommandQueue s))"

definition DirtyOK :: "'f TreeBillboardsApp \<Rightarrow> bool" where
  "DirtyOK s \<longleftrightarrow>
     (\<forall>e \<in> set (mAllRitems s).
        0 \<le> RenderItem.NumFramesDirty e \<and> RenderItem.NumFramesDirty e \<le> gNumFrameResources) \<and>
     (\<forall>e \<in> set (mMaterials s).
        0 \<le> Material.NumFramesDirty (snd e) \<and>
        Material.NumFramesDirty (snd e) \<le> gNumFrameResources)"


text \<open>
  The steps that touch a dirty counter, to be run in any order and any number: the scene
  mutation, which marks the water material dirty, and the two upload loops.
\<close>

datatype 'f TrackerStep =
  StepAnimateMaterials "'f GameTimer" | StepUpdateObjectCBs | StepUpdateMaterialCBs

fun trackerStep ::
  "'f DirectXMath \<Rightarrow> 'f TrackerStep \<Rightarrow> 'f TreeBillboardsApp \<Rightarrow> error + 'f TreeBillboardsApp" where
  "trackerStep M (StepAnimateMaterials gt) s = AnimateMaterials M gt s"
| "trackerStep M StepUpdateObjectCBs s = UpdateObjectCBs s"
| "trackerStep M StepUpdateMaterialCBs s = UpdateMaterialCBs s"

fun trackerSteps ::
  "'f DirectXMath \<Rightarrow> 'f TrackerStep list \<Rightarrow> 'f TreeBillboardsApp \<Rightarrow>
   error + 'f TreeBillboardsApp" where
  "trackerSteps M [] s = Inr s"
| "trackerSteps M (st # sts) s = andThen (trackerStep M st s) (trackerSteps M sts)"

text \<open>
  What the GPU draws when it runs a command list: for every draw call, the pipeline state
  in effect and the address of the object constants bound to root parameter 1 at that
  moment.
\<close>

fun GpuDraws ::
  "string \<Rightarrow> BufferAddress option \<Rightarrow> 'f Command list \<Rightarrow> (string \<times> BufferAddress option) list" where
  "GpuDraws pso obj [] = []"
| "GpuDraws pso obj (Reset pso' # cs) = GpuDraws pso' obj cs"
| "GpuDraws pso obj (SetPipelineState pso' # cs) = GpuDraws pso' obj cs"
| "GpuDraws pso obj (SetGraphicsRootConstantBufferView n a # cs) =
     GpuDraws pso (if n = 1 then Some a else obj) cs"
| "GpuDraws pso obj (DrawIndexedInstanced ic inst si bv sinst # cs) =
     (pso, obj) # GpuDraws pso obj cs"
| "GpuDraws pso obj (c # cs) = GpuDraws pso obj cs"

definition LayerDraws ::
  "'f TreeBillboardsApp \<Rightarrow> nat \<Rightarrow> string \<Rightarrow> RenderLayer \<Rightarrow> (string \<times> BufferAddress option) list" where
  "LayerDraws s p pso layer =
     map (\<lambda>r. (pso, Some (ObjectCBAddress p
                               (unat (ObjCBIndex (mAllRitems s ! r) * objCBByteSize)))))
       (mRitemLayer s layer)"

section \<open>A concrete scene\<close>

text \<open>
  The instance in which a float carries no information, and the scene of the program
  built in it. The concrete states below start from this scene.
\<close>

definition M0 :: "unit DirectXMath" where
  "M0 =
     \<lparr>flt = (\<lambda>q. ()), fint = (\<lambda>i. ()),
      fadd = (\<lambda>a b. ()), fsub = (\<lambda>a b. ()), fmul = (\<lambda>a b. ()), fdiv = (\<lambda>a b. ()),
      fge = (\<lambda>a b. False), sinf = (\<lambda>a. ()), cosf = (\<lambda>a. ()),
      XMMatrixMultiply = (\<lambda>a b ij. ()), XMMatrixInverse = (\<lambda>a ij. ()),
      XMMatrixLookAtLH = (\<lambda>a b c ij. ()),
      XMMatrixScaling = (\<lambda>a b c ij. ()), XMMatrixTranslation = (\<lambda>a b c ij. ())\<rparr>"

definition pass0 :: "unit PassConstants" where
  "pass0 =
     \<lparr>View = (\<lambda>ij. ()), InvView = (\<lambda>ij. ()), Proj = (\<lambda>ij. ()), InvProj = (\<lambda>ij. ()),
      ViewProj = (\<lambda>ij. ()), InvViewProj = (\<lambda>ij. ()), EyePosW = ((), (), ()),
      RenderTargetSize = ((), ()), InvRenderTargetSize = ((), ()), NearZ = (), FarZ = (),
      TotalTime = (), DeltaTime = (), AmbientLight = ((), (), (), ()),
      FogColor = ((), (), (), ()),
      Lights = (\<lambda>i. \<lparr>Strength = ((), (), ()), Position = ((), (), ())\<rparr>)\<rparr>"

definition base0 :: "unit TreeBillboardsApp" where
  "base0 =
     \<lparr>mFrameResources = [], mCurrFrameResource = None, mCurrFrameResourceIndex = 0,
      mMaterials = [], mAllRitems = [], mRitemLayer = (\<lambda>layer. []), mWavesRitem = None,
      VertexBufferGPU = (\<lambda>g. None), mMainPassCB = pass0, mEyePos = ((), (), ()),
      mView = (\<lambda>ij. ()), mProj = (\<lambda>ij. ()), mTheta = (), mPhi = (), mRadius = (),
      mClientWidth = 800, mClientHeight = 600,
      mCurrentFence = 0, mFence = 0, mCommandQueue = [], mCommandList = []\<rparr>"

definition args0 :: DrawArgs where
  "args0 geo submesh = (6, 0, 0)"

definition app0 :: "unit TreeBillboardsApp" where
  "app0 = Initialize M0 args0 4 (NewTreeBillboardsApp base0)"

definition inp0 :: "unit FrameInput" where
  "inp0 =
     (0, \<lparr>GameTimer.DeltaTime = (), GameTimer.TotalTime = ()\<rparr>,
      \<lparr>Width = (), Depth = (), Solution = [(((), (), ()), ((), (), ()))]\<rparr>)"

text \<open>
  Three frames are in flight and the GPU has finished none of them: the ring is back at
  index 0, and the frame resource that comes next, at index 1, carries the stamp 1.
\<close>

definition appInFlight :: "unit TreeBillboardsApp" where
  "appInFlight =
     app0\<lparr>mFrameResources :=
            [(NewFrameResource 1 21 13 4)\<lparr>Fence := 3\<rparr>,
             (NewFrameResource 1 21 13 4)\<lparr>Fence := 1\<rparr>,
             (NewFrameResource 1 21 13 4)\<lparr>Fence := 2\<rparr>],
          mCurrFrameResource := Some 0,
          mCurrFrameResourceIndex := 0,
          mCurrentFence := 3,
          mFence := 0,
          mCommandQueue := [1, 2, 3]\<rparr>"


section \<open>A scene in symbolic floats\<close>

text \<open>
  The instance in which a float is the expression that computes it: every operation of
  the parameter record builds a term, so that two floats are equal only if they were
  computed the same way. An entry of a matrix that DirectXMath returns names the
  function, its matrix and scalar arguments, and the row and column. A comparison is
  decided where both sides are rational arithmetic, and is false otherwise. The
  application object starts with the member initialisers of the class and the projection
  that \<^verbatim>\<open>OnResize\<close> stores, for a client area of 800 by 600.
\<close>

datatype SymFloat =
  FLit rat | FInt int
| FAdd SymFloat SymFloat | FSub SymFloat SymFloat | FMul SymFloat SymFloat | FDiv SymFloat SymFloat
| FSin SymFloat | FCos SymFloat
| FEntry string "(nat \<times> nat \<Rightarrow> SymFloat) list" "SymFloat list" nat nat

fun ratOf :: "SymFloat \<Rightarrow> rat option" where
  "ratOf (FLit q) = Some q"
| "ratOf (FInt i) = Some (of_int i)"
| "ratOf (FAdd a b) =
     (case (ratOf a, ratOf b) of (Some x, Some y) \<Rightarrow> Some (x + y) | _ \<Rightarrow> None)"
| "ratOf (FSub a b) =
     (case (ratOf a, ratOf b) of (Some x, Some y) \<Rightarrow> Some (x - y) | _ \<Rightarrow> None)"
| "ratOf (FMul a b) =
     (case (ratOf a, ratOf b) of (Some x, Some y) \<Rightarrow> Some (x * y) | _ \<Rightarrow> None)"
| "ratOf (FDiv a b) =
     (case (ratOf a, ratOf b) of
        (Some x, Some y) \<Rightarrow> if y = 0 then None else Some (x / y)
      | _ \<Rightarrow> None)"
| "ratOf (FSin a) = None"
| "ratOf (FCos a) = None"
| "ratOf (FEntry f ms xs i j) = None"

definition MSym :: "SymFloat DirectXMath" where
  "MSym =
     \<lparr>flt = FLit, fint = FInt, fadd = FAdd, fsub = FSub, fmul = FMul, fdiv = FDiv,
      fge = (\<lambda>a b. case (ratOf a, ratOf b) of (Some x, Some y) \<Rightarrow> y \<le> x | _ \<Rightarrow> False),
      sinf = FSin, cosf = FCos,
      XMMatrixMultiply = (\<lambda>a b (i, j). FEntry ''XMMatrixMultiply'' [a, b] [] i j),
      XMMatrixInverse = (\<lambda>a (i, j). FEntry ''XMMatrixInverse'' [a] [] i j),
      XMMatrixLookAtLH =
        (\<lambda>(p1, p2, p3, p4) (t1, t2, t3, t4) (u1, u2, u3, u4) (i, j).
           FEntry ''XMMatrixLookAtLH'' [] [p1, p2, p3, p4, t1, t2, t3, t4, u1, u2, u3, u4] i j),
      XMMatrixScaling = (\<lambda>x y z (i, j). FEntry ''XMMatrixScaling'' [] [x, y, z] i j),
      XMMatrixTranslation = (\<lambda>x y z (i, j). FEntry ''XMMatrixTranslation'' [] [x, y, z] i j)\<rparr>"

definition passSym :: "SymFloat PassConstants" where
  "passSym =
     \<lparr>View = Identity4x4 MSym, InvView = Identity4x4 MSym, Proj = Identity4x4 MSym,
      InvProj = Identity4x4 MSym, ViewProj = Identity4x4 MSym, InvViewProj = Identity4x4 MSym,
      EyePosW = (FLit 0, FLit 0, FLit 0),
      RenderTargetSize = (FLit 0, FLit 0), InvRenderTargetSize = (FLit 0, FLit 0),
      NearZ = FLit 0, FarZ = FLit 0, TotalTime = FLit 0, DeltaTime = FLit 0,
      AmbientLight = (FLit 0, FLit 0, FLit 0, FLit 1),
      FogColor = (FLit (7 / 10), FLit (7 / 10), FLit (7 / 10), FLit 1),
      Lights = (\<lambda>i. \<lparr>Strength = (FLit (1 / 2), FLit (1 / 2), FLit (1 / 2)),
                       Position = (FLit 0, FLit 0, FLit 0)\<rparr>)\<rparr>"

definition baseSym :: "SymFloat TreeBillboardsApp" where
  "baseSym =
     \<lparr>mFrameResources = [], mCurrFrameResource = None, mCurrFrameResourceIndex = 0,
      mMaterials = [], mAllRitems = [], mRitemLayer = (\<lambda>layer. []), mWavesRitem = None,
      VertexBufferGPU = (\<lambda>g. None), mMainPassCB = passSym,
      mEyePos = (FLit 0, FLit 0, FLit 0),
      mView = Identity4x4 MSym,
      mProj = (\<lambda>(i, j). FEntry ''XMMatrixPerspectiveFovLH'' []
                 [FMul (FLit (1 / 4)) (FLit (3141592654 / 1000000000)),
                  FDiv (FInt 800) (FInt 600), FLit 1, FLit 1000] i j),
      mTheta = FMul (FLit (3 / 2)) (FLit (3141592654 / 1000000000)),
      mPhi = FSub (FLit (1570796327 / 1000000000)) (FLit (1 / 10)),
      mRadius = FLit 50,
      mClientWidth = 800, mClientHeight = 600,
      mCurrentFence = 0, mFence = 0, mCommandQueue = [], mCommandList = []\<rparr>"

definition appSym :: "SymFloat TreeBillboardsApp" where
  "appSym = Initialize MSym args0 4 (NewTreeBillboardsApp baseSym)"

definition timerSym :: "SymFloat GameTimer" where
  "timerSym = \<lparr>GameTimer.DeltaTime = FLit (1 / 60), GameTimer.TotalTime = FLit 5\<rparr>"

definition wavesSym :: "SymFloat Waves" where
  "wavesSym =
     \<lparr>Width = FLit 128, Depth = FLit 128,
      Solution = [((FLit 0, FLit 0, FLit 0), (FLit 0, FLit 1, FLit 0))]\<rparr>"

section \<open>Properties of the frame loop\<close>

subsection \<open>The steps of Update and Draw\<close>

lemma andThen_Inl [simp]: "andThen (Inl e) f = Inl e"
  by (simp add: andThen_def)

lemma andThen_Inr [simp]: "andThen (Inr x) f = f x"
  by (simp add: andThen_def)

lemma andThen_eq_Inr: "andThen r f = Inr y \<longleftrightarrow> (\<exists>x. r = Inr x \<and> f x = Inr y)"
  by (cases r) simp_all

lemma UpdateObjectCBs_loop_eq:
  "UpdateObjectCBs_loop es cb =
     (map ritemAfterUpload es, cb\<lparr>mMappedData := objectWrites es @ mMappedData cb\<rparr>)"
proof (induction es arbitrary: cb)
  case Nil
  show ?case by (simp add: objectWrites_def)
next
  case (Cons e es)
  show ?case
    by (simp add: Cons.IH ritemAfterUpload_def objectWrites_def CopyData_def)
qed

lemma UpdateMaterialCBs_loop_eq:
  "UpdateMaterialCBs_loop es cb =
     (map (apsnd materialAfterUpload) es, cb\<lparr>mMappedData := materialWrites es @ mMappedData cb\<rparr>)"
proof (induction es arbitrary: cb)
  case Nil
  show ?case by (simp add: materialWrites_def)
next
  case (Cons e es)
  obtain name mat where e: "e = (name, mat)" by (cases e)
  show ?case
    by (simp add: e Cons.IH materialAfterUpload_def materialWrites_def CopyData_def)
qed

lemma CurrFrameResource_eq_Inr:
  "CurrFrameResource s = Inr (p, fr) \<longleftrightarrow>
     mCurrFrameResource s = Some p \<and> p < length (mFrameResources s) \<and> fr = mFrameResources s ! p"
  by (auto simp: CurrFrameResource_def split: option.splits)


lemma UpdateObjectCBs_eq:
  assumes "CurrFrameResource s = Inr (p, fr)"
  shows "UpdateObjectCBs s =
     Inr (s\<lparr>mAllRitems := map ritemAfterUpload (mAllRitems s),
            mFrameResources := (mFrameResources s)
              [p := fr\<lparr>ObjectCB := (ObjectCB fr)
                 \<lparr>mMappedData := objectWrites (mAllRitems s) @ mMappedData (ObjectCB fr)\<rparr>\<rparr>]\<rparr>)"
  using assms by (simp add: UpdateObjectCBs_def UpdateObjectCBs_loop_eq)

lemma UpdateMaterialCBs_eq:
  assumes "CurrFrameResource s = Inr (p, fr)"
  shows "UpdateMaterialCBs s =
     Inr (s\<lparr>mMaterials := map (apsnd materialAfterUpload) (mMaterials s),
            mFrameResources := (mFrameResources s)
              [p := fr\<lparr>MaterialCB := (MaterialCB fr)
                 \<lparr>mMappedData := materialWrites (mMaterials s) @ mMappedData (MaterialCB fr)\<rparr>\<rparr>]\<rparr>)"
  using assms by (simp add: UpdateMaterialCBs_def UpdateMaterialCBs_loop_eq)

lemma UpdateMainPassCB_eq:
  assumes "CurrFrameResource s = Inr (p, fr)"
  shows "UpdateMainPassCB M gt s =
     Inr (s\<lparr>mMainPassCB := MainPassConstants M gt s,
            mFrameResources := (mFrameResources s)
              [p := fr\<lparr>PassCB := (PassCB fr)
                 \<lparr>mMappedData := (0, MainPassConstants M gt s) # mMappedData (PassCB fr)\<rparr>\<rparr>]\<rparr>)"
  using assms by (simp add: UpdateMainPassCB_def CopyData_def Let_def)

lemma UpdateObjectCBs_InrD:
  assumes "UpdateObjectCBs s = Inr s'"
  obtains p fr where "CurrFrameResource s = Inr (p, fr)"
  using assms by (auto simp: UpdateObjectCBs_def split: sum.splits)

lemma UpdateMaterialCBs_InrD:
  assumes "UpdateMaterialCBs s = Inr s'"
  obtains p fr where "CurrFrameResource s = Inr (p, fr)"
  using assms by (auto simp: UpdateMaterialCBs_def split: sum.splits)

lemma AnimateMaterials_eq:
  assumes "map_of (mMaterials s) ''water'' = Some wm"
  shows "\<exists>tr. AnimateMaterials M gt s =
     Inr (s\<lparr>mMaterials := AList.update ''water''
              (wm\<lparr>Material.MatTransform := tr, Material.NumFramesDirty := gNumFrameResources\<rparr>)
              (mMaterials s)\<rparr>)"
  using assms unfolding AnimateMaterials_def Let_def
  by (simp only: option.case) (rule exI, rule refl)

lemma AnimateMaterials_InrD:
  assumes "AnimateMaterials M gt s = Inr s'"
  obtains wm where "map_of (mMaterials s) ''water'' = Some wm"
  using assms by (auto simp: AnimateMaterials_def split: option.splits)

lemma UpdateWaves_eq:
  assumes "CurrFrameResource s = Inr (p, fr)" and "mWavesRitem s = Some r"
    and "r < length (mAllRitems s)" and "Geo (mAllRitems s ! r) = Some g"
  shows "UpdateWaves M w s =
     Inr (s\<lparr>mFrameResources :=
              (mFrameResources s)[p := fr\<lparr>WavesVB := UpdateWaves_loop M w (WavesVB fr)\<rparr>],
            VertexBufferGPU := (VertexBufferGPU s)(g := Some p)\<rparr>)"
  using assms by (simp add: UpdateWaves_def Let_def)

lemma UpdateWaves_InrD:
  assumes "UpdateWaves M w s = Inr s'"
  obtains p fr r g where "CurrFrameResource s = Inr (p, fr)" and "mWavesRitem s = Some r"
    and "r < length (mAllRitems s)" and "Geo (mAllRitems s ! r) = Some g"
  using assms
  by (auto simp: UpdateWaves_def Let_def split: sum.splits option.splits if_splits)

lemma UpdateMainPassCB_InrD:
  assumes "UpdateMainPassCB M gt s = Inr s'"
  obtains p fr where "CurrFrameResource s = Inr (p, fr)"
  using assms by (auto simp: UpdateMainPassCB_def Let_def split: sum.splits)

lemma MainPassConstants_cong:
  assumes "mView t = mView s" "mProj t = mProj s" "mEyePos t = mEyePos s"
    "mClientWidth t = mClientWidth s" "mClientHeight t = mClientHeight s"
    "mMainPassCB t = mMainPassCB s"
  shows "MainPassConstants M gt t = MainPassConstants M gt s"
  using assms by (simp add: MainPassConstants_def)

lemma MainPassConstants_update [simp]:
  "MainPassConstants M gt (mAllRitems_update f1 s) = MainPassConstants M gt s"
  "MainPassConstants M gt (mMaterials_update f2 s) = MainPassConstants M gt s"
  "MainPassConstants M gt (mFrameResources_update f3 s) = MainPassConstants M gt s"
  "MainPassConstants M gt (mCurrFrameResource_update f4 s) = MainPassConstants M gt s"
  "MainPassConstants M gt (mCurrFrameResourceIndex_update f5 s) = MainPassConstants M gt s"
  "MainPassConstants M gt (mFence_update f6 s) = MainPassConstants M gt s"
  "MainPassConstants M gt (mCommandQueue_update f7 s) = MainPassConstants M gt s"
  by (rule MainPassConstants_cong; simp)+

lemma Geo_ritemAfterUpload [simp]: "Geo (ritemAfterUpload e) = Geo e"
  by (simp add: ritemAfterUpload_def)

lemma Mat_ritemAfterUpload [simp]: "Mat (ritemAfterUpload e) = Mat e"
  by (simp add: ritemAfterUpload_def)

lemma ObjCBIndex_ritemAfterUpload [simp]: "ObjCBIndex (ritemAfterUpload e) = ObjCBIndex e"
  by (simp add: ritemAfterUpload_def)

lemma UpdateConstants_UpdateWaves:
  assumes cur: "CurrFrameResource s = Inr (p, fr)"
    and water: "map_of (mMaterials s) ''water'' = Some wm"
  shows "\<exists>tr. UpdateConstants M gt w s =
     UpdateWaves M w
       (s\<lparr>mMaterials := map (apsnd materialAfterUpload)
              (AList.update ''water''
                 (wm\<lparr>Material.MatTransform := tr, Material.NumFramesDirty := gNumFrameResources\<rparr>)
                 (mMaterials s)),
          mAllRitems := map ritemAfterUpload (mAllRitems s),
          mMainPassCB := MainPassConstants M gt s,
          mFrameResources := (mFrameResources s)
            [p := fr\<lparr>ObjectCB := (ObjectCB fr)
                      \<lparr>mMappedData := objectWrites (mAllRitems s) @ mMappedData (ObjectCB fr)\<rparr>,
                    MaterialCB := (MaterialCB fr)
                      \<lparr>mMappedData :=
                         materialWrites (AList.update ''water''
                           (wm\<lparr>Material.MatTransform := tr,
                               Material.NumFramesDirty := gNumFrameResources\<rparr>)
                           (mMaterials s)) @ mMappedData (MaterialCB fr)\<rparr>,
                    PassCB := (PassCB fr)
                      \<lparr>mMappedData := (0, MainPassConstants M gt s) # mMappedData (PassCB fr)\<rparr>\<rparr>]\<rparr>)"
proof -
  from AnimateMaterials_eq [OF water, of M gt] obtain tr where
    a: "AnimateMaterials M gt s =
      Inr (s\<lparr>mMaterials := AList.update ''water''
              (wm\<lparr>Material.MatTransform := tr, Material.NumFramesDirty := gNumFrameResources\<rparr>)
              (mMaterials s)\<rparr>)"
    by blast
  define mats where "mats = AList.update ''water''
    (wm\<lparr>Material.MatTransform := tr, Material.NumFramesDirty := gNumFrameResources\<rparr>) (mMaterials s)"
  define pc where "pc = MainPassConstants M gt s"
  define fr1 where "fr1 = fr\<lparr>ObjectCB := (ObjectCB fr)
    \<lparr>mMappedData := objectWrites (mAllRitems s) @ mMappedData (ObjectCB fr)\<rparr>\<rparr>"
  define fr2 where "fr2 = fr1\<lparr>MaterialCB := (MaterialCB fr)
    \<lparr>mMappedData := materialWrites mats @ mMappedData (MaterialCB fr)\<rparr>\<rparr>"
  define fr3 where "fr3 = fr2\<lparr>PassCB := (PassCB fr)
    \<lparr>mMappedData := (0, pc) # mMappedData (PassCB fr)\<rparr>\<rparr>"
  define s1 where "s1 = s\<lparr>mMaterials := mats\<rparr>"
  define s2 where "s2 = s\<lparr>mMaterials := mats, mAllRitems := map ritemAfterUpload (mAllRitems s),
    mFrameResources := (mFrameResources s)[p := fr1]\<rparr>"
  define s3 where "s3 = s\<lparr>mMaterials := map (apsnd materialAfterUpload) mats,
    mAllRitems := map ritemAfterUpload (mAllRitems s),
    mFrameResources := (mFrameResources s)[p := fr2]\<rparr>"
  define s4 where "s4 = s\<lparr>mMaterials := map (apsnd materialAfterUpload) mats,
    mAllRitems := map ritemAfterUpload (mAllRitems s),
    mMainPassCB := pc,
    mFrameResources := (mFrameResources s)[p := fr3]\<rparr>"
  from cur have p: "mCurrFrameResource s = Some p" "p < length (mFrameResources s)"
    and fr: "fr = mFrameResources s ! p"
    by (simp_all add: CurrFrameResource_eq_Inr)
  have a': "AnimateMaterials M gt s = Inr s1"
    by (simp add: a s1_def mats_def)
  have c1: "CurrFrameResource s1 = Inr (p, fr)"
    using p fr by (simp add: CurrFrameResource_eq_Inr s1_def)
  have o: "UpdateObjectCBs s1 = Inr s2"
    by (subst UpdateObjectCBs_eq [OF c1]) (simp add: s1_def s2_def fr1_def)
  have c2: "CurrFrameResource s2 = Inr (p, fr1)"
    using p by (simp add: CurrFrameResource_eq_Inr s2_def)
  have m: "UpdateMaterialCBs s2 = Inr s3"
    by (subst UpdateMaterialCBs_eq [OF c2]) (simp add: s2_def s3_def fr2_def fr1_def)
  have c3: "CurrFrameResource s3 = Inr (p, fr2)"
    using p by (simp add: CurrFrameResource_eq_Inr s3_def)
  have u: "UpdateMainPassCB M gt s3 = Inr s4"
    by (subst UpdateMainPassCB_eq [OF c3]) (simp add: s3_def s4_def fr3_def fr2_def fr1_def pc_def)
  have "UpdateConstants M gt w s = UpdateWaves M w s4"
    by (simp add: UpdateConstants_def a' o m u)
  then show ?thesis
    unfolding s4_def mats_def pc_def fr3_def fr2_def fr1_def
    by (intro exI) simp
qed

lemma UpdateConstants_no_frame:
  assumes "CurrFrameResource s = Inl e"
  shows "\<exists>e'. UpdateConstants M gt w s = Inl e'"
proof (cases "AnimateMaterials M gt s")
  case (Inl a)
  then show ?thesis by (simp add: UpdateConstants_def)
next
  case (Inr s1)
  then obtain wm where wm: "map_of (mMaterials s) ''water'' = Some wm"
    by (rule AnimateMaterials_InrD)
  from AnimateMaterials_eq [OF wm, of M gt] Inr
  have "CurrFrameResource s1 = CurrFrameResource s"
    by (auto simp: CurrFrameResource_def split: option.splits)
  with assms have "UpdateObjectCBs s1 = Inl e"
    by (simp add: UpdateObjectCBs_def)
  with Inr show ?thesis by (simp add: UpdateConstants_def)
qed

lemma UpdateConstants_InrD:
  assumes "UpdateConstants M gt w s = Inr s'"
  obtains p fr wm r g where "CurrFrameResource s = Inr (p, fr)"
    and "map_of (mMaterials s) ''water'' = Some wm"
    and "mWavesRitem s = Some r" and "r < length (mAllRitems s)"
    and "Geo (mAllRitems s ! r) = Some g"
proof -
  from assms obtain s1 where "AnimateMaterials M gt s = Inr s1"
    by (cases "AnimateMaterials M gt s") (simp_all add: UpdateConstants_def)
  then obtain wm where wm: "map_of (mMaterials s) ''water'' = Some wm"
    by (rule AnimateMaterials_InrD)
  from assms UpdateConstants_no_frame [of s _ M gt w]
  obtain p fr where cur: "CurrFrameResource s = Inr (p, fr)"
    by (cases "CurrFrameResource s") auto
  from UpdateConstants_UpdateWaves [OF cur wm, of M gt w] assms
  obtain s4 where w: "UpdateWaves M w s4 = Inr s'"
    and s4: "mWavesRitem s4 = mWavesRitem s"
      "mAllRitems s4 = map ritemAfterUpload (mAllRitems s)"
    by auto
  from w obtain r g where "mWavesRitem s4 = Some r" "r < length (mAllRitems s4)"
    "Geo (mAllRitems s4 ! r) = Some g"
    by (rule UpdateWaves_InrD)
  with s4 have "mWavesRitem s = Some r" "r < length (mAllRitems s)"
    "Geo (mAllRitems s ! r) = Some g"
    by simp_all
  with cur wm show ?thesis by (rule that)
qed

lemma UpdateConstants_eq:
  assumes cur: "CurrFrameResource s = Inr (p, fr)"
    and water: "map_of (mMaterials s) ''water'' = Some wm"
    and waves: "mWavesRitem s = Some r" "r < length (mAllRitems s)"
      "Geo (mAllRitems s ! r) = Some g"
  shows "\<exists>tr. UpdateConstants M gt w s =
     Inr (s\<lparr>mMaterials := map (apsnd materialAfterUpload)
              (AList.update ''water''
                 (wm\<lparr>Material.MatTransform := tr, Material.NumFramesDirty := gNumFrameResources\<rparr>)
                 (mMaterials s)),
            mAllRitems := map ritemAfterUpload (mAllRitems s),
            mMainPassCB := MainPassConstants M gt s,
            mFrameResources := (mFrameResources s)
              [p := fr\<lparr>ObjectCB := (ObjectCB fr)
                        \<lparr>mMappedData := objectWrites (mAllRitems s) @ mMappedData (ObjectCB fr)\<rparr>,
                      MaterialCB := (MaterialCB fr)
                        \<lparr>mMappedData :=
                           materialWrites (AList.update ''water''
                             (wm\<lparr>Material.MatTransform := tr,
                                 Material.NumFramesDirty := gNumFrameResources\<rparr>)
                             (mMaterials s)) @ mMappedData (MaterialCB fr)\<rparr>,
                      PassCB := (PassCB fr)
                        \<lparr>mMappedData := (0, MainPassConstants M gt s) # mMappedData (PassCB fr)\<rparr>,
                      WavesVB := UpdateWaves_loop M w (WavesVB fr)\<rparr>],
            VertexBufferGPU := (VertexBufferGPU s)(g := Some p)\<rparr>)"
proof -
  from cur have p: "mCurrFrameResource s = Some p" "p < length (mFrameResources s)"
    by (simp_all add: CurrFrameResource_eq_Inr)
  from UpdateConstants_UpdateWaves [OF cur water, of M gt w] obtain tr s4 where
    u: "UpdateConstants M gt w s = UpdateWaves M w s4"
    and s4: "s4 = s\<lparr>mMaterials := map (apsnd materialAfterUpload)
              (AList.update ''water''
                 (wm\<lparr>Material.MatTransform := tr, Material.NumFramesDirty := gNumFrameResources\<rparr>)
                 (mMaterials s)),
          mAllRitems := map ritemAfterUpload (mAllRitems s),
          mMainPassCB := MainPassConstants M gt s,
          mFrameResources := (mFrameResources s)
            [p := fr\<lparr>ObjectCB := (ObjectCB fr)
                      \<lparr>mMappedData := objectWrites (mAllRitems s) @ mMappedData (ObjectCB fr)\<rparr>,
                    MaterialCB := (MaterialCB fr)
                      \<lparr>mMappedData :=
                         materialWrites (AList.update ''water''
                           (wm\<lparr>Material.MatTransform := tr,
                               Material.NumFramesDirty := gNumFrameResources\<rparr>)
                           (mMaterials s)) @ mMappedData (MaterialCB fr)\<rparr>,
                    PassCB := (PassCB fr)
                      \<lparr>mMappedData := (0, MainPassConstants M gt s) # mMappedData (PassCB fr)\<rparr>\<rparr>]\<rparr>"
    by blast
  have c4: "CurrFrameResource s4 = Inr (p, mFrameResources s4 ! p)"
    using p by (simp add: CurrFrameResource_eq_Inr s4)
  have w4: "mWavesRitem s4 = Some r" "r < length (mAllRitems s4)"
    "Geo (mAllRitems s4 ! r) = Some g"
    using waves by (simp_all add: s4)
  show ?thesis
    unfolding u
    apply (rule exI [of _ tr])
    apply (subst UpdateWaves_eq [OF c4 w4])
    using p apply (simp add: s4)
    done
qed

lemma smod3_nonneg:
  fixes k :: int
  assumes "0 \<le> k smod 3"
  shows "k smod 3 = k mod 3"
proof (cases "0 \<le> k")
  case True
  then show ?thesis by (simp add: signed_modulo_int_def sgn_if)
next
  case False
  with assms have "\<bar>k\<bar> mod 3 = 0"
    by (simp add: signed_modulo_int_def sgn_if split: if_splits)
  then have "3 dvd k" by presburger
  then show ?thesis
    using False by (simp add: signed_modulo_int_def sgn_if)
qed

lemma CycleFrameResource_InrD:
  assumes "CycleFrameResource s = Inr s'"
  obtains p where "int p = (mCurrFrameResourceIndex s + 1) mod 3"
    and "p < length (mFrameResources s)"
    and "s' = s\<lparr>mCurrFrameResourceIndex := int p, mCurrFrameResource := Some p\<rparr>"
proof -
  let ?i = "(mCurrFrameResourceIndex s + 1) smod 3"
  from assms have i: "0 \<le> ?i" "nat ?i < length (mFrameResources s)"
    and s': "s' = s\<lparr>mCurrFrameResourceIndex := ?i, mCurrFrameResource := Some (nat ?i)\<rparr>"
    by (auto simp: CycleFrameResource_def gNumFrameResources_def Let_def split: if_splits)
  from i(1) have "?i = (mCurrFrameResourceIndex s + 1) mod 3" by (rule smod3_nonneg)
  with i s' show ?thesis
    by (intro that [of "nat ?i"]) simp_all
qed

lemma CycleFrameResource_total:
  assumes "0 \<le> mCurrFrameResourceIndex s" and "length (mFrameResources s) = nat gNumFrameResources"
  shows "\<exists>s'. CycleFrameResource s = Inr s'"
proof -
  let ?k = "mCurrFrameResourceIndex s + 1"
  have "?k smod 3 = ?k mod 3"
    using assms(1) by (simp add: signed_modulo_int_def sgn_if)
  moreover have "0 \<le> ?k mod 3" "?k mod 3 < 3" by simp_all
  ultimately show ?thesis
    using assms(2) by (simp add: CycleFrameResource_def gNumFrameResources_def Let_def)
qed

lemma GpuRetire_Nil: "mCommandQueue s = [] \<Longrightarrow> GpuRetire s = s"
  by (simp add: GpuRetire_def)

lemma GpuRetire_Cons:
  "mCommandQueue s = v # q \<Longrightarrow> GpuRetire s = s\<lparr>mFence := v, mCommandQueue := q\<rparr>"
  by (simp add: GpuRetire_def)

lemma GpuRetire_frame:
  "\<exists>c q. GpuRetire s = s\<lparr>mFence := c, mCommandQueue := q\<rparr>"
proof (cases "mCommandQueue s")
  case Nil
  then have "GpuRetire s = s\<lparr>mFence := mFence s, mCommandQueue := mCommandQueue s\<rparr>"
    by (simp add: GpuRetire_def)
  then show ?thesis by blast
next
  case (Cons v q)
  then show ?thesis by (auto simp: GpuRetire_def)
qed

lemma GpuRetire_pow_frame:
  "\<exists>c q. (GpuRetire ^^ n) s = s\<lparr>mFence := c, mCommandQueue := q\<rparr>"
proof (induction n)
  case 0
  have "(GpuRetire ^^ 0) s = s\<lparr>mFence := mFence s, mCommandQueue := mCommandQueue s\<rparr>"
    by simp
  then show ?case by blast
next
  case (Suc n)
  then obtain c q where n: "(GpuRetire ^^ n) s = s\<lparr>mFence := c, mCommandQueue := q\<rparr>"
    by blast
  from GpuRetire_frame [of "(GpuRetire ^^ n) s"] obtain c' q' where
    "GpuRetire ((GpuRetire ^^ n) s) = ((GpuRetire ^^ n) s)\<lparr>mFence := c', mCommandQueue := q'\<rparr>"
    by blast
  then have "(GpuRetire ^^ Suc n) s = s\<lparr>mFence := c', mCommandQueue := q'\<rparr>"
    by (simp add: n)
  then show ?case by blast
qed

lemma WaitForSingleObject_SomeD:
  assumes "WaitForSingleObject t c q = Some (c', q')"
  shows "\<exists>k. (GpuRetire ^^ k) (s\<lparr>mFence := c, mCommandQueue := q\<rparr>) =
             s\<lparr>mFence := c', mCommandQueue := q'\<rparr> \<and>
           t \<le> c' \<and>
           (\<forall>j<k. mFence ((GpuRetire ^^ j) (s\<lparr>mFence := c, mCommandQueue := q\<rparr>)) < t)"
  using assms
proof (induction q arbitrary: c)
  case Nil
  then have "t \<le> c" "c' = c" "q' = []" by (auto split: if_splits)
  then have "(GpuRetire ^^ 0) (s\<lparr>mFence := c, mCommandQueue := []\<rparr>) =
      s\<lparr>mFence := c', mCommandQueue := q'\<rparr> \<and> t \<le> c'"
    by simp
  then show ?case by (intro exI [of _ 0]) simp
next
  case (Cons v q)
  show ?case
  proof (cases "t \<le> c")
    case True
    with Cons.prems have "c' = c" "q' = v # q" by auto
    with True have "(GpuRetire ^^ 0) (s\<lparr>mFence := c, mCommandQueue := v # q\<rparr>) =
      s\<lparr>mFence := c', mCommandQueue := q'\<rparr> \<and> t \<le> c'"
      by simp
    then show ?thesis by (intro exI [of _ 0]) simp
  next
    case False
    with Cons.prems have "WaitForSingleObject t v q = Some (c', q')" by simp
    from Cons.IH [OF this] obtain k where
      k: "(GpuRetire ^^ k) (s\<lparr>mFence := v, mCommandQueue := q\<rparr>) =
             s\<lparr>mFence := c', mCommandQueue := q'\<rparr>" "t \<le> c'"
        "\<forall>j<k. mFence ((GpuRetire ^^ j) (s\<lparr>mFence := v, mCommandQueue := q\<rparr>)) < t"
      by blast
    let ?s0 = "s\<lparr>mFence := c, mCommandQueue := v # q\<rparr>"
    have r: "GpuRetire ?s0 = s\<lparr>mFence := v, mCommandQueue := q\<rparr>"
      by (simp add: GpuRetire_def)
    have pow: "(GpuRetire ^^ Suc j) ?s0 = (GpuRetire ^^ j) (s\<lparr>mFence := v, mCommandQueue := q\<rparr>)" for j
      by (simp only: funpow_Suc_right o_apply r)
    have "\<forall>j<Suc k. mFence ((GpuRetire ^^ j) ?s0) < t"
    proof (intro allI impI)
      fix j assume j: "j < Suc k"
      show "mFence ((GpuRetire ^^ j) ?s0) < t"
      proof (cases j)
        case 0
        with False show ?thesis by simp
      next
        case (Suc j')
        with j k(3) show ?thesis by (simp only: pow)
      qed
    qed
    with k(1,2) pow [of k] show ?thesis by (intro exI [of _ "Suc k"]) simp
  qed
qed

lemma WaitForSingleObject_total:
  assumes "t \<le> c \<or> (\<exists>v \<in> set q. t \<le> v)"
  shows "\<exists>r. WaitForSingleObject t c q = Some r"
  using assms by (induction q arbitrary: c) auto

lemma WaitForSingleObject_None:
  "WaitForSingleObject t c q = None \<longleftrightarrow> \<not> t \<le> c \<and> (\<forall>v \<in> set q. \<not> t \<le> v)"
  by (induction q arbitrary: c) auto

lemma GpuRetire_step_cong:
  assumes "mFence t = mFence s" and "mCommandQueue t = mCommandQueue s"
  shows "mFence (GpuRetire t) = mFence (GpuRetire s) \<and>
         mCommandQueue (GpuRetire t) = mCommandQueue (GpuRetire s)"
  using assms by (cases "mCommandQueue s") (simp_all add: GpuRetire_def)

lemma GpuRetire_fence_cong:
  assumes "mFence t = mFence s" and "mCommandQueue t = mCommandQueue s"
  shows "mFence ((GpuRetire ^^ k) t) = mFence ((GpuRetire ^^ k) s) \<and>
         mCommandQueue ((GpuRetire ^^ k) t) = mCommandQueue ((GpuRetire ^^ k) s)"
proof (induction k)
  case 0
  from assms show ?case by simp
next
  case (Suc k)
  then show ?case
    using GpuRetire_step_cong [of "(GpuRetire ^^ k) t" "(GpuRetire ^^ k) s"] by simp
qed

lemma WaitForFrameResource_noop:
  assumes "CurrFrameResource s = Inr (p, fr)" and "Fence fr = 0 \<or> Fence fr \<le> mFence s"
  shows "WaitForFrameResource s = Inr s"
  using assms by (auto simp: WaitForFrameResource_def)

lemma WaitForFrameResource_InrD:
  assumes "WaitForFrameResource s = Inr s'"
  obtains p fr k where "CurrFrameResource s = Inr (p, fr)"
    and "s' = (GpuRetire ^^ k) s"
    and "Fence fr = 0 \<or> Fence fr \<le> mFence s'"
    and "\<forall>j<k. mFence ((GpuRetire ^^ j) s) < Fence fr"
    and "Fence fr = 0 \<or> Fence fr \<le> mFence s \<Longrightarrow> k = 0"
proof -
  from assms obtain p fr where cur: "CurrFrameResource s = Inr (p, fr)"
    by (cases "CurrFrameResource s") (auto simp: WaitForFrameResource_def)
  show ?thesis
  proof (cases "Fence fr \<noteq> 0 \<and> mFence s < Fence fr")
    case False
    with cur assms have "s' = (GpuRetire ^^ 0) s" "Fence fr = 0 \<or> Fence fr \<le> mFence s'"
      by (auto simp: WaitForFrameResource_def)
    with cur show ?thesis by (intro that [of p fr 0]) simp_all
  next
    case True
    with cur assms obtain c q where
      w: "WaitForSingleObject (Fence fr) (mFence s) (mCommandQueue s) = Some (c, q)"
      and s': "s' = s\<lparr>mFence := c, mCommandQueue := q\<rparr>"
      by (auto simp: WaitForFrameResource_def split: option.splits)
    from WaitForSingleObject_SomeD [OF w, of s] obtain k where
      "(GpuRetire ^^ k) s = s'" "Fence fr \<le> c"
      "\<forall>j<k. mFence ((GpuRetire ^^ j) s) < Fence fr"
      by (auto simp: s')
    moreover from True have "\<not> (Fence fr = 0 \<or> Fence fr \<le> mFence s)" by auto
    ultimately show ?thesis
      using cur s' by (intro that [of p fr k]) auto
  qed
qed

lemma WaitForFrameResource_total:
  assumes "CurrFrameResource s = Inr (p, fr)"
    and "Fence fr = 0 \<or> Fence fr \<le> mFence s \<or> (\<exists>v \<in> set (mCommandQueue s). Fence fr \<le> v)"
  shows "\<exists>s'. WaitForFrameResource s = Inr s'"
proof (cases "Fence fr \<noteq> 0 \<and> mFence s < Fence fr")
  case False
  with assms(1) show ?thesis by (auto simp: WaitForFrameResource_def)
next
  case True
  with assms(2) have "\<exists>v \<in> set (mCommandQueue s). Fence fr \<le> v" by auto
  then obtain r where "WaitForSingleObject (Fence fr) (mFence s) (mCommandQueue s) = Some r"
    using WaitForSingleObject_total by blast
  with True assms(1) show ?thesis
    by (cases r) (simp add: WaitForFrameResource_def)
qed

lemma WaitForFrameResource_blocked:
  assumes "CurrFrameResource s = Inr (p, fr)"
    and "Fence fr \<noteq> 0" and "mFence s < Fence fr"
    and "\<forall>v \<in> set (mCommandQueue s). v < Fence fr"
  shows "WaitForFrameResource s = Inl WaitsForever"
proof -
  from assms(3,4) have "WaitForSingleObject (Fence fr) (mFence s) (mCommandQueue s) = None"
    by (auto simp: WaitForSingleObject_None)
  with assms(1-3) show ?thesis by (simp add: WaitForFrameResource_def)
qed

lemma UpdateCamera_frame:
  "\<exists>e v. UpdateCamera M s = s\<lparr>mEyePos := e, mView := v\<rparr>"
  unfolding UpdateCamera_def Let_def by (intro exI) (rule refl)

text \<open>The state in which the second half of Update starts.\<close>

lemma Update_acquire:
  assumes "Update M gt w s = Inr s'"
  obtains p k s1 s2 where
    "int p = (mCurrFrameResourceIndex s + 1) mod 3" and "p < length (mFrameResources s)"
    and "CycleFrameResource (UpdateCamera M (OnKeyboardInput s)) = Inr s1"
    and "s1 = (UpdateCamera M s)\<lparr>mCurrFrameResourceIndex := int p, mCurrFrameResource := Some p\<rparr>"
    and "WaitForFrameResource s1 = Inr s2"
    and "s2 = (GpuRetire ^^ k) s1"
    and "Fence (mFrameResources s ! p) = 0 \<or> Fence (mFrameResources s ! p) \<le> mFence s2"
    and "\<forall>j<k. mFence ((GpuRetire ^^ j) s1) < Fence (mFrameResources s ! p)"
    and "UpdateConstants M gt w s2 = Inr s'"
proof -
  from assms obtain s1 s2 where
    c: "CycleFrameResource (UpdateCamera M (OnKeyboardInput s)) = Inr s1"
    and wt: "WaitForFrameResource s1 = Inr s2"
    and u: "UpdateConstants M gt w s2 = Inr s'"
    by (auto simp: Update_def andThen_eq_Inr)
  obtain e v where cam: "UpdateCamera M s = s\<lparr>mEyePos := e, mView := v\<rparr>"
    using UpdateCamera_frame by blast
  from c obtain p where p: "int p = (mCurrFrameResourceIndex s + 1) mod 3"
    "p < length (mFrameResources s)"
    and s1: "s1 = (UpdateCamera M s)\<lparr>mCurrFrameResourceIndex := int p, mCurrFrameResource := Some p\<rparr>"
    by (rule CycleFrameResource_InrD) (simp add: OnKeyboardInput_def cam)
  from wt obtain p' fr k where cur: "CurrFrameResource s1 = Inr (p', fr)"
    and k: "s2 = (GpuRetire ^^ k) s1" "Fence fr = 0 \<or> Fence fr \<le> mFence s2"
      "\<forall>j<k. mFence ((GpuRetire ^^ j) s1) < Fence fr"
    by (rule WaitForFrameResource_InrD)
  from cur have "p' = p" "fr = mFrameResources s ! p"
    by (simp_all add: CurrFrameResource_eq_Inr s1 cam)
  with p c s1 wt k u show ?thesis
    by (intro that [of p s1 s2 k]) simp_all
qed

lemma Update_InrD:
  assumes "Update M gt w s = Inr s'"
  obtains p k c q e v wm tr r g where
    "int p = (mCurrFrameResourceIndex s + 1) mod 3" and "p < length (mFrameResources s)"
    and "map_of (mMaterials s) ''water'' = Some wm"
    and "mWavesRitem s = Some r" and "r < length (mAllRitems s)"
    and "Geo (mAllRitems s ! r) = Some g"
    and "c = mFence ((GpuRetire ^^ k) s)" and "q = mCommandQueue ((GpuRetire ^^ k) s)"
    and "Fence (mFrameResources s ! p) = 0 \<or> Fence (mFrameResources s ! p) \<le> c"
    and "UpdateCamera M s = s\<lparr>mEyePos := e, mView := v\<rparr>"
    and "s' = s\<lparr>mEyePos := e, mView := v,
           mCurrFrameResourceIndex := int p, mCurrFrameResource := Some p,
           mFence := c, mCommandQueue := q,
           mMaterials := map (apsnd materialAfterUpload)
              (AList.update ''water''
                 (wm\<lparr>Material.MatTransform := tr, Material.NumFramesDirty := gNumFrameResources\<rparr>)
                 (mMaterials s)),
            mAllRitems := map ritemAfterUpload (mAllRitems s),
            mMainPassCB := MainPassConstants M gt (UpdateCamera M s),
            mFrameResources := (mFrameResources s)
              [p := (mFrameResources s ! p)
                 \<lparr>ObjectCB := (ObjectCB (mFrameResources s ! p))
                    \<lparr>mMappedData := objectWrites (mAllRitems s) @
                       mMappedData (ObjectCB (mFrameResources s ! p))\<rparr>,
                  MaterialCB := (MaterialCB (mFrameResources s ! p))
                    \<lparr>mMappedData :=
                       materialWrites (AList.update ''water''
                         (wm\<lparr>Material.MatTransform := tr,
                             Material.NumFramesDirty := gNumFrameResources\<rparr>)
                         (mMaterials s)) @ mMappedData (MaterialCB (mFrameResources s ! p))\<rparr>,
                  PassCB := (PassCB (mFrameResources s ! p))
                    \<lparr>mMappedData := (0, MainPassConstants M gt (UpdateCamera M s)) #
                       mMappedData (PassCB (mFrameResources s ! p))\<rparr>,
                  WavesVB := UpdateWaves_loop M w (WavesVB (mFrameResources s ! p))\<rparr>],
            VertexBufferGPU := (VertexBufferGPU s)(g := Some p)\<rparr>"
proof -
  from assms obtain p k s1 s2 where
    p: "int p = (mCurrFrameResourceIndex s + 1) mod 3" "p < length (mFrameResources s)"
    and s1: "s1 = (UpdateCamera M s)\<lparr>mCurrFrameResourceIndex := int p, mCurrFrameResource := Some p\<rparr>"
    and s2: "s2 = (GpuRetire ^^ k) s1"
    and ret: "Fence (mFrameResources s ! p) = 0 \<or> Fence (mFrameResources s ! p) \<le> mFence s2"
    and u: "UpdateConstants M gt w s2 = Inr s'"
    by (rule Update_acquire)
  obtain e v where cam: "UpdateCamera M s = s\<lparr>mEyePos := e, mView := v\<rparr>"
    using UpdateCamera_frame by blast
  obtain c q where cq: "s2 = s1\<lparr>mFence := c, mCommandQueue := q\<rparr>"
    using GpuRetire_pow_frame [of k s1] s2 by auto
  have "mFence s1 = mFence s" "mCommandQueue s1 = mCommandQueue s"
    by (simp_all add: s1 cam)
  from GpuRetire_fence_cong [OF this, of k] cq s2
  have c: "c = mFence ((GpuRetire ^^ k) s)" and q: "q = mCommandQueue ((GpuRetire ^^ k) s)"
    by auto
  have s2': "s2 = s\<lparr>mEyePos := e, mView := v,
           mCurrFrameResourceIndex := int p, mCurrFrameResource := Some p,
           mFence := c, mCommandQueue := q\<rparr>"
    by (simp add: cq s1 cam)
  have cur: "CurrFrameResource s2 = Inr (p, mFrameResources s ! p)"
    using p by (simp add: CurrFrameResource_eq_Inr s2')
  from u obtain wm r g where wm: "map_of (mMaterials s2) ''water'' = Some wm"
    and wv: "mWavesRitem s2 = Some r" "r < length (mAllRitems s2)"
      "Geo (mAllRitems s2 ! r) = Some g"
    by (rule UpdateConstants_InrD)
  from UpdateConstants_eq [OF cur wm wv, of M gt w] u obtain tr where
    s': "s' = s2\<lparr>mMaterials := map (apsnd materialAfterUpload)
              (AList.update ''water''
                 (wm\<lparr>Material.MatTransform := tr, Material.NumFramesDirty := gNumFrameResources\<rparr>)
                 (mMaterials s2)),
            mAllRitems := map ritemAfterUpload (mAllRitems s2),
            mMainPassCB := MainPassConstants M gt s2,
            mFrameResources := (mFrameResources s2)
              [p := (mFrameResources s ! p)
                 \<lparr>ObjectCB := (ObjectCB (mFrameResources s ! p))
                    \<lparr>mMappedData := objectWrites (mAllRitems s2) @
                       mMappedData (ObjectCB (mFrameResources s ! p))\<rparr>,
                  MaterialCB := (MaterialCB (mFrameResources s ! p))
                    \<lparr>mMappedData :=
                       materialWrites (AList.update ''water''
                         (wm\<lparr>Material.MatTransform := tr,
                             Material.NumFramesDirty := gNumFrameResources\<rparr>)
                         (mMaterials s2)) @ mMappedData (MaterialCB (mFrameResources s ! p))\<rparr>,
                  PassCB := (PassCB (mFrameResources s ! p))
                    \<lparr>mMappedData := (0, MainPassConstants M gt s2) #
                       mMappedData (PassCB (mFrameResources s ! p))\<rparr>,
                  WavesVB := UpdateWaves_loop M w (WavesVB (mFrameResources s ! p))\<rparr>],
            VertexBufferGPU := (VertexBufferGPU s2)(g := Some p)\<rparr>"
    by auto
  have mp: "MainPassConstants M gt s2 = MainPassConstants M gt (UpdateCamera M s)"
    by (rule MainPassConstants_cong) (simp_all add: s2' cam)
  have proj: "mMaterials s2 = mMaterials s" "mAllRitems s2 = mAllRitems s"
    "mFrameResources s2 = mFrameResources s" "VertexBufferGPU s2 = VertexBufferGPU s"
    "mWavesRitem s2 = mWavesRitem s"
    by (simp_all add: s2')
  have wm0: "map_of (mMaterials s) ''water'' = Some wm"
    and wv0: "mWavesRitem s = Some r" "r < length (mAllRitems s)"
      "Geo (mAllRitems s ! r) = Some g"
    using wm wv by (simp_all add: proj)
  have ret0: "Fence (mFrameResources s ! p) = 0 \<or> Fence (mFrameResources s ! p) \<le> c"
    using ret by (simp add: s2')
  show ?thesis
  proof (rule that [where p = p and k = k and c = c and q = q and e = e and v = v and wm = wm and tr = tr and r = r and g = g])
    show "s' = s\<lparr>mEyePos := e, mView := v,
           mCurrFrameResourceIndex := int p, mCurrFrameResource := Some p,
           mFence := c, mCommandQueue := q,
           mMaterials := map (apsnd materialAfterUpload)
              (AList.update ''water''
                 (wm\<lparr>Material.MatTransform := tr, Material.NumFramesDirty := gNumFrameResources\<rparr>)
                 (mMaterials s)),
            mAllRitems := map ritemAfterUpload (mAllRitems s),
            mMainPassCB := MainPassConstants M gt (UpdateCamera M s),
            mFrameResources := (mFrameResources s)
              [p := (mFrameResources s ! p)
                 \<lparr>ObjectCB := (ObjectCB (mFrameResources s ! p))
                    \<lparr>mMappedData := objectWrites (mAllRitems s) @
                       mMappedData (ObjectCB (mFrameResources s ! p))\<rparr>,
                  MaterialCB := (MaterialCB (mFrameResources s ! p))
                    \<lparr>mMappedData :=
                       materialWrites (AList.update ''water''
                         (wm\<lparr>Material.MatTransform := tr,
                             Material.NumFramesDirty := gNumFrameResources\<rparr>)
                         (mMaterials s)) @ mMappedData (MaterialCB (mFrameResources s ! p))\<rparr>,
                  PassCB := (PassCB (mFrameResources s ! p))
                    \<lparr>mMappedData := (0, MainPassConstants M gt (UpdateCamera M s)) #
                       mMappedData (PassCB (mFrameResources s ! p))\<rparr>,
                  WavesVB := UpdateWaves_loop M w (WavesVB (mFrameResources s ! p))\<rparr>],
            VertexBufferGPU := (VertexBufferGPU s)(g := Some p)\<rparr>"
      unfolding s' mp proj by (simp add: s2')
  qed (use p wm0 wv0 c q ret0 cam in simp_all)
qed

lemma UpdateConstants_total:
  assumes "CurrFrameResource s = Inr (p, fr)" and "map_of (mMaterials s) ''water'' \<noteq> None"
    and "mWavesRitem s = Some r" and "r < length (mAllRitems s)"
    and "Geo (mAllRitems s ! r) \<noteq> None"
  shows "\<exists>s'. UpdateConstants M gt w s = Inr s'"
proof -
  from assms(2,5) obtain wm g where "map_of (mMaterials s) ''water'' = Some wm"
    "Geo (mAllRitems s ! r) = Some g"
    by auto
  from UpdateConstants_eq [OF assms(1) this(1) assms(3,4) this(2), of M gt w]
  show ?thesis by blast
qed

lemma Update_total:
  assumes ok: "SceneOK s"
    and reach: "Fence (mFrameResources s ! nextSlot s) = 0 \<or>
      Fence (mFrameResources s ! nextSlot s) \<le> mFence s \<or>
      (\<exists>v \<in> set (mCommandQueue s). Fence (mFrameResources s ! nextSlot s) \<le> v)"
  shows "\<exists>s'. Update M gt w s = Inr s'"
proof -
  obtain e v where cam: "UpdateCamera M s = s\<lparr>mEyePos := e, mView := v\<rparr>"
    using UpdateCamera_frame by blast
  from ok have len: "length (mFrameResources s) = nat gNumFrameResources"
    and idx: "0 \<le> mCurrFrameResourceIndex s"
    and water: "map_of (mMaterials s) ''water'' \<noteq> None"
    by (simp_all add: SceneOK_def)
  from ok obtain r where r: "mWavesRitem s = Some r" "r < length (mAllRitems s)"
    "Geo (mAllRitems s ! r) \<noteq> None"
    by (auto simp: SceneOK_def split: option.splits)
  from CycleFrameResource_total [of "UpdateCamera M (OnKeyboardInput s)"] len idx
  obtain s1 where c: "CycleFrameResource (UpdateCamera M (OnKeyboardInput s)) = Inr s1"
    by (auto simp: OnKeyboardInput_def cam)
  then obtain p where p: "int p = (mCurrFrameResourceIndex s + 1) mod 3"
    "p < length (mFrameResources s)"
    and s1: "s1 = s\<lparr>mEyePos := e, mView := v,
      mCurrFrameResourceIndex := int p, mCurrFrameResource := Some p\<rparr>"
    by (rule CycleFrameResource_InrD) (simp add: OnKeyboardInput_def cam)
  from p(1) have ps: "p = nextSlot s" by (simp add: nextSlot_def)
  have cur1: "CurrFrameResource s1 = Inr (p, mFrameResources s ! p)"
    using p by (simp add: CurrFrameResource_eq_Inr s1)
  from WaitForFrameResource_total [OF cur1] reach
  obtain s2 where wt: "WaitForFrameResource s1 = Inr s2"
    by (auto simp: s1 ps)
  then obtain k where "s2 = (GpuRetire ^^ k) s1"
    by (rule WaitForFrameResource_InrD)
  with GpuRetire_pow_frame [of k s1] obtain c' q' where
    s2: "s2 = s1\<lparr>mFence := c', mCommandQueue := q'\<rparr>"
    by auto
  have cur2: "CurrFrameResource s2 = Inr (p, mFrameResources s ! p)"
    using p by (simp add: CurrFrameResource_eq_Inr s2 s1)
  from UpdateConstants_total [OF cur2, of r M gt w] water r
  obtain s' where "UpdateConstants M gt w s2 = Inr s'"
    by (auto simp: s2 s1)
  with c wt show ?thesis by (simp add: Update_def)
qed

lemmas scene_defs =
  Initialize_def BuildFrameResources_def BuildRenderItems_def BuildMaterials_def
  NewTreeBillboardsApp_def Let_def

lemmas ritem_defs =
  wavesRitem_def treeSpritesRitem_def pedastalRitem_def diamondRitem_def gridRitem_def
  frontWallRitem_def sideWallRitem_def rampRitem_def leftCylRitem_def rightCylRitem_def
  frontPyramidRitem_def backPyramidRitem_def kiteRitem_def pentagonRitem_def grid2Ritem_def

lemma BuildRenderItem_proj [simp]:
  "Geo (BuildRenderItem M args world i mat geo submesh) = Some geo"
  "Mat (BuildRenderItem M args world i mat geo submesh) = Some mat"
  "ObjCBIndex (BuildRenderItem M args world i mat geo submesh) = i"
  "RenderItem.NumFramesDirty (BuildRenderItem M args world i mat geo submesh) = gNumFrameResources"
  by (simp_all add: BuildRenderItem_def NewRenderItem_def split: prod.splits)

lemma Initialize_mAllRitems:
  "mAllRitems (Initialize M args n (NewTreeBillboardsApp base)) =
     [frontWallRitem M args 0, sideWallRitem M args 0,
      frontWallRitem M args 1, sideWallRitem M args 1,
      leftCylRitem M args 0, rightCylRitem M args 0,
      frontPyramidRitem M args 0, backPyramidRitem M args 0,
      leftCylRitem M args 1, rightCylRitem M args 1,
      frontPyramidRitem M args 1, backPyramidRitem M args 1,
      grid2Ritem M args, pentagonRitem M args, kiteRitem M args, rampRitem M args,
      gridRitem M args, diamondRitem M args, pedastalRitem M args,
      wavesRitem M args, treeSpritesRitem M args]"
  by (simp add: scene_defs)

lemma Initialize_keys:
  "map fst (mMaterials (Initialize M args n (NewTreeBillboardsApp base))) =
     [''grass0'', ''water'', ''wirefence'', ''treeSprites'', ''bricks0'', ''stone0'', ''tile0'',
      ''wood0'', ''ice0'', ''gate0'', ''roof0'', ''metal0'', ''bricks2'']"
  by (simp add: scene_defs)

lemma Initialize_layers:
  "mRitemLayer (Initialize M args n (NewTreeBillboardsApp base)) Opaque =
     [18, 17, 16, 0, 1, 2, 3, 15, 4, 5, 6, 7, 8, 9, 10, 11, 14, 13, 12]"
  "mRitemLayer (Initialize M args n (NewTreeBillboardsApp base)) Transparent = [19]"
  "mRitemLayer (Initialize M args n (NewTreeBillboardsApp base)) AlphaTested = []"
  "mRitemLayer (Initialize M args n (NewTreeBillboardsApp base)) AlphaTestedTreeSprites = [20]"
  by (simp_all add: scene_defs)

lemma Initialize_frames:
  "mFrameResources (Initialize M args n (NewTreeBillboardsApp base)) =
     replicate 3 (NewFrameResource 1 21 13 n)"
  "mCurrFrameResourceIndex (Initialize M args n (NewTreeBillboardsApp base)) = 0"
  "mCurrFrameResource (Initialize M args n (NewTreeBillboardsApp base)) = None"
  "mWavesRitem (Initialize M args n (NewTreeBillboardsApp base)) = Some 19"
  "mCurrentFence (Initialize M args n (NewTreeBillboardsApp base)) = mCurrentFence base"
  "mFence (Initialize M args n (NewTreeBillboardsApp base)) = mFence base"
  "mCommandQueue (Initialize M args n (NewTreeBillboardsApp base)) = mCommandQueue base"
  by (simp_all add: scene_defs gNumFrameResources_def eval_nat_numeral)

lemma map_of_keys: "map_of xs k \<noteq> None \<longleftrightarrow> k \<in> set (map fst xs)"
  by (simp add: map_of_eq_None_iff)

lemma SceneOK_Initialize: "SceneOK (Initialize M args n (NewTreeBillboardsApp base))"
  unfolding SceneOK_def RitemOK_def map_of_keys Initialize_keys Initialize_mAllRitems
    Initialize_layers Initialize_frames
  by (simp add: ritem_defs gNumFrameResources_def Initialize_layers)

lemma WritesSince_append:
  assumes "mMappedData after = new @ mMappedData before"
  shows "WritesSince before after = new"
  using assms by (simp add: WritesSince_def)

lemma app0_SceneOK: "SceneOK app0"
  unfolding app0_def by (rule SceneOK_Initialize)

lemma app0_fresh:
  "p < 3 \<Longrightarrow> Fence (mFrameResources app0 ! p) = 0"
  by (simp add: app0_def Initialize_frames NewFrameResource_def)

lemma app0_index: "mCurrFrameResourceIndex app0 = 0"
  by (simp add: app0_def Initialize_frames)

lemma app0_Update: "\<exists>s'. Update M0 gt w app0 = Inr s'"
  by (rule Update_total [OF app0_SceneOK])
     (simp add: nextSlot_def app0_index app0_fresh)

lemma MainPassConstants_fields:
  "View (MainPassConstants M gt s) = XMMatrixTranspose (mView s)"
  "InvView (MainPassConstants M gt s) = XMMatrixTranspose (XMMatrixInverse M (mView s))"
  "Proj (MainPassConstants M gt s) = XMMatrixTranspose (mProj s)"
  "InvProj (MainPassConstants M gt s) = XMMatrixTranspose (XMMatrixInverse M (mProj s))"
  "ViewProj (MainPassConstants M gt s) =
     XMMatrixTranspose (XMMatrixMultiply M (mView s) (mProj s))"
  "InvViewProj (MainPassConstants M gt s) =
     XMMatrixTranspose (XMMatrixInverse M (XMMatrixMultiply M (mView s) (mProj s)))"
  "EyePosW (MainPassConstants M gt s) = mEyePos s"
  "RenderTargetSize (MainPassConstants M gt s) =
     (fint M (mClientWidth s), fint M (mClientHeight s))"
  "InvRenderTargetSize (MainPassConstants M gt s) =
     (fdiv M (flt M 1) (fint M (mClientWidth s)), fdiv M (flt M 1) (fint M (mClientHeight s)))"
  "NearZ (MainPassConstants M gt s) = flt M 1"
  "FarZ (MainPassConstants M gt s) = flt M 1000"
  "PassConstants.TotalTime (MainPassConstants M gt s) = GameTimer.TotalTime gt"
  "PassConstants.DeltaTime (MainPassConstants M gt s) = GameTimer.DeltaTime gt"
  "AmbientLight (MainPassConstants M gt s) =
     (flt M (25 / 100), flt M (25 / 100), flt M (35 / 100), flt M 1)"
  "FogColor (MainPassConstants M gt s) = FogColor (mMainPassCB s)"
  "Lights (MainPassConstants M gt s) =
     (Lights (mMainPassCB s))
       (3 := (Lights (mMainPassCB s) 3)
          \<lparr>Position := (flt M 0, flt M (35 / 10), flt M (- 75 / 100)),
           Strength := (flt M 0, flt M 0, flt M 2)\<rparr>,
        4 := (Lights (mMainPassCB s) 4)
          \<lparr>Position := (flt M 0, flt M (35 / 10), flt M (- 11)),
           Strength := (flt M 2, flt M 0, flt M 0)\<rparr>)"
  by (simp_all add: MainPassConstants_def Let_def)

lemma UpdateCamera_fields:
  "mEyePos (UpdateCamera M s) =
     (fmul M (fmul M (mRadius s) (sinf M (mPhi s))) (cosf M (mTheta s)),
      fmul M (mRadius s) (cosf M (mPhi s)),
      fmul M (fmul M (mRadius s) (sinf M (mPhi s))) (sinf M (mTheta s)))"
  "mView (UpdateCamera M s) =
     XMMatrixLookAtLH M
       (fmul M (fmul M (mRadius s) (sinf M (mPhi s))) (cosf M (mTheta s)),
        fmul M (mRadius s) (cosf M (mPhi s)),
        fmul M (fmul M (mRadius s) (sinf M (mPhi s))) (sinf M (mTheta s)),
        flt M 1)
       (flt M 0, flt M 0, flt M 0, flt M 0)
       (flt M 0, flt M 1, flt M 0, flt M 0)"
  "mProj (UpdateCamera M s) = mProj s"
  "mClientWidth (UpdateCamera M s) = mClientWidth s"
  "mClientHeight (UpdateCamera M s) = mClientHeight s"
  "mMainPassCB (UpdateCamera M s) = mMainPassCB s"
  by (simp_all add: UpdateCamera_def Let_def)

lemma Initialize_camera:
  "mRadius (Initialize M args n (NewTreeBillboardsApp base)) = mRadius base"
  "mPhi (Initialize M args n (NewTreeBillboardsApp base)) = mPhi base"
  "mTheta (Initialize M args n (NewTreeBillboardsApp base)) = mTheta base"
  "mProj (Initialize M args n (NewTreeBillboardsApp base)) = mProj base"
  "mClientWidth (Initialize M args n (NewTreeBillboardsApp base)) = mClientWidth base"
  "mClientHeight (Initialize M args n (NewTreeBillboardsApp base)) = mClientHeight base"
  "mMainPassCB (Initialize M args n (NewTreeBillboardsApp base)) = mMainPassCB base"
  by (simp_all add: scene_defs)

lemma appSym_Update: "\<exists>s'. Update MSym gt w appSym = Inr s'"
  unfolding appSym_def
  by (rule Update_total [OF SceneOK_Initialize])
     (simp add: nextSlot_def Initialize_frames NewFrameResource_def)

text \<open>
  C9. The pass-global constant block is recomputed and written in every frame, with no
  dirty counter and no other condition. Every \<^verbatim>\<open>Update\<close> that returns has moved to the
  next frame resource \<open>p\<close> and has added exactly one write to its pass buffer: entry 0, the
  block that the application now holds. Every field of that block is this frame's value:
  \<^item> the eye position \<open>eye\<close> is computed from the camera's radius and angles, and the view
    matrix \<open>view\<close> looks from it at the origin;
  \<^item> the view, the projection, their product and the three inverses are written
    transposed;
  \<^item> the render-target size and its inverse come from the client size, the timer fields
    from this frame's timer;
  \<^item> the near and far plane, the ambient light and the lights 3 and 4 are the constants
    of the source; the fog colour and the other lights are kept as they were.
\<close>

theorem C9_pass_block_written_every_frame:
  assumes "Update M gt w s = Inr s'"
  shows "\<exists>p. mCurrFrameResource s' = Some p \<and> p < length (mFrameResources s') \<and>
           int p = (mCurrFrameResourceIndex s + 1) mod 3 \<and>
           mMappedData (PassCB (mFrameResources s' ! p)) =
             (0, mMainPassCB s') # mMappedData (PassCB (mFrameResources s ! p)) \<and>
           WritesSince (PassCB (mFrameResources s ! p)) (PassCB (mFrameResources s' ! p)) =
             [(0, mMainPassCB s')] \<and>
           mMainPassCB s' = MainPassConstants M gt (UpdateCamera M s) \<and>
           (let eye =
                  (fmul M (fmul M (mRadius s) (sinf M (mPhi s))) (cosf M (mTheta s)),
                   fmul M (mRadius s) (cosf M (mPhi s)),
                   fmul M (fmul M (mRadius s) (sinf M (mPhi s))) (sinf M (mTheta s)));
                view =
                  XMMatrixLookAtLH M
                    (fst eye, fst (snd eye), snd (snd eye), flt M 1)
                    (flt M 0, flt M 0, flt M 0, flt M 0)
                    (flt M 0, flt M 1, flt M 0, flt M 0);
                proj = mProj s;
                viewProj = XMMatrixMultiply M view proj
            in EyePosW (mMainPassCB s') = eye \<and>
               View (mMainPassCB s') = XMMatrixTranspose view \<and>
               InvView (mMainPassCB s') = XMMatrixTranspose (XMMatrixInverse M view) \<and>
               Proj (mMainPassCB s') = XMMatrixTranspose proj \<and>
               InvProj (mMainPassCB s') = XMMatrixTranspose (XMMatrixInverse M proj) \<and>
               ViewProj (mMainPassCB s') = XMMatrixTranspose viewProj \<and>
               InvViewProj (mMainPassCB s') =
                 XMMatrixTranspose (XMMatrixInverse M viewProj) \<and>
               RenderTargetSize (mMainPassCB s') =
                 (fint M (mClientWidth s), fint M (mClientHeight s)) \<and>
               InvRenderTargetSize (mMainPassCB s') =
                 (fdiv M (flt M 1) (fint M (mClientWidth s)),
                  fdiv M (flt M 1) (fint M (mClientHeight s))) \<and>
               NearZ (mMainPassCB s') = flt M 1 \<and>
               FarZ (mMainPassCB s') = flt M 1000 \<and>
               PassConstants.TotalTime (mMainPassCB s') = GameTimer.TotalTime gt \<and>
               PassConstants.DeltaTime (mMainPassCB s') = GameTimer.DeltaTime gt \<and>
               AmbientLight (mMainPassCB s') =
                 (flt M (25 / 100), flt M (25 / 100), flt M (35 / 100), flt M 1) \<and>
               FogColor (mMainPassCB s') = FogColor (mMainPassCB s) \<and>
               Lights (mMainPassCB s') =
                 (Lights (mMainPassCB s))
                   (3 := (Lights (mMainPassCB s) 3)
                      \<lparr>Position := (flt M 0, flt M (35 / 10), flt M (- 75 / 100)),
                       Strength := (flt M 0, flt M 0, flt M 2)\<rparr>,
                    4 := (Lights (mMainPassCB s) 4)
                      \<lparr>Position := (flt M 0, flt M (35 / 10), flt M (- 11)),
                       Strength := (flt M 2, flt M 0, flt M 0)\<rparr>))"
proof -
  from assms obtain p c q e v wm tr g where
    p: "int p = (mCurrFrameResourceIndex s + 1) mod 3" "p < length (mFrameResources s)"
    and s': "s' = s\<lparr>mEyePos := e, mView := v,
           mCurrFrameResourceIndex := int p, mCurrFrameResource := Some p,
           mFence := c, mCommandQueue := q,
           mMaterials := map (apsnd materialAfterUpload)
              (AList.update ''water''
                 (wm\<lparr>Material.MatTransform := tr, Material.NumFramesDirty := gNumFrameResources\<rparr>)
                 (mMaterials s)),
            mAllRitems := map ritemAfterUpload (mAllRitems s),
            mMainPassCB := MainPassConstants M gt (UpdateCamera M s),
            mFrameResources := (mFrameResources s)
              [p := (mFrameResources s ! p)
                 \<lparr>ObjectCB := (ObjectCB (mFrameResources s ! p))
                    \<lparr>mMappedData := objectWrites (mAllRitems s) @
                       mMappedData (ObjectCB (mFrameResources s ! p))\<rparr>,
                  MaterialCB := (MaterialCB (mFrameResources s ! p))
                    \<lparr>mMappedData :=
                       materialWrites (AList.update ''water''
                         (wm\<lparr>Material.MatTransform := tr,
                             Material.NumFramesDirty := gNumFrameResources\<rparr>)
                         (mMaterials s)) @ mMappedData (MaterialCB (mFrameResources s ! p))\<rparr>,
                  PassCB := (PassCB (mFrameResources s ! p))
                    \<lparr>mMappedData := (0, MainPassConstants M gt (UpdateCamera M s)) #
                       mMappedData (PassCB (mFrameResources s ! p))\<rparr>,
                  WavesVB := UpdateWaves_loop M w (WavesVB (mFrameResources s ! p))\<rparr>],
            VertexBufferGPU := (VertexBufferGPU s)(g := Some p)\<rparr>"
    by (rule Update_InrD)
  have pc: "mMainPassCB s' = MainPassConstants M gt (UpdateCamera M s)"
    by (simp add: s')
  have log: "mMappedData (PassCB (mFrameResources s' ! p)) =
      [(0, mMainPassCB s')] @ mMappedData (PassCB (mFrameResources s ! p))"
    using p by (simp add: s')
  have cur: "mCurrFrameResource s' = Some p" "p < length (mFrameResources s')"
    using p by (simp_all add: s')
  have fields: "let eye =
                  (fmul M (fmul M (mRadius s) (sinf M (mPhi s))) (cosf M (mTheta s)),
                   fmul M (mRadius s) (cosf M (mPhi s)),
                   fmul M (fmul M (mRadius s) (sinf M (mPhi s))) (sinf M (mTheta s)));
                view =
                  XMMatrixLookAtLH M
                    (fst eye, fst (snd eye), snd (snd eye), flt M 1)
                    (flt M 0, flt M 0, flt M 0, flt M 0)
                    (flt M 0, flt M 1, flt M 0, flt M 0);
                proj = mProj s;
                viewProj = XMMatrixMultiply M view proj
            in EyePosW (mMainPassCB s') = eye \<and>
               View (mMainPassCB s') = XMMatrixTranspose view \<and>
               InvView (mMainPassCB s') = XMMatrixTranspose (XMMatrixInverse M view) \<and>
               Proj (mMainPassCB s') = XMMatrixTranspose proj \<and>
               InvProj (mMainPassCB s') = XMMatrixTranspose (XMMatrixInverse M proj) \<and>
               ViewProj (mMainPassCB s') = XMMatrixTranspose viewProj \<and>
               InvViewProj (mMainPassCB s') =
                 XMMatrixTranspose (XMMatrixInverse M viewProj) \<and>
               RenderTargetSize (mMainPassCB s') =
                 (fint M (mClientWidth s), fint M (mClientHeight s)) \<and>
               InvRenderTargetSize (mMainPassCB s') =
                 (fdiv M (flt M 1) (fint M (mClientWidth s)),
                  fdiv M (flt M 1) (fint M (mClientHeight s))) \<and>
               NearZ (mMainPassCB s') = flt M 1 \<and>
               FarZ (mMainPassCB s') = flt M 1000 \<and>
               PassConstants.TotalTime (mMainPassCB s') = GameTimer.TotalTime gt \<and>
               PassConstants.DeltaTime (mMainPassCB s') = GameTimer.DeltaTime gt \<and>
               AmbientLight (mMainPassCB s') =
                 (flt M (25 / 100), flt M (25 / 100), flt M (35 / 100), flt M 1) \<and>
               FogColor (mMainPassCB s') = FogColor (mMainPassCB s) \<and>
               Lights (mMainPassCB s') =
                 (Lights (mMainPassCB s))
                   (3 := (Lights (mMainPassCB s) 3)
                      \<lparr>Position := (flt M 0, flt M (35 / 10), flt M (- 75 / 100)),
                       Strength := (flt M 0, flt M 0, flt M 2)\<rparr>,
                    4 := (Lights (mMainPassCB s) 4)
                      \<lparr>Position := (flt M 0, flt M (35 / 10), flt M (- 11)),
                       Strength := (flt M 2, flt M 0, flt M 0)\<rparr>)"
    unfolding pc Let_def MainPassConstants_fields UpdateCamera_fields by simp
  from cur p(1) log WritesSince_append [OF log] pc fields show ?thesis
    by (intro exI [of _ p] conjI) simp_all
qed

theorem C9_pass_block_written_every_frame_witness:
  "\<exists>s'. Update MSym timerSym wavesSym appSym = Inr s' \<and>
        mCurrFrameResource s' = Some 1 \<and>
        WritesSince (PassCB (mFrameResources appSym ! 1)) (PassCB (mFrameResources s' ! 1)) =
          [(0, mMainPassCB s')] \<and>
        PassConstants.TotalTime (mMainPassCB appSym) = FLit 0 \<and>
        PassConstants.TotalTime (mMainPassCB s') = FLit 5 \<and>
        PassConstants.DeltaTime (mMainPassCB s') = FLit (1 / 60) \<and>
        RenderTargetSize (mMainPassCB s') = (FInt 800, FInt 600) \<and>
        EyePosW (mMainPassCB s') =
          (FMul (FMul (FLit 50) (FSin (FSub (FLit (1570796327 / 1000000000)) (FLit (1 / 10)))))
             (FCos (FMul (FLit (3 / 2)) (FLit (3141592654 / 1000000000)))),
           FMul (FLit 50) (FCos (FSub (FLit (1570796327 / 1000000000)) (FLit (1 / 10)))),
           FMul (FMul (FLit 50) (FSin (FSub (FLit (1570796327 / 1000000000)) (FLit (1 / 10)))))
             (FSin (FMul (FLit (3 / 2)) (FLit (3141592654 / 1000000000)))))"
proof -
  obtain s' where u: "Update MSym timerSym wavesSym appSym = Inr s'"
    using appSym_Update by blast
  have idx: "mCurrFrameResourceIndex appSym = 0" by (simp add: appSym_def Initialize_frames)
  have cam: "mRadius appSym = FLit 50"
    "mPhi appSym = FSub (FLit (1570796327 / 1000000000)) (FLit (1 / 10))"
    "mTheta appSym = FMul (FLit (3 / 2)) (FLit (3141592654 / 1000000000))"
    "mClientWidth appSym = 800" "mClientHeight appSym = 600"
    "PassConstants.TotalTime (mMainPassCB appSym) = FLit 0"
    by (simp_all add: appSym_def Initialize_camera baseSym_def passSym_def)
  from C9_pass_block_written_every_frame [OF u] obtain p where
    p: "mCurrFrameResource s' = Some p" "int p = (mCurrFrameResourceIndex appSym + 1) mod 3"
    and w: "WritesSince (PassCB (mFrameResources appSym ! p)) (PassCB (mFrameResources s' ! p)) =
       [(0, mMainPassCB s')]"
    and f: "PassConstants.TotalTime (mMainPassCB s') = GameTimer.TotalTime timerSym"
      "PassConstants.DeltaTime (mMainPassCB s') = GameTimer.DeltaTime timerSym"
      "RenderTargetSize (mMainPassCB s') =
         (fint MSym (mClientWidth appSym), fint MSym (mClientHeight appSym))"
      "EyePosW (mMainPassCB s') =
         (fmul MSym (fmul MSym (mRadius appSym) (sinf MSym (mPhi appSym))) (cosf MSym (mTheta appSym)),
          fmul MSym (mRadius appSym) (cosf MSym (mPhi appSym)),
          fmul MSym (fmul MSym (mRadius appSym) (sinf MSym (mPhi appSym))) (sinf MSym (mTheta appSym)))"
    unfolding Let_def by blast
  from p(2) have p1: "p = 1" by (simp add: idx)
  from f have "PassConstants.TotalTime (mMainPassCB s') = FLit 5"
    "PassConstants.DeltaTime (mMainPassCB s') = FLit (1 / 60)"
    "RenderTargetSize (mMainPassCB s') = (FInt 800, FInt 600)"
    "EyePosW (mMainPassCB s') =
          (FMul (FMul (FLit 50) (FSin (FSub (FLit (1570796327 / 1000000000)) (FLit (1 / 10)))))
             (FCos (FMul (FLit (3 / 2)) (FLit (3141592654 / 1000000000)))),
           FMul (FLit 50) (FCos (FSub (FLit (1570796327 / 1000000000)) (FLit (1 / 10)))),
           FMul (FMul (FLit 50) (FSin (FSub (FLit (1570796327 / 1000000000)) (FLit (1 / 10)))))
             (FSin (FMul (FLit (3 / 2)) (FLit (3141592654 / 1000000000)))))"
    by (simp_all add: cam timerSym_def MSym_def)
  with u p(1) w cam(6) show ?thesis unfolding p1 by blast
qed

lemma DrawRenderItems_total:
  assumes "\<forall>r \<in> set rs. RitemOK s r"
  shows "\<exists>cmds. DrawRenderItems s p rs = Inr cmds"
  using assms
proof (induction rs)
  case Nil
  show ?case by simp
next
  case (Cons r rs)
  then obtain cmds where "DrawRenderItems s p rs = Inr cmds" by auto
  moreover from Cons.prems have "RitemOK s r" by simp
  ultimately show ?case
    by (auto simp: RitemOK_def Let_def split: option.splits)
qed

lemma DrawRenderItems_valid:
  assumes "DrawRenderItems s p rs = Inr cmds"
  shows "\<forall>r \<in> set rs. RitemOK s r"
  using assms
proof (induction rs arbitrary: cmds)
  case Nil
  show ?case by simp
next
  case (Cons r rs)
  from Cons.prems obtain cmds' where "DrawRenderItems s p rs = Inr cmds'" and "RitemOK s r"
    by (auto simp: Let_def andThen_eq_Inr RitemOK_def split: if_splits option.splits)
  with Cons.IH show ?case by auto
qed

lemma DrawRenderItems_GpuDraws:
  assumes "DrawRenderItems s p rs = Inr cmds"
  shows "\<exists>obj'. GpuDraws pso obj (cmds @ rest) =
           map (\<lambda>r. (pso, Some (ObjectCBAddress p (unat (ObjCBIndex (mAllRitems s ! r) * objCBByteSize))))) rs @
           GpuDraws pso obj' rest"
  using assms
proof (induction rs arbitrary: cmds obj)
  case Nil
  then have "cmds = []" by simp
  then show ?case by auto
next
  case (Cons r rs)
  from Cons.prems obtain geo m mat cmds' where
    r: "Geo (mAllRitems s ! r) = Some geo" "Mat (mAllRitems s ! r) = Some m"
      "map_of (mMaterials s) m = Some mat"
    and tl: "DrawRenderItems s p rs = Inr cmds'"
    and cmds: "cmds =
      [IASetVertexBuffers geo, IASetIndexBuffer geo,
       IASetPrimitiveTopology (PrimitiveType (mAllRitems s ! r)),
       SetGraphicsRootDescriptorTable 0 (DiffuseSrvHeapIndex mat),
       SetGraphicsRootConstantBufferView 1
         (ObjectCBAddress p (unat (ObjCBIndex (mAllRitems s ! r) * objCBByteSize))),
       SetGraphicsRootConstantBufferView 3
         (MaterialCBAddress p (unat (word_of_nat (MatCBIndex mat) * matCBByteSize))),
       DrawIndexedInstanced (IndexCount (mAllRitems s ! r)) 1
         (StartIndexLocation (mAllRitems s ! r)) (BaseVertexLocation (mAllRitems s ! r)) 0]
      @ cmds'"
    by (auto simp: Let_def andThen_eq_Inr split: if_splits option.splits)
  from Cons.IH [OF tl, of "Some (ObjectCBAddress p (unat (ObjCBIndex (mAllRitems s ! r) * objCBByteSize)))"]
  obtain obj' where
    "GpuDraws pso (Some (ObjectCBAddress p (unat (ObjCBIndex (mAllRitems s ! r) * objCBByteSize))))
       (cmds' @ rest) =
     map (\<lambda>r. (pso, Some (ObjectCBAddress p (unat (ObjCBIndex (mAllRitems s ! r) * objCBByteSize))))) rs @
     GpuDraws pso obj' rest"
    by blast
  then show ?case by (intro exI [of _ obj']) (simp add: cmds)
qed

lemma Draw_InrD:
  assumes "Draw s = Inr s'"
  obtains p cmds where "mCurrFrameResource s = Some p" and "p < length (mFrameResources s)"
    and "s' = s\<lparr>mCommandList := cmds,
                  mCurrentFence := mCurrentFence s + 1,
                  mFrameResources := (mFrameResources s)
                    [p := (mFrameResources s ! p)\<lparr>Fence := mCurrentFence s + 1\<rparr>],
                  mCommandQueue := mCommandQueue s @ [mCurrentFence s + 1]\<rparr>"
    and "\<forall>pso obj. GpuDraws pso obj cmds =
           LayerDraws s p ''opaque'' Opaque @
           LayerDraws s p ''alphaTested'' AlphaTested @
           LayerDraws s p ''treeSprites'' AlphaTestedTreeSprites @
           LayerDraws s p ''transparent'' Transparent"
    and "\<forall>layer \<in> set [Opaque, Transparent, AlphaTested, AlphaTestedTreeSprites].
           \<forall>r \<in> set (mRitemLayer s layer). RitemOK s r"
proof -
  from assms obtain p fr where cur: "CurrFrameResource s = Inr (p, fr)"
    by (cases "CurrFrameResource s") (auto simp: Draw_def)
  then have p: "mCurrFrameResource s = Some p" "p < length (mFrameResources s)"
    and fr: "fr = mFrameResources s ! p"
    by (simp_all add: CurrFrameResource_eq_Inr)
  from assms cur obtain c1 c2 c3 c4 where
    l: "DrawRenderItems s p (mRitemLayer s Opaque) = Inr c1"
      "DrawRenderItems s p (mRitemLayer s AlphaTested) = Inr c2"
      "DrawRenderItems s p (mRitemLayer s AlphaTestedTreeSprites) = Inr c3"
      "DrawRenderItems s p (mRitemLayer s Transparent) = Inr c4"
    by (auto simp: Draw_def andThen_eq_Inr)
  let ?cmds = "[Reset ''opaque'', RSSetViewports, RSSetScissorRects,
      ResourceBarrierToRenderTarget, ClearRenderTargetView (FogColor (mMainPassCB s)),
      ClearDepthStencilView, OMSetRenderTargets, SetDescriptorHeaps, SetGraphicsRootSignature,
      SetGraphicsRootConstantBufferView 2 (PassCBAddress p 0)]
      @ c1 @ [SetPipelineState ''alphaTested''] @ c2
      @ [SetPipelineState ''treeSprites''] @ c3
      @ [SetPipelineState ''transparent''] @ c4
      @ [ResourceBarrierToPresent, Close]"
  have s': "s' = s\<lparr>mCommandList := ?cmds,
                  mCurrentFence := mCurrentFence s + 1,
                  mFrameResources := (mFrameResources s)
                    [p := (mFrameResources s ! p)\<lparr>Fence := mCurrentFence s + 1\<rparr>],
                  mCommandQueue := mCommandQueue s @ [mCurrentFence s + 1]\<rparr>"
    using assms cur l fr by (simp add: Draw_def Let_def)
  have draws: "GpuDraws pso obj ?cmds =
           LayerDraws s p ''opaque'' Opaque @
           LayerDraws s p ''alphaTested'' AlphaTested @
           LayerDraws s p ''treeSprites'' AlphaTestedTreeSprites @
           LayerDraws s p ''transparent'' Transparent" for pso obj
  proof -
    let ?r4 = "[ResourceBarrierToPresent, Close]"
    let ?r3 = "SetPipelineState ''transparent'' # c4 @ ?r4"
    let ?r2 = "SetPipelineState ''treeSprites'' # c3 @ ?r3"
    let ?r1 = "SetPipelineState ''alphaTested'' # c2 @ ?r2"
    have d4: "GpuDraws ''transparent'' o4 (c4 @ ?r4) =
        LayerDraws s p ''transparent'' Transparent" for o4
      using DrawRenderItems_GpuDraws [OF l(4), of "''transparent''" o4 ?r4]
      by (auto simp: LayerDraws_def)
    have d3: "GpuDraws ''treeSprites'' o3 (c3 @ ?r3) =
        LayerDraws s p ''treeSprites'' AlphaTestedTreeSprites @
        LayerDraws s p ''transparent'' Transparent" for o3
      using DrawRenderItems_GpuDraws [OF l(3), of "''treeSprites''" o3 ?r3]
      by (auto simp: LayerDraws_def d4)
    have d2: "GpuDraws ''alphaTested'' o2 (c2 @ ?r2) =
        LayerDraws s p ''alphaTested'' AlphaTested @
        LayerDraws s p ''treeSprites'' AlphaTestedTreeSprites @
        LayerDraws s p ''transparent'' Transparent" for o2
      using DrawRenderItems_GpuDraws [OF l(2), of "''alphaTested''" o2 ?r2]
      by (auto simp: LayerDraws_def d3)
    have d1: "GpuDraws ''opaque'' o1 (c1 @ ?r1) =
        LayerDraws s p ''opaque'' Opaque @
        LayerDraws s p ''alphaTested'' AlphaTested @
        LayerDraws s p ''treeSprites'' AlphaTestedTreeSprites @
        LayerDraws s p ''transparent'' Transparent" for o1
      using DrawRenderItems_GpuDraws [OF l(1), of "''opaque''" o1 ?r1]
      by (auto simp: LayerDraws_def d2)
    show ?thesis by (simp add: d1)
  qed
  from draws have "\<forall>pso obj. GpuDraws pso obj ?cmds =
           LayerDraws s p ''opaque'' Opaque @
           LayerDraws s p ''alphaTested'' AlphaTested @
           LayerDraws s p ''treeSprites'' AlphaTestedTreeSprites @
           LayerDraws s p ''transparent'' Transparent"
    by blast
  moreover from l have "\<forall>layer \<in> set [Opaque, Transparent, AlphaTested, AlphaTestedTreeSprites].
           \<forall>r \<in> set (mRitemLayer s layer). RitemOK s r"
    by (simp add: DrawRenderItems_valid)
  ultimately show ?thesis using p s' by (intro that)
qed

lemma Draw_total:
  assumes "mCurrFrameResource s = Some p" and "p < length (mFrameResources s)"
    and "\<forall>layer \<in> set [Opaque, Transparent, AlphaTested, AlphaTestedTreeSprites].
           \<forall>r \<in> set (mRitemLayer s layer). RitemOK s r"
  shows "\<exists>s'. Draw s = Inr s'"
proof -
  from assms(1,2) have cur: "CurrFrameResource s = Inr (p, mFrameResources s ! p)"
    by (simp add: CurrFrameResource_eq_Inr)
  from assms(3) DrawRenderItems_total [of _ s p] obtain c1 c2 c3 c4 where
    "DrawRenderItems s p (mRitemLayer s Opaque) = Inr c1"
    "DrawRenderItems s p (mRitemLayer s AlphaTested) = Inr c2"
    "DrawRenderItems s p (mRitemLayer s AlphaTestedTreeSprites) = Inr c3"
    "DrawRenderItems s p (mRitemLayer s Transparent) = Inr c4"
    by (metis list.set_intros(1,2))
  with cur show ?thesis by (simp add: Draw_def Let_def)
qed

lemma nth_last_group:
  assumes "t \<notin> set xs" and "i < j" and "j < length (xs @ replicate n t)"
    and "(xs @ replicate n t) ! i = t"
  shows "(xs @ replicate n t) ! j = t"
proof -
  have "\<not> i < length xs"
  proof
    assume "i < length xs"
    with assms(4) have "xs ! i = t" by (simp add: nth_append)
    with \<open>i < length xs\<close> assms(1) show False by (metis nth_mem)
  qed
  with assms(2,3) show ?thesis by (simp add: nth_append)
qed

lemma map_fst_LayerDraws:
  "map fst (LayerDraws s p pso layer) = replicate (length (mRitemLayer s layer)) pso"
  by (simp add: LayerDraws_def comp_def map_replicate_const)

text \<open>
  C8. The draws of a frame are grouped by pipeline state, strictly in the order opaque,
  alpha-tested, tree sprites (the billboards, drawn from points), transparent. When
  \<^verbatim>\<open>Draw\<close> returns, the GPU running the recorded command list draws, under whatever
  pipeline state and binding it starts from,
  \<^item> the items of the Opaque layer under \<^verbatim>\<open>opaque\<close>, then those of the AlphaTested layer
    under \<^verbatim>\<open>alphaTested\<close>, then those of the AlphaTestedTreeSprites layer under
    \<^verbatim>\<open>treeSprites\<close>, then those of the Transparent layer under \<^verbatim>\<open>transparent\<close>, each
    item in the order of its layer and with its own object constants of the current frame
    resource bound, at the byte offset that the code computes in 32-bit arithmetic;
  \<^item> so the pipeline states of the draws are four blocks in that order, and once a draw is
    transparent every later draw of the frame is.
\<close>

theorem C8_draws_grouped_by_pipeline_state:
  assumes "Draw s = Inr s'"
  shows "(\<exists>p. mCurrFrameResource s = Some p \<and>
            GpuDraws pso obj (mCommandList s') =
              LayerDraws s p ''opaque'' Opaque @
              LayerDraws s p ''alphaTested'' AlphaTested @
              LayerDraws s p ''treeSprites'' AlphaTestedTreeSprites @
              LayerDraws s p ''transparent'' Transparent) \<and>
         map fst (GpuDraws pso obj (mCommandList s')) =
           replicate (length (mRitemLayer s Opaque)) ''opaque'' @
           replicate (length (mRitemLayer s AlphaTested)) ''alphaTested'' @
           replicate (length (mRitemLayer s AlphaTestedTreeSprites)) ''treeSprites'' @
           replicate (length (mRitemLayer s Transparent)) ''transparent'' \<and>
         (\<forall>i j. i < j \<and> j < length (GpuDraws pso obj (mCommandList s')) \<and>
            fst (GpuDraws pso obj (mCommandList s') ! i) = ''transparent'' \<longrightarrow>
            fst (GpuDraws pso obj (mCommandList s') ! j) = ''transparent'')"
proof -
  let ?ds = "GpuDraws pso obj (mCommandList s')"
  from assms obtain p cmds where p: "mCurrFrameResource s = Some p"
    and s': "mCommandList s' = cmds"
    and d: "\<forall>pso obj. GpuDraws pso obj cmds =
           LayerDraws s p ''opaque'' Opaque @
           LayerDraws s p ''alphaTested'' AlphaTested @
           LayerDraws s p ''treeSprites'' AlphaTestedTreeSprites @
           LayerDraws s p ''transparent'' Transparent"
    by (rule Draw_InrD) simp
  from p d have groups: "\<exists>p. mCurrFrameResource s = Some p \<and>
           ?ds =
             LayerDraws s p ''opaque'' Opaque @
             LayerDraws s p ''alphaTested'' AlphaTested @
             LayerDraws s p ''treeSprites'' AlphaTestedTreeSprites @
             LayerDraws s p ''transparent'' Transparent"
    by (simp add: s')
  let ?front = "replicate (length (mRitemLayer s Opaque)) ''opaque'' @
           replicate (length (mRitemLayer s AlphaTested)) ''alphaTested'' @
           replicate (length (mRitemLayer s AlphaTestedTreeSprites)) ''treeSprites''"
  let ?n = "length (mRitemLayer s Transparent)"
  have m: "map fst ?ds =
           replicate (length (mRitemLayer s Opaque)) ''opaque'' @
           replicate (length (mRitemLayer s AlphaTested)) ''alphaTested'' @
           replicate (length (mRitemLayer s AlphaTestedTreeSprites)) ''treeSprites'' @
           replicate ?n ''transparent''"
    by (simp add: s' d map_fst_LayerDraws)
  then have m': "map fst ?ds = ?front @ replicate ?n ''transparent''"
    by simp
  have front: "''transparent'' \<notin> set ?front" by auto
  have last: "\<forall>i j. i < j \<and> j < length ?ds \<and> fst (?ds ! i) = ''transparent'' \<longrightarrow>
           fst (?ds ! j) = ''transparent''"
  proof (intro allI impI, elim conjE)
    fix i j
    assume ij: "i < j" "j < length ?ds" and t: "fst (?ds ! i) = ''transparent''"
    from ij have len: "j < length (?front @ replicate ?n ''transparent'')"
      by (metis m' length_map)
    from ij t have "map fst ?ds ! i = ''transparent''"
      by simp
    then have "(?front @ replicate ?n ''transparent'') ! i = ''transparent''"
      by (simp only: m')
    from nth_last_group [OF front ij(1) len this]
    have "map fst ?ds ! j = ''transparent''"
      by (simp only: m')
    with ij show "fst (?ds ! j) = ''transparent''"
      by simp
  qed
  from groups m last show ?thesis by (intro conjI)
qed

lemma appInFlight_Draw: "\<exists>s'. Draw appInFlight = Inr s'"
proof (rule Draw_total)
  show "mCurrFrameResource appInFlight = Some 0"
    by (simp add: appInFlight_def)
  show "0 < length (mFrameResources appInFlight)"
    by (simp add: appInFlight_def)
  have "RitemOK appInFlight r = RitemOK app0 r" for r
    by (simp add: RitemOK_def appInFlight_def split: option.splits)
  moreover have "mRitemLayer appInFlight = mRitemLayer app0"
    by (simp add: appInFlight_def)
  ultimately show "\<forall>layer \<in> set [Opaque, Transparent, AlphaTested, AlphaTestedTreeSprites].
      \<forall>r \<in> set (mRitemLayer appInFlight layer). RitemOK appInFlight r"
    using app0_SceneOK by (simp add: SceneOK_def)
qed

lemma objCBByteSize_256: "objCBByteSize = 256"
  by (simp add: objCBByteSize_def CalcConstantBufferByteSize_def sizeofObjectConstants_def)

text \<open>The offset of an index from \<open>2 ^ 24\<close> on wraps around: it addresses a lower entry.\<close>

lemma objCB_offset_wraps: "unat ((16777216 :: UINT) * objCBByteSize) = 0"
  by (simp add: objCBByteSize_256)

theorem C8_draws_grouped_by_pipeline_state_witness:
  "\<exists>s'. Draw appInFlight = Inr s' \<and>
     map fst (GpuDraws [] None (mCommandList s')) =
       replicate 19 ''opaque'' @ [''treeSprites'', ''transparent''] \<and>
     drop 19 (GpuDraws [] None (mCommandList s')) =
       [(''treeSprites'', Some (ObjectCBAddress 0 256)),
        (''transparent'', Some (ObjectCBAddress 0 0))]"
proof -
  obtain s' where d: "Draw appInFlight = Inr s'"
    using appInFlight_Draw by blast
  have l: "mRitemLayer appInFlight = mRitemLayer app0"
    and a: "mAllRitems appInFlight = mAllRitems app0"
    and c: "mCurrFrameResource appInFlight = Some 0"
    by (simp_all add: appInFlight_def)
  note t = C8_draws_grouped_by_pipeline_state [OF d, of "[]" None]
  from t have m: "map fst (GpuDraws [] None (mCommandList s')) =
       replicate 19 ''opaque'' @ [''treeSprites'', ''transparent'']"
    by (simp add: l app0_def Initialize_layers eval_nat_numeral)
  from t have g: "GpuDraws [] None (mCommandList s') =
       LayerDraws appInFlight 0 ''opaque'' Opaque @
       LayerDraws appInFlight 0 ''alphaTested'' AlphaTested @
       LayerDraws appInFlight 0 ''treeSprites'' AlphaTestedTreeSprites @
       LayerDraws appInFlight 0 ''transparent'' Transparent"
    by (simp add: c)
  have n: "length (LayerDraws appInFlight 0 ''opaque'' Opaque) = 19"
    by (simp add: LayerDraws_def l app0_def Initialize_layers)
  have "drop 19 (GpuDraws [] None (mCommandList s')) =
       [(''treeSprites'', Some (ObjectCBAddress 0 256)),
        (''transparent'', Some (ObjectCBAddress 0 0))]"
    unfolding g using n
    by (simp add: LayerDraws_def l a app0_def Initialize_layers Initialize_mAllRitems
          wavesRitem_def treeSpritesRitem_def objCBByteSize_256)
  with d m show ?thesis by blast
qed

lemma runFrame_InrD:
  assumes "runFrame M (n, gt, w) s = Inr s'"
  obtains p k cmds c q e v wm tr r g where
    "int p = (mCurrFrameResourceIndex s + 1) mod 3" and "p < length (mFrameResources s)"
    and "map_of (mMaterials s) ''water'' = Some wm"
    and "mWavesRitem s = Some r" and "r < length (mAllRitems s)"
    and "Geo (mAllRitems s ! r) = Some g"
    and "c = mFence ((GpuRetire ^^ k) s)" and "q = mCommandQueue ((GpuRetire ^^ k) s)"
    and "Fence (mFrameResources s ! p) = 0 \<or> Fence (mFrameResources s ! p) \<le> c"
    and "\<forall>pso obj. GpuDraws pso obj cmds =
           LayerDraws s p ''opaque'' Opaque @
           LayerDraws s p ''alphaTested'' AlphaTested @
           LayerDraws s p ''treeSprites'' AlphaTestedTreeSprites @
           LayerDraws s p ''transparent'' Transparent"
    and "s' = s\<lparr>mEyePos := e, mView := v,
           mCurrFrameResourceIndex := int p, mCurrFrameResource := Some p,
           mFence := c, mCommandQueue := q @ [mCurrentFence s + 1],
           mMaterials := map (apsnd materialAfterUpload)
              (AList.update ''water''
                 (wm\<lparr>Material.MatTransform := tr, Material.NumFramesDirty := gNumFrameResources\<rparr>)
                 (mMaterials s)),
            mAllRitems := map ritemAfterUpload (mAllRitems s),
            mMainPassCB := MainPassConstants M gt (UpdateCamera M s),
            mFrameResources := (mFrameResources s)
              [p := (mFrameResources s ! p)
                 \<lparr>ObjectCB := (ObjectCB (mFrameResources s ! p))
                    \<lparr>mMappedData := objectWrites (mAllRitems s) @
                       mMappedData (ObjectCB (mFrameResources s ! p))\<rparr>,
                  MaterialCB := (MaterialCB (mFrameResources s ! p))
                    \<lparr>mMappedData :=
                       materialWrites (AList.update ''water''
                         (wm\<lparr>Material.MatTransform := tr,
                             Material.NumFramesDirty := gNumFrameResources\<rparr>)
                         (mMaterials s)) @ mMappedData (MaterialCB (mFrameResources s ! p))\<rparr>,
                  PassCB := (PassCB (mFrameResources s ! p))
                    \<lparr>mMappedData := (0, MainPassConstants M gt (UpdateCamera M s)) #
                       mMappedData (PassCB (mFrameResources s ! p))\<rparr>,
                  WavesVB := UpdateWaves_loop M w (WavesVB (mFrameResources s ! p)),
                  Fence := mCurrentFence s + 1\<rparr>],
            VertexBufferGPU := (VertexBufferGPU s)(g := Some p),
            mCommandList := cmds,
            mCurrentFence := mCurrentFence s + 1\<rparr>"
proof -
  define s0 where "s0 = (GpuRetire ^^ n) s"
  from assms obtain s1 where u: "Update M gt w s0 = Inr s1" and d: "Draw s1 = Inr s'"
    by (auto simp: runFrame_def andThen_eq_Inr s0_def)
  obtain c0 q0 where s0: "s0 = s\<lparr>mFence := c0, mCommandQueue := q0\<rparr>"
    using GpuRetire_pow_frame [of n s] by (auto simp: s0_def)
  from u obtain p k c q e v wm tr r g where
    p: "int p = (mCurrFrameResourceIndex s0 + 1) mod 3" "p < length (mFrameResources s0)"
    and wm: "map_of (mMaterials s0) ''water'' = Some wm"
    and wv: "mWavesRitem s0 = Some r" "r < length (mAllRitems s0)"
      "Geo (mAllRitems s0 ! r) = Some g"
    and c: "c = mFence ((GpuRetire ^^ k) s0)" and q: "q = mCommandQueue ((GpuRetire ^^ k) s0)"
    and ret: "Fence (mFrameResources s0 ! p) = 0 \<or> Fence (mFrameResources s0 ! p) \<le> c"
    and cam: "UpdateCamera M s0 = s0\<lparr>mEyePos := e, mView := v\<rparr>"
    and s1: "s1 = s0\<lparr>mEyePos := e, mView := v,
           mCurrFrameResourceIndex := int p, mCurrFrameResource := Some p,
           mFence := c, mCommandQueue := q,
           mMaterials := map (apsnd materialAfterUpload)
              (AList.update ''water''
                 (wm\<lparr>Material.MatTransform := tr, Material.NumFramesDirty := gNumFrameResources\<rparr>)
                 (mMaterials s0)),
            mAllRitems := map ritemAfterUpload (mAllRitems s0),
            mMainPassCB := MainPassConstants M gt (UpdateCamera M s0),
            mFrameResources := (mFrameResources s0)
              [p := (mFrameResources s0 ! p)
                 \<lparr>ObjectCB := (ObjectCB (mFrameResources s0 ! p))
                    \<lparr>mMappedData := objectWrites (mAllRitems s0) @
                       mMappedData (ObjectCB (mFrameResources s0 ! p))\<rparr>,
                  MaterialCB := (MaterialCB (mFrameResources s0 ! p))
                    \<lparr>mMappedData :=
                       materialWrites (AList.update ''water''
                         (wm\<lparr>Material.MatTransform := tr,
                             Material.NumFramesDirty := gNumFrameResources\<rparr>)
                         (mMaterials s0)) @ mMappedData (MaterialCB (mFrameResources s0 ! p))\<rparr>,
                  PassCB := (PassCB (mFrameResources s0 ! p))
                    \<lparr>mMappedData := (0, MainPassConstants M gt (UpdateCamera M s0)) #
                       mMappedData (PassCB (mFrameResources s0 ! p))\<rparr>,
                  WavesVB := UpdateWaves_loop M w (WavesVB (mFrameResources s0 ! p))\<rparr>],
            VertexBufferGPU := (VertexBufferGPU s0)(g := Some p)\<rparr>"
    by (rule Update_InrD)
  have proj: "mMaterials s0 = mMaterials s" "mAllRitems s0 = mAllRitems s"
    "mFrameResources s0 = mFrameResources s" "VertexBufferGPU s0 = VertexBufferGPU s"
    "mWavesRitem s0 = mWavesRitem s" "mCurrFrameResourceIndex s0 = mCurrFrameResourceIndex s"
    "mCurrentFence s0 = mCurrentFence s" "mRitemLayer s0 = mRitemLayer s"
    by (simp_all add: s0)
  have mp: "MainPassConstants M gt (UpdateCamera M s0) = MainPassConstants M gt (UpdateCamera M s)"
    by (rule MainPassConstants_cong) (simp_all add: UpdateCamera_def Let_def s0)
  have pow: "(GpuRetire ^^ k) s0 = (GpuRetire ^^ (k + n)) s"
    by (simp add: s0_def funpow_add)
  from d obtain p' cmds where p': "mCurrFrameResource s1 = Some p'"
    and "p' < length (mFrameResources s1)"
    and s': "s' = s1\<lparr>mCommandList := cmds,
                  mCurrentFence := mCurrentFence s1 + 1,
                  mFrameResources := (mFrameResources s1)
                    [p' := (mFrameResources s1 ! p')\<lparr>Fence := mCurrentFence s1 + 1\<rparr>],
                  mCommandQueue := mCommandQueue s1 @ [mCurrentFence s1 + 1]\<rparr>"
    and draws: "\<forall>pso obj. GpuDraws pso obj cmds =
           LayerDraws s1 p' ''opaque'' Opaque @
           LayerDraws s1 p' ''alphaTested'' AlphaTested @
           LayerDraws s1 p' ''treeSprites'' AlphaTestedTreeSprites @
           LayerDraws s1 p' ''transparent'' Transparent"
    and valid: "\<forall>layer \<in> set [Opaque, Transparent, AlphaTested, AlphaTestedTreeSprites].
           \<forall>r \<in> set (mRitemLayer s1 layer). RitemOK s1 r"
    by (rule Draw_InrD)
  from p' have pp: "p' = p" by (simp add: s1)
  have layers: "mRitemLayer s1 = mRitemLayer s" by (simp add: s1 s0)
  have ld: "LayerDraws s1 p pso layer = LayerDraws s p pso layer" for pso layer
  proof -
    have "r < length (mAllRitems s)" if "r \<in> set (mRitemLayer s layer)" for r
    proof -
      from valid that have "RitemOK s1 r"
        by (cases layer) (simp_all add: layers)
      then show ?thesis by (simp add: RitemOK_def s1 s0)
    qed
    then have "ObjCBIndex (mAllRitems s1 ! r) = ObjCBIndex (mAllRitems s ! r)"
      if "r \<in> set (mRitemLayer s layer)" for r
      using that by (simp add: s1 s0)
    then show ?thesis by (simp add: LayerDraws_def layers)
  qed
  show ?thesis
  proof (rule that [where p = p and k = "k + n" and c = c and q = q and e = e and v = v
        and wm = wm and tr = tr and r = r and g = g and cmds = cmds])
    show "s' = s\<lparr>mEyePos := e, mView := v,
           mCurrFrameResourceIndex := int p, mCurrFrameResource := Some p,
           mFence := c, mCommandQueue := q @ [mCurrentFence s + 1],
           mMaterials := map (apsnd materialAfterUpload)
              (AList.update ''water''
                 (wm\<lparr>Material.MatTransform := tr, Material.NumFramesDirty := gNumFrameResources\<rparr>)
                 (mMaterials s)),
            mAllRitems := map ritemAfterUpload (mAllRitems s),
            mMainPassCB := MainPassConstants M gt (UpdateCamera M s),
            mFrameResources := (mFrameResources s)
              [p := (mFrameResources s ! p)
                 \<lparr>ObjectCB := (ObjectCB (mFrameResources s ! p))
                    \<lparr>mMappedData := objectWrites (mAllRitems s) @
                       mMappedData (ObjectCB (mFrameResources s ! p))\<rparr>,
                  MaterialCB := (MaterialCB (mFrameResources s ! p))
                    \<lparr>mMappedData :=
                       materialWrites (AList.update ''water''
                         (wm\<lparr>Material.MatTransform := tr,
                             Material.NumFramesDirty := gNumFrameResources\<rparr>)
                         (mMaterials s)) @ mMappedData (MaterialCB (mFrameResources s ! p))\<rparr>,
                  PassCB := (PassCB (mFrameResources s ! p))
                    \<lparr>mMappedData := (0, MainPassConstants M gt (UpdateCamera M s)) #
                       mMappedData (PassCB (mFrameResources s ! p))\<rparr>,
                  WavesVB := UpdateWaves_loop M w (WavesVB (mFrameResources s ! p)),
                  Fence := mCurrentFence s + 1\<rparr>],
            VertexBufferGPU := (VertexBufferGPU s)(g := Some p),
            mCommandList := cmds,
            mCurrentFence := mCurrentFence s + 1\<rparr>"
      unfolding s' pp s1 mp proj using p(2) by (simp add: s0)
    show "\<forall>pso obj. GpuDraws pso obj cmds =
           LayerDraws s p ''opaque'' Opaque @
           LayerDraws s p ''alphaTested'' AlphaTested @
           LayerDraws s p ''treeSprites'' AlphaTestedTreeSprites @
           LayerDraws s p ''transparent'' Transparent"
      using draws by (simp add: pp ld)
  qed (use p wm wv c q ret in \<open>simp_all add: proj pow\<close>)
qed

lemma map_of_after_frame:
  assumes "name \<noteq> k"
  shows "map_of (map (apsnd f) (AList.update k v xs)) name = map_option f (map_of xs name)"
proof -
  have "map_of (map (apsnd f) ys) name = map_option f (map_of ys name)" for ys
    by (induction ys) auto
  with assms show ?thesis by (simp add: update_conv')
qed

lemma map_of_after_frame_same:
  "map_of (map (apsnd f) (AList.update k v xs)) k = Some (f v)"
proof -
  have "map_of (map (apsnd f) ys) k = map_option f (map_of ys k)" for ys
    by (induction ys) auto
  then show ?thesis by (simp add: update_conv')
qed

lemma keys_after_frame:
  assumes "map_of xs k \<noteq> None"
  shows "map fst (map (apsnd f) (AList.update k v xs)) = map fst xs"
proof -
  from assms have "k \<in> set (map fst xs)" by (simp only: map_of_keys)
  then have "map fst (AList.update k v xs) = map fst xs"
    by (simp add: update_keys)
  then show ?thesis by (simp add: comp_def)
qed

lemma entry_after_update:
  assumes "(name, m) \<in> set xs" and "name \<noteq> k"
  shows "(name, m) \<in> set (AList.update k v xs)"
  using assms by (induction xs) auto

text \<open>What a returning frame leaves behind, field by field.\<close>

lemma runFrame_ring:
  assumes "runFrame M inp s = Inr s'"
  shows "mCurrFrameResourceIndex s' = (mCurrFrameResourceIndex s + 1) mod 3"
    and "mCurrFrameResource s' = Some (nextSlot s)"
    and "nextSlot s < length (mFrameResources s)"
    and "length (mFrameResources s') = length (mFrameResources s)"
    and "q \<noteq> nextSlot s \<Longrightarrow> mFrameResources s' ! q = mFrameResources s ! q"
    and "mRitemLayer s' = mRitemLayer s"
    and "mWavesRitem s' = mWavesRitem s"
proof -
  obtain n gt w where inp: "inp = (n, gt, w)" by (cases inp)
  from assms [unfolded inp] obtain p where
    p: "int p = (mCurrFrameResourceIndex s + 1) mod 3" "p < length (mFrameResources s)"
    and s': "mCurrFrameResourceIndex s' = int p" "mCurrFrameResource s' = Some p"
      "length (mFrameResources s') = length (mFrameResources s)"
      "\<forall>q. q \<noteq> p \<longrightarrow> mFrameResources s' ! q = mFrameResources s ! q"
      "mRitemLayer s' = mRitemLayer s" "mWavesRitem s' = mWavesRitem s"
    by (rule runFrame_InrD) simp
  from p(1) have ps: "p = nextSlot s" by (simp add: nextSlot_def)
  from p s' show "mCurrFrameResourceIndex s' = (mCurrFrameResourceIndex s + 1) mod 3"
    and "mCurrFrameResource s' = Some (nextSlot s)"
    and "nextSlot s < length (mFrameResources s)"
    and "length (mFrameResources s') = length (mFrameResources s)"
    and "q \<noteq> nextSlot s \<Longrightarrow> mFrameResources s' ! q = mFrameResources s ! q"
    and "mRitemLayer s' = mRitemLayer s"
    and "mWavesRitem s' = mWavesRitem s"
    by (simp_all add: ps)
qed

lemma runFrame_fence:
  assumes "runFrame M inp s = Inr s'"
  shows "mCurrentFence s' = mCurrentFence s + 1"
    and "Fence (mFrameResources s' ! nextSlot s) = mCurrentFence s + 1"
    and "\<exists>k. mFence s' = mFence ((GpuRetire ^^ k) s) \<and>
           mCommandQueue s' = mCommandQueue ((GpuRetire ^^ k) s) @ [mCurrentFence s + 1]"
    and "Fence (mFrameResources s ! nextSlot s) = 0 \<or>
         Fence (mFrameResources s ! nextSlot s) \<le> mFence s'"
proof -
  obtain n gt w where inp: "inp = (n, gt, w)" by (cases inp)
  from assms [unfolded inp] obtain p k where
    p: "int p = (mCurrFrameResourceIndex s + 1) mod 3" "p < length (mFrameResources s)"
    and ret: "Fence (mFrameResources s ! p) = 0 \<or> Fence (mFrameResources s ! p) \<le> mFence s'"
    and s': "mCurrentFence s' = mCurrentFence s + 1"
      "Fence (mFrameResources s' ! p) = mCurrentFence s + 1"
      "mFence s' = mFence ((GpuRetire ^^ k) s)"
      "mCommandQueue s' = mCommandQueue ((GpuRetire ^^ k) s) @ [mCurrentFence s + 1]"
    by (rule runFrame_InrD) simp
  from p(1) have ps: "p = nextSlot s" by (simp add: nextSlot_def)
  from s' ret show "mCurrentFence s' = mCurrentFence s + 1"
    and "Fence (mFrameResources s' ! nextSlot s) = mCurrentFence s + 1"
    and "\<exists>k. mFence s' = mFence ((GpuRetire ^^ k) s) \<and>
           mCommandQueue s' = mCommandQueue ((GpuRetire ^^ k) s) @ [mCurrentFence s + 1]"
    and "Fence (mFrameResources s ! nextSlot s) = 0 \<or>
         Fence (mFrameResources s ! nextSlot s) \<le> mFence s'"
    by (auto simp: ps)
qed

lemma runFrame_objects:
  assumes "runFrame M inp s = Inr s'"
  shows "mAllRitems s' = map ritemAfterUpload (mAllRitems s)"
    and "ObjectCB (mFrameResources s' ! nextSlot s) =
         (ObjectCB (mFrameResources s ! nextSlot s))
           \<lparr>mMappedData := objectWrites (mAllRitems s) @
              mMappedData (ObjectCB (mFrameResources s ! nextSlot s))\<rparr>"
proof -
  obtain n gt w where inp: "inp = (n, gt, w)" by (cases inp)
  from assms [unfolded inp] obtain p where
    p: "int p = (mCurrFrameResourceIndex s + 1) mod 3" "p < length (mFrameResources s)"
    and s': "mAllRitems s' = map ritemAfterUpload (mAllRitems s)"
      "ObjectCB (mFrameResources s' ! p) =
         (ObjectCB (mFrameResources s ! p))
           \<lparr>mMappedData := objectWrites (mAllRitems s) @
              mMappedData (ObjectCB (mFrameResources s ! p))\<rparr>"
    by (rule runFrame_InrD) simp
  from p(1) have ps: "p = nextSlot s" by (simp add: nextSlot_def)
  from s' show "mAllRitems s' = map ritemAfterUpload (mAllRitems s)"
    and "ObjectCB (mFrameResources s' ! nextSlot s) =
         (ObjectCB (mFrameResources s ! nextSlot s))
           \<lparr>mMappedData := objectWrites (mAllRitems s) @
              mMappedData (ObjectCB (mFrameResources s ! nextSlot s))\<rparr>"
    by (simp_all add: ps)
qed

lemma runFrame_materials:
  assumes "runFrame M inp s = Inr s'"
  shows "\<exists>wm tr. map_of (mMaterials s) ''water'' = Some wm \<and>
           mMaterials s' = map (apsnd materialAfterUpload)
             (AList.update ''water''
                (wm\<lparr>Material.MatTransform := tr, Material.NumFramesDirty := gNumFrameResources\<rparr>)
                (mMaterials s)) \<and>
           MaterialCB (mFrameResources s' ! nextSlot s) =
             (MaterialCB (mFrameResources s ! nextSlot s))
               \<lparr>mMappedData :=
                  materialWrites (AList.update ''water''
                    (wm\<lparr>Material.MatTransform := tr,
                        Material.NumFramesDirty := gNumFrameResources\<rparr>)
                    (mMaterials s)) @
                  mMappedData (MaterialCB (mFrameResources s ! nextSlot s))\<rparr>"
proof -
  obtain n gt w where inp: "inp = (n, gt, w)" by (cases inp)
  from assms [unfolded inp] obtain p wm tr where
    p: "int p = (mCurrFrameResourceIndex s + 1) mod 3" "p < length (mFrameResources s)"
    and wm: "map_of (mMaterials s) ''water'' = Some wm"
    and s': "mMaterials s' = map (apsnd materialAfterUpload)
             (AList.update ''water''
                (wm\<lparr>Material.MatTransform := tr, Material.NumFramesDirty := gNumFrameResources\<rparr>)
                (mMaterials s))"
      "MaterialCB (mFrameResources s' ! p) =
             (MaterialCB (mFrameResources s ! p))
               \<lparr>mMappedData :=
                  materialWrites (AList.update ''water''
                    (wm\<lparr>Material.MatTransform := tr,
                        Material.NumFramesDirty := gNumFrameResources\<rparr>)
                    (mMaterials s)) @
                  mMappedData (MaterialCB (mFrameResources s ! p))\<rparr>"
    by (rule runFrame_InrD) simp
  from p(1) have ps: "p = nextSlot s" by (simp add: nextSlot_def)
  from wm s' show ?thesis unfolding ps by blast
qed

lemma GpuRetire_pow_proj:
  "mFrameResources ((GpuRetire ^^ k) s) = mFrameResources s"
  "mCurrentFence ((GpuRetire ^^ k) s) = mCurrentFence s"
  "mCurrFrameResourceIndex ((GpuRetire ^^ k) s) = mCurrFrameResourceIndex s"
  "mMaterials ((GpuRetire ^^ k) s) = mMaterials s"
  "mAllRitems ((GpuRetire ^^ k) s) = mAllRitems s"
  "mRitemLayer ((GpuRetire ^^ k) s) = mRitemLayer s"
  "mWavesRitem ((GpuRetire ^^ k) s) = mWavesRitem s"
proof -
  obtain c q where "(GpuRetire ^^ k) s = s\<lparr>mFence := c, mCommandQueue := q\<rparr>"
    using GpuRetire_pow_frame by blast
  then show "mFrameResources ((GpuRetire ^^ k) s) = mFrameResources s"
    "mCurrentFence ((GpuRetire ^^ k) s) = mCurrentFence s"
    "mCurrFrameResourceIndex ((GpuRetire ^^ k) s) = mCurrFrameResourceIndex s"
    "mMaterials ((GpuRetire ^^ k) s) = mMaterials s"
    "mAllRitems ((GpuRetire ^^ k) s) = mAllRitems s"
    "mRitemLayer ((GpuRetire ^^ k) s) = mRitemLayer s"
    "mWavesRitem ((GpuRetire ^^ k) s) = mWavesRitem s"
    by simp_all
qed

lemma FenceOK_GpuRetire:
  assumes "FenceOK s"
  shows "FenceOK (GpuRetire s)"
proof (cases "mCommandQueue s")
  case Nil
  with assms show ?thesis by (simp add: GpuRetire_def)
next
  case (Cons v q)
  from assms Cons have srt: "mFence s \<le> v" "sorted (v # q)"
    and bnd: "\<forall>x \<in> set (v # q). x \<le> mCurrentFence s"
    and st: "\<forall>fr \<in> set (mFrameResources s).
        Fence fr = 0 \<or> Fence fr \<le> mFence s \<or> Fence fr \<in> set (v # q)"
    by (auto simp: FenceOK_def)
  have "Fence fr = 0 \<or> Fence fr \<le> v \<or> Fence fr \<in> set q"
    if "fr \<in> set (mFrameResources s)" for fr
    using st [rule_format, OF that] srt(1) by auto
  with srt bnd show ?thesis
    by (simp add: FenceOK_def GpuRetire_def Cons)
qed

lemma FenceOK_GpuRetire_pow:
  assumes "FenceOK s"
  shows "FenceOK ((GpuRetire ^^ k) s)"
  using assms by (induction k) (simp_all add: FenceOK_GpuRetire)

lemma FenceOK_reachable:
  assumes "FenceOK s" and "p < length (mFrameResources s)"
  shows "Fence (mFrameResources s ! p) = 0 \<or> Fence (mFrameResources s ! p) \<le> mFence s \<or>
    (\<exists>v \<in> set (mCommandQueue s). Fence (mFrameResources s ! p) \<le> v)"
proof -
  from assms(2) have "mFrameResources s ! p \<in> set (mFrameResources s)" by simp
  with assms(1) have "Fence (mFrameResources s ! p) = 0 \<or>
      Fence (mFrameResources s ! p) \<le> mFence s \<or>
      Fence (mFrameResources s ! p) \<in> set (mCommandQueue s)"
    unfolding FenceOK_def by blast
  then show ?thesis by auto
qed

lemma word_less_Suc:
  fixes c :: "64 word"
  assumes "unat c + 1 < 2 ^ 64"
  shows "c < c + 1" and "unat (c + 1) = unat c + 1"
proof -
  from assms show u: "unat (c + 1) = unat c + 1"
    by (simp add: unat_word_ariths)
  then show "c < c + 1" by (simp add: word_less_nat_alt)
qed

lemma FenceOK_runFrame:
  assumes ok: "FenceOK s" and fr: "runFrame M inp s = Inr s'"
    and nov: "unat (mCurrentFence s) + 1 < 2 ^ 64"
  shows "FenceOK s'"
proof -
  let ?f = "mCurrentFence s + 1"
  let ?p = "nextSlot s"
  from runFrame_fence [OF fr] obtain k where
    cf: "mCurrentFence s' = ?f" and stamp: "Fence (mFrameResources s' ! ?p) = ?f"
    and fence: "mFence s' = mFence ((GpuRetire ^^ k) s)"
    and queue: "mCommandQueue s' = mCommandQueue ((GpuRetire ^^ k) s) @ [?f]"
    by blast
  note ring = runFrame_ring [OF fr]
  let ?t = "(GpuRetire ^^ k) s"
  from ok have t: "FenceOK ?t" by (rule FenceOK_GpuRetire_pow)
  from nov have lt: "mCurrentFence s < ?f" by (rule word_less_Suc)
  from t have srt: "sorted (mFence ?t # mCommandQueue ?t)"
    and bnd: "\<forall>v \<in> set (mFence ?t # mCommandQueue ?t). v \<le> mCurrentFence s"
    and st: "\<forall>fr \<in> set (mFrameResources s).
        Fence fr = 0 \<or> Fence fr \<le> mFence ?t \<or> Fence fr \<in> set (mCommandQueue ?t)"
    by (simp_all add: FenceOK_def GpuRetire_pow_proj)
  from bnd lt have bnd': "\<forall>v \<in> set (mFence ?t # mCommandQueue ?t). v \<le> ?f"
    by auto
  have "sorted (mFence s' # mCommandQueue s')"
    using srt bnd' by (simp add: fence queue sorted_append)
  moreover have "\<forall>v \<in> set (mFence s' # mCommandQueue s'). v \<le> mCurrentFence s'"
    using bnd' by (simp add: fence queue cf)
  moreover have "\<forall>fr \<in> set (mFrameResources s').
        Fence fr = 0 \<or> Fence fr \<le> mFence s' \<or> Fence fr \<in> set (mCommandQueue s')"
  proof
    fix fr assume "fr \<in> set (mFrameResources s')"
    then obtain i where i: "i < length (mFrameResources s')" "fr = mFrameResources s' ! i"
      by (auto simp: in_set_conv_nth)
    show "Fence fr = 0 \<or> Fence fr \<le> mFence s' \<or> Fence fr \<in> set (mCommandQueue s')"
    proof (cases "i = ?p")
      case True
      with i stamp show ?thesis by (simp add: queue)
    next
      case False
      with ring(5) [of i] i ring(4) have "fr = mFrameResources s ! i"
        "i < length (mFrameResources s)"
        by simp_all
      then have "fr \<in> set (mFrameResources s)" by simp
      with st show ?thesis by (auto simp: fence queue)
    qed
  qed
  ultimately show ?thesis by (simp add: FenceOK_def)
qed

lemma map_of_None_cong:
  assumes "map fst xs = map fst ys"
  shows "(map_of xs k = None) = (map_of ys k = None)"
proof -
  from assms have "fst ` set xs = fst ` set ys" by (metis set_map)
  then show ?thesis by (simp add: map_of_eq_None_iff)
qed

lemma RitemOK_cong:
  assumes "mAllRitems t = map ritemAfterUpload (mAllRitems s)"
    and "map fst (mMaterials t) = map fst (mMaterials s)"
  shows "RitemOK t r = RitemOK s r"
proof (cases "r < length (mAllRitems s)")
  case True
  then show ?thesis
    by (simp add: RitemOK_def assms(1) map_of_None_cong [OF assms(2)] split: option.splits)
next
  case False
  then show ?thesis by (simp add: RitemOK_def assms(1))
qed

lemma SceneOK_runFrame:
  assumes ok: "SceneOK s" and fr: "runFrame M inp s = Inr s'"
  shows "SceneOK s'"
proof -
  note ring = runFrame_ring [OF fr]
  note obj = runFrame_objects(1) [OF fr]
  from runFrame_materials [OF fr] obtain wm tr where
    wm: "map_of (mMaterials s) ''water'' = Some wm"
    and mats: "mMaterials s' = map (apsnd materialAfterUpload)
             (AList.update ''water''
                (wm\<lparr>Material.MatTransform := tr, Material.NumFramesDirty := gNumFrameResources\<rparr>)
                (mMaterials s))"
    by blast
  from wm have keys: "map fst (mMaterials s') = map fst (mMaterials s)"
    unfolding mats by (intro keys_after_frame) simp
  have rit: "RitemOK s' r = RitemOK s r" for r
    using obj keys by (rule RitemOK_cong)
  have water: "map_of (mMaterials s') ''water'' \<noteq> None"
    using ok by (simp add: SceneOK_def map_of_None_cong [OF keys])
  have idx: "0 \<le> mCurrFrameResourceIndex s'"
    by (simp add: ring(1))
  from ok have waves: "case mWavesRitem s' of None \<Rightarrow> False
      | Some r \<Rightarrow> r < length (mAllRitems s') \<and> Geo (mAllRitems s' ! r) \<noteq> None"
    by (auto simp: SceneOK_def ring(7) obj split: option.splits)
  from ok have "length (mFrameResources s') = nat gNumFrameResources"
    by (simp add: ring(4) SceneOK_def)
  moreover from ok have "\<forall>layer \<in> set [Opaque, Transparent, AlphaTested, AlphaTestedTreeSprites].
        \<forall>r \<in> set (mRitemLayer s' layer). RitemOK s' r"
    by (simp add: SceneOK_def ring(6) rit)
  ultimately show ?thesis
    using water idx waves unfolding SceneOK_def by blast
qed

lemma SceneOK_GpuRetire_pow:
  assumes "SceneOK s"
  shows "SceneOK ((GpuRetire ^^ k) s)"
proof -
  have "RitemOK ((GpuRetire ^^ k) s) r = RitemOK s r" for r
    by (simp add: RitemOK_def GpuRetire_pow_proj split: option.splits)
  with assms show ?thesis
    by (simp add: SceneOK_def GpuRetire_pow_proj split: option.splits)
qed

lemma runFrame_total:
  assumes ok: "SceneOK s"
    and reach: "Fence (mFrameResources s ! nextSlot s) = 0 \<or> FenceOK s"
  shows "\<exists>s'. runFrame M inp s = Inr s'"
proof -
  obtain n gt w where inp: "inp = (n, gt, w)" by (cases inp)
  let ?s0 = "(GpuRetire ^^ n) s"
  from ok have ok0: "SceneOK ?s0" by (rule SceneOK_GpuRetire_pow)
  have slot: "nextSlot ?s0 = nextSlot s"
    by (simp add: nextSlot_def GpuRetire_pow_proj)
  from ok have len: "nextSlot s < length (mFrameResources s)"
    by (simp add: SceneOK_def nextSlot_def gNumFrameResources_def)
  have "Fence (mFrameResources ?s0 ! nextSlot ?s0) = 0 \<or>
      Fence (mFrameResources ?s0 ! nextSlot ?s0) \<le> mFence ?s0 \<or>
      (\<exists>v \<in> set (mCommandQueue ?s0). Fence (mFrameResources ?s0 ! nextSlot ?s0) \<le> v)"
  proof (cases "Fence (mFrameResources s ! nextSlot s) = 0")
    case True
    then show ?thesis by (simp add: slot GpuRetire_pow_proj)
  next
    case False
    with reach have "FenceOK ?s0" by (simp add: FenceOK_GpuRetire_pow)
    from FenceOK_reachable [OF this, of "nextSlot ?s0"] len
    show ?thesis by (simp add: slot GpuRetire_pow_proj)
  qed
  from Update_total [OF ok0 this, of M gt w] obtain s1 where
    u: "Update M gt w ?s0 = Inr s1"
    by blast
  then obtain p wm tr where
    p: "p < length (mFrameResources ?s0)"
    and wm: "map_of (mMaterials ?s0) ''water'' = Some wm"
    and s1: "mCurrFrameResource s1 = Some p" "length (mFrameResources s1) = length (mFrameResources ?s0)"
      "mRitemLayer s1 = mRitemLayer ?s0"
      "mAllRitems s1 = map ritemAfterUpload (mAllRitems ?s0)"
      "mMaterials s1 = map (apsnd materialAfterUpload)
              (AList.update ''water''
                 (wm\<lparr>Material.MatTransform := tr, Material.NumFramesDirty := gNumFrameResources\<rparr>)
                 (mMaterials ?s0))"
    by (rule Update_InrD) simp
  from wm have keys: "map fst (mMaterials s1) = map fst (mMaterials ?s0)"
    unfolding s1(5) by (intro keys_after_frame) simp
  have "RitemOK s1 r = RitemOK ?s0 r" for r
    using s1(4) keys by (rule RitemOK_cong)
  with ok0 have "\<forall>layer \<in> set [Opaque, Transparent, AlphaTested, AlphaTestedTreeSprites].
        \<forall>r \<in> set (mRitemLayer s1 layer). RitemOK s1 r"
    by (simp add: SceneOK_def s1(3))
  from Draw_total [OF s1(1) _ this] p s1(2) obtain s' where "Draw s1 = Inr s'"
    by auto
  with u show ?thesis by (simp add: runFrame_def inp)
qed

lemma runFrames_invariant:
  assumes "SceneOK s" and "FenceOK s" and "unat (mCurrentFence s) + length inps < 2 ^ 64"
  shows "\<exists>s'. runFrames M inps s = Inr s' \<and> SceneOK s' \<and> FenceOK s' \<and>
           unat (mCurrentFence s') = unat (mCurrentFence s) + length inps"
  using assms
proof (induction inps arbitrary: s)
  case Nil
  then show ?case by simp
next
  case (Cons inp inps)
  from Cons.prems(1,2) obtain s1 where f: "runFrame M inp s = Inr s1"
    using runFrame_total by blast
  from Cons.prems(3) have nov: "unat (mCurrentFence s) + 1 < 2 ^ 64" by simp
  have ok1: "SceneOK s1" using Cons.prems(1) f by (rule SceneOK_runFrame)
  have fok1: "FenceOK s1" using Cons.prems(2) f nov by (rule FenceOK_runFrame)
  have cf: "unat (mCurrentFence s1) = unat (mCurrentFence s) + 1"
    using word_less_Suc(2) [OF nov] by (simp add: runFrame_fence(1) [OF f])
  with Cons.prems(3) have "unat (mCurrentFence s1) + length inps < 2 ^ 64" by simp
  from Cons.IH [OF ok1 fok1 this] f cf show ?case by auto
qed

lemma map_upt_Suc: "map f [0..<Suc n] = f 0 # map (\<lambda>k. f (Suc k)) [0..<n]"
  by (simp only: upt_conv_Cons [of 0 "Suc n"] list.map map_Suc_upt [symmetric] map_map comp_def)

lemma ringIndices_prefix:
  "ringIndices M inps s =
     map (\<lambda>k. (mCurrFrameResourceIndex s + 1 + int k) mod 3)
       [0..<length (ringIndices M inps s)]"
proof (induction inps arbitrary: s)
  case Nil
  show ?case by simp
next
  case (Cons inp inps)
  show ?case
  proof (cases "runFrame M inp s")
    case (Inl e)
    then show ?thesis by simp
  next
    case (Inr s1)
    have i: "mCurrFrameResourceIndex s1 = (mCurrFrameResourceIndex s + 1) mod 3"
      using Inr by (rule runFrame_ring)
    have step: "(mCurrFrameResourceIndex s1 + 1 + int k) mod 3 =
        (mCurrFrameResourceIndex s + 1 + int (Suc k)) mod 3" for k
      unfolding i by presburger
    have "ringIndices M (inp # inps) s = mCurrFrameResourceIndex s1 # ringIndices M inps s1"
      using Inr by simp
    also have "ringIndices M inps s1 =
        map (\<lambda>k. (mCurrFrameResourceIndex s + 1 + int (Suc k)) mod 3)
          [0..<length (ringIndices M inps s1)]"
      by (subst Cons.IH) (simp only: step)
    finally show ?thesis
      using Inr by (simp add: map_upt_Suc i del: upt_Suc)
  qed
qed

lemma ringIndices_length:
  assumes "SceneOK s" and "FenceOK s" and "unat (mCurrentFence s) + length inps < 2 ^ 64"
  shows "length (ringIndices M inps s) = length inps"
  using assms
proof (induction inps arbitrary: s)
  case Nil
  show ?case by simp
next
  case (Cons inp inps)
  from runFrames_invariant [OF Cons.prems(1,2), of "[inp]" M] Cons.prems(3)
  obtain s1 where f: "runFrame M inp s = Inr s1" and inv: "SceneOK s1" "FenceOK s1"
    "unat (mCurrentFence s1) = unat (mCurrentFence s) + 1"
    by (auto simp: andThen_eq_Inr)
  from inv(3) Cons.prems(3) have "unat (mCurrentFence s1) + length inps < 2 ^ 64" by simp
  from Cons.IH [OF inv(1,2) this] f show ?case by simp
qed

lemma app0_FenceOK: "FenceOK app0"
  by (simp add: FenceOK_def app0_def Initialize_frames base0_def NewFrameResource_def)

lemma app0_fence: "mCurrentFence app0 = 0"
  by (simp add: app0_def Initialize_frames base0_def)

lemma app0_ring: "ringIndices M0 [inp0, inp0, inp0, inp0] app0 = [1, 2, 0, 1]"
proof -
  have "length (ringIndices M0 [inp0, inp0, inp0, inp0] app0) = 4"
    using ringIndices_length [OF app0_SceneOK app0_FenceOK, of "[inp0, inp0, inp0, inp0]" M0]
    by (simp add: app0_fence)
  with ringIndices_prefix [of M0 "[inp0, inp0, inp0, inp0]" app0]
  have "ringIndices M0 [inp0, inp0, inp0, inp0] app0 = map (\<lambda>k. (1 + int k) mod 3) [0..<4]"
    by (simp add: app0_index)
  also have "[0..<4] = [0, 1, 2, 3]" by (simp add: upt_rec)
  finally show ?thesis by simp
qed

theorem C4_ring_sequence_counterexample:
  "ringIndices M0 [inp0, inp0, inp0, inp0] app0 = [1, 2, 0, 1] \<and>
   ringIndices M0 [inp0, inp0, inp0, inp0] app0 \<noteq> [0, 1, 2, 0]"
  unfolding app0_ring by simp

text \<open>
  C4. The ring index advances by exactly one modulo 3 in every frame, whatever the GPU
  retires in between, and the frame uses the frame resource at the new index. The index
  starts at 0 and \<^verbatim>\<open>Update\<close> advances it before the frame uses a frame resource, so the
  indices used by successive frames are 1, 2, 0, 1, 2, 0, ...: frame \<open>k\<close> of a run uses
  the start index plus \<open>k + 1\<close> modulo 3, no frame resource is skipped or taken out of
  order, and under the invariants every frame of the run returns.
\<close>

theorem C4_ring_sequence:
  "(runFrame M inp s = Inr s' \<longrightarrow>
      mCurrFrameResourceIndex s' = (mCurrFrameResourceIndex s + 1) mod 3 \<and>
      mCurrFrameResource s' = Some (nat (mCurrFrameResourceIndex s'))) \<and>
   ringIndices M inps s =
     map (\<lambda>k. (mCurrFrameResourceIndex s + 1 + int k) mod 3)
       [0..<length (ringIndices M inps s)] \<and>
   (SceneOK s \<and> FenceOK s \<and> unat (mCurrentFence s) + length inps < 2 ^ 64 \<longrightarrow>
      length (ringIndices M inps s) = length inps) \<and>
   mCurrFrameResourceIndex (Initialize M args n (NewTreeBillboardsApp base)) = 0"
proof (intro conjI impI)
  assume f: "runFrame M inp s = Inr s'"
  from runFrame_ring(1,2) [OF f]
  show "mCurrFrameResourceIndex s' = (mCurrFrameResourceIndex s + 1) mod 3"
    and "mCurrFrameResource s' = Some (nat (mCurrFrameResourceIndex s'))"
    by (simp_all add: nextSlot_def)
next
  show "ringIndices M inps s =
     map (\<lambda>k. (mCurrFrameResourceIndex s + 1 + int k) mod 3)
       [0..<length (ringIndices M inps s)]"
    by (rule ringIndices_prefix)
next
  assume "SceneOK s \<and> FenceOK s \<and> unat (mCurrentFence s) + length inps < 2 ^ 64"
  then show "length (ringIndices M inps s) = length inps"
    by (intro ringIndices_length) simp_all
next
  show "mCurrFrameResourceIndex (Initialize M args n (NewTreeBillboardsApp base)) = 0"
    by (rule Initialize_frames)
qed

theorem C4_ring_sequence_witness:
  "SceneOK app0 \<and> FenceOK app0 \<and>
   unat (mCurrentFence app0) + length [inp0, inp0, inp0, inp0, inp0, inp0] < 2 ^ 64 \<and>
   ringIndices M0 [inp0, inp0, inp0, inp0, inp0, inp0] app0 = [1, 2, 0, 1, 2, 0]"
proof -
  let ?inps = "[inp0, inp0, inp0, inp0, inp0, inp0]"
  have h: "SceneOK app0 \<and> FenceOK app0 \<and> unat (mCurrentFence app0) + length ?inps < 2 ^ 64"
    by (simp add: app0_SceneOK app0_FenceOK app0_fence)
  from C4_ring_sequence [of M0 inp0 app0 app0 ?inps] h
  have "ringIndices M0 ?inps app0 =
      map (\<lambda>k. (mCurrFrameResourceIndex app0 + 1 + int k) mod 3) [0..<length ?inps]"
    by metis
  also have "[0..<length ?inps] = [0, 1, 2, 3, 4, 5]" by (simp add: upt_rec)
  finally have "ringIndices M0 ?inps app0 = [1, 2, 0, 1, 2, 0]"
    by (simp add: app0_index)
  with h show ?thesis by blast
qed

lemma fenceValues_prefix:
  "fenceValues M inps s =
     map (\<lambda>k. mCurrentFence s + 1 + of_nat k) [0..<length (fenceValues M inps s)]"
proof (induction inps arbitrary: s)
  case Nil
  show ?case by simp
next
  case (Cons inp inps)
  show ?case
  proof (cases "runFrame M inp s")
    case (Inl e)
    then show ?thesis by simp
  next
    case (Inr s1)
    have c: "mCurrentFence s1 = mCurrentFence s + 1"
      using Inr by (rule runFrame_fence)
    have step: "mCurrentFence s1 + 1 + of_nat k = mCurrentFence s + 1 + of_nat (Suc k)" for k
      unfolding c by simp
    have "fenceValues M (inp # inps) s = mCurrentFence s1 # fenceValues M inps s1"
      using Inr by simp
    also have "fenceValues M inps s1 =
        map (\<lambda>k. mCurrentFence s + 1 + of_nat (Suc k)) [0..<length (fenceValues M inps s1)]"
      by (subst Cons.IH) (simp only: step)
    finally show ?thesis
      using Inr by (simp add: map_upt_Suc c del: upt_Suc of_nat_Suc)
  qed
qed

lemma fenceValues_le: "length (fenceValues M inps s) \<le> length inps"
proof (induction inps arbitrary: s)
  case Nil
  show ?case by simp
next
  case (Cons inp inps)
  then show ?case by (cases "runFrame M inp s") simp_all
qed

lemma fenceValues_length:
  assumes "SceneOK s" and "FenceOK s" and "unat (mCurrentFence s) + length inps < 2 ^ 64"
  shows "length (fenceValues M inps s) = length inps"
  using assms
proof (induction inps arbitrary: s)
  case Nil
  show ?case by simp
next
  case (Cons inp inps)
  from runFrames_invariant [OF Cons.prems(1,2), of "[inp]" M] Cons.prems(3)
  obtain s1 where f: "runFrame M inp s = Inr s1" and inv: "SceneOK s1" "FenceOK s1"
    "unat (mCurrentFence s1) = unat (mCurrentFence s) + 1"
    by (auto simp: andThen_eq_Inr)
  from inv(3) Cons.prems(3) have "unat (mCurrentFence s1) + length inps < 2 ^ 64" by simp
  from Cons.IH [OF inv(1,2) this] f show ?case by simp
qed

lemma unat_fence_plus:
  fixes c :: "64 word"
  assumes "unat c + 1 + k < 2 ^ 64"
  shows "unat (c + 1 + of_nat k) = unat c + 1 + k"
proof -
  from assms have "unat (of_nat k :: 64 word) = k"
    by (simp add: unat_of_nat)
  with assms show ?thesis
    by (simp add: unat_word_ariths)
qed

lemma fenceValues_unat:
  assumes "unat (mCurrentFence s) + length inps < 2 ^ 64"
  shows "map unat (fenceValues M inps s) =
     map (\<lambda>k. unat (mCurrentFence s) + 1 + k) [0..<length (fenceValues M inps s)]"
proof -
  let ?n = "length (fenceValues M inps s)"
  have "unat (mCurrentFence s + 1 + of_nat k) = unat (mCurrentFence s) + 1 + k"
    if "k \<in> set [0..<?n]" for k
  proof (rule unat_fence_plus)
    from that fenceValues_le [of M inps s] assms
    show "unat (mCurrentFence s) + 1 + k < 2 ^ 64" by simp
  qed
  then have "map (\<lambda>k. unat (mCurrentFence s + 1 + of_nat k)) [0..<?n] =
      map (\<lambda>k. unat (mCurrentFence s) + 1 + k) [0..<?n]"
    by (intro map_cong refl)
  moreover have "map unat (fenceValues M inps s) =
      map (\<lambda>k. unat (mCurrentFence s + 1 + of_nat k)) [0..<?n]"
    by (subst fenceValues_prefix) (simp add: comp_def)
  ultimately show ?thesis by simp
qed

lemma fenceValues_increasing:
  assumes "unat (mCurrentFence s) + length inps < 2 ^ 64"
  shows "sorted_wrt (<) (fenceValues M inps s)"
proof -
  have "sorted_wrt (<) (map unat (fenceValues M inps s))"
    unfolding fenceValues_unat [OF assms] by (simp add: sorted_wrt_map)
  then have "sorted_wrt (\<lambda>x y. unat x < unat y) (fenceValues M inps s)"
    by (simp add: sorted_wrt_map)
  then show ?thesis
    by (rule sorted_wrt_mono_rel [rotated]) (simp add: word_less_nat_alt)
qed

lemma appInFlight_SceneOK: "SceneOK appInFlight"
proof -
  have "RitemOK appInFlight r = RitemOK app0 r" for r
    by (simp add: RitemOK_def appInFlight_def split: option.splits)
  with app0_SceneOK show ?thesis
    by (simp add: SceneOK_def appInFlight_def gNumFrameResources_def split: option.splits)
qed

lemma appInFlight_FenceOK: "FenceOK appInFlight"
  by (simp add: FenceOK_def appInFlight_def)

text \<open>
  C5. Every frame submission allocates the next fence value: \<^verbatim>\<open>Draw\<close> increments the
  counter by one, stamps the frame resource of the frame with exactly the new value and
  queues the signal of that value. The counter is an unsigned 64-bit integer that only
  \<^verbatim>\<open>Draw\<close> increments, so as long as fewer than \<open>2 ^ 64\<close> values have been allocated (the
  side condition on the counter below, which no run of the program leaves) the new value
  is greater than its predecessor, and the values of a run of frames are the successors
  of the counter one after the other: strictly increasing, without gaps, and one for
  every frame when the invariants hold at the start.
\<close>

theorem C5_fence_values:
  "(Draw s = Inr s' \<longrightarrow>
      mCurrentFence s' = mCurrentFence s + 1 \<and>
      (\<exists>p. mCurrFrameResource s = Some p \<and>
           Fence (mFrameResources s' ! p) = mCurrentFence s') \<and>
      mCommandQueue s' = mCommandQueue s @ [mCurrentFence s'] \<and>
      (unat (mCurrentFence s) + 1 < 2 ^ 64 \<longrightarrow>
         mCurrentFence s < mCurrentFence s' \<and>
         unat (mCurrentFence s') = unat (mCurrentFence s) + 1)) \<and>
   fenceValues M inps s =
     map (\<lambda>k. mCurrentFence s + 1 + of_nat k) [0..<length (fenceValues M inps s)] \<and>
   (unat (mCurrentFence s) + length inps < 2 ^ 64 \<longrightarrow>
      map unat (fenceValues M inps s) =
        map (\<lambda>k. unat (mCurrentFence s) + 1 + k) [0..<length (fenceValues M inps s)] \<and>
      sorted_wrt (<) (fenceValues M inps s)) \<and>
   (SceneOK s \<and> FenceOK s \<and> unat (mCurrentFence s) + length inps < 2 ^ 64 \<longrightarrow>
      length (fenceValues M inps s) = length inps)"
proof (intro conjI impI)
  assume d: "Draw s = Inr s'"
  then obtain p cmds where p: "mCurrFrameResource s = Some p" "p < length (mFrameResources s)"
    and s': "s' = s\<lparr>mCommandList := cmds,
                  mCurrentFence := mCurrentFence s + 1,
                  mFrameResources := (mFrameResources s)
                    [p := (mFrameResources s ! p)\<lparr>Fence := mCurrentFence s + 1\<rparr>],
                  mCommandQueue := mCommandQueue s @ [mCurrentFence s + 1]\<rparr>"
    by (rule Draw_InrD)
  show c: "mCurrentFence s' = mCurrentFence s + 1" by (simp add: s')
  from p show "\<exists>p. mCurrFrameResource s = Some p \<and>
      Fence (mFrameResources s' ! p) = mCurrentFence s'"
    by (simp add: s')
  show "mCommandQueue s' = mCommandQueue s @ [mCurrentFence s']" by (simp add: s')
  assume nov: "unat (mCurrentFence s) + 1 < 2 ^ 64"
  from word_less_Suc [OF nov] show "mCurrentFence s < mCurrentFence s'"
    and "unat (mCurrentFence s') = unat (mCurrentFence s) + 1"
    by (simp_all add: c)
next
  show "fenceValues M inps s =
     map (\<lambda>k. mCurrentFence s + 1 + of_nat k) [0..<length (fenceValues M inps s)]"
    by (rule fenceValues_prefix)
next
  assume "unat (mCurrentFence s) + length inps < 2 ^ 64"
  then show "map unat (fenceValues M inps s) =
        map (\<lambda>k. unat (mCurrentFence s) + 1 + k) [0..<length (fenceValues M inps s)]"
    by (rule fenceValues_unat)
next
  assume "unat (mCurrentFence s) + length inps < 2 ^ 64"
  then show "sorted_wrt (<) (fenceValues M inps s)"
    by (rule fenceValues_increasing)
next
  assume "SceneOK s \<and> FenceOK s \<and> unat (mCurrentFence s) + length inps < 2 ^ 64"
  then show "length (fenceValues M inps s) = length inps"
    by (intro fenceValues_length) simp_all
qed

theorem C5_fence_values_witness:
  "SceneOK appInFlight \<and> FenceOK appInFlight \<and> mCurrentFence appInFlight = 3 \<and>
   unat (mCurrentFence appInFlight) + length [inp0, inp0, inp0] < 2 ^ 64 \<and>
   map unat (fenceValues M0 [inp0, inp0, inp0] appInFlight) = [4, 5, 6]"
proof -
  let ?inps = "[inp0, inp0, inp0]"
  have c: "mCurrentFence appInFlight = 3" by (simp add: appInFlight_def)
  have h: "SceneOK appInFlight \<and> FenceOK appInFlight \<and>
      unat (mCurrentFence appInFlight) + length ?inps < 2 ^ 64"
    by (simp add: appInFlight_SceneOK appInFlight_FenceOK c)
  then have h': "unat (mCurrentFence appInFlight) + length ?inps < 2 ^ 64" by blast
  from C5_fence_values [of appInFlight appInFlight M0 ?inps] h h'
  have "map unat (fenceValues M0 ?inps appInFlight) =
      map (\<lambda>k. unat (mCurrentFence appInFlight) + 1 + k) [0..<length ?inps]"
    by metis
  also have "[0..<length ?inps] = [0, 1, 2]" by (simp add: upt_rec)
  finally have "map unat (fenceValues M0 ?inps appInFlight) = [4, 5, 6]"
    by (simp add: c)
  with h c show ?thesis by blast
qed

lemma Update_blocked:
  assumes "CycleFrameResource (UpdateCamera M (OnKeyboardInput s)) = Inr s1"
    and "WaitForFrameResource s1 = Inl e"
  shows "Update M gt w s = Inl e"
  using assms by (simp add: Update_def)

lemma Update_after_wait:
  assumes "CycleFrameResource (UpdateCamera M (OnKeyboardInput s)) = Inr s1"
    and "WaitForFrameResource s1 = Inr s2"
  shows "Update M gt w s = UpdateConstants M gt w s2"
  using assms by (simp add: Update_def)

text \<open>
  C1. Acquiring the next frame resource never hands it to the CPU while its stamped fence
  value is unretired. After the ring has moved to the next frame resource (state \<open>s1\<close>,
  frame resource \<open>fr\<close> at position \<open>p\<close>):
  \<^item> the move itself touches no frame resource;
  \<^item> if the wait returns, the stamp is 0 or the fence has reached it, the state differs
    from \<open>s1\<close> only by the signals the GPU retired meanwhile, the fence was below the
    stamp at every moment before the wait returned, and the uploads of \<^verbatim>\<open>Update\<close> run
    on the state that the wait returned;
  \<^item> if the stamp is 0 or already retired, the wait is skipped: the state is unchanged;
  \<^item> if the stamp is nonzero and unretired and a pending signal reaches it, the wait
    returns with the fence at or beyond the stamp;
  \<^item> if no pending signal reaches the stamp, the wait never returns, and then
    \<^verbatim>\<open>Update\<close> does not return either: no buffer is written.
\<close>

theorem C1_wait_before_reuse:
  assumes cyc: "CycleFrameResource (UpdateCamera M (OnKeyboardInput s)) = Inr s1"
    and cur: "CurrFrameResource s1 = Inr (p, fr)"
  shows "int p = (mCurrFrameResourceIndex s + 1) mod 3 \<and>
         fr = mFrameResources s ! p \<and>
         mFrameResources s1 = mFrameResources s \<and>
         (\<forall>s2. WaitForFrameResource s1 = Inr s2 \<longrightarrow>
            (Fence fr = 0 \<or> Fence fr \<le> mFence s2) \<and>
            (\<exists>k. s2 = (GpuRetire ^^ k) s1 \<and>
                 (\<forall>j<k. mFence ((GpuRetire ^^ j) s1) < Fence fr)) \<and>
            mFrameResources s2 = mFrameResources s \<and>
            mAllRitems s2 = mAllRitems s \<and>
            mMaterials s2 = mMaterials s \<and>
            Update M gt w s = UpdateConstants M gt w s2) \<and>
         (Fence fr = 0 \<or> Fence fr \<le> mFence s1 \<longrightarrow> WaitForFrameResource s1 = Inr s1) \<and>
         (Fence fr \<noteq> 0 \<and> mFence s1 < Fence fr \<and>
            (\<exists>v \<in> set (mCommandQueue s1). Fence fr \<le> v) \<longrightarrow>
            (\<exists>s2. WaitForFrameResource s1 = Inr s2 \<and> Fence fr \<le> mFence s2)) \<and>
         (Fence fr \<noteq> 0 \<and> mFence s1 < Fence fr \<and>
            (\<forall>v \<in> set (mCommandQueue s1). v < Fence fr) \<longrightarrow>
            WaitForFrameResource s1 = Inl WaitsForever \<and>
            Update M gt w s = Inl WaitsForever)"
proof -
  obtain e v where cam: "UpdateCamera M s = s\<lparr>mEyePos := e, mView := v\<rparr>"
    using UpdateCamera_frame by blast
  from cyc obtain p' where p': "int p' = (mCurrFrameResourceIndex s + 1) mod 3"
    and s1: "s1 = s\<lparr>mEyePos := e, mView := v,
      mCurrFrameResourceIndex := int p', mCurrFrameResource := Some p'\<rparr>"
    by (rule CycleFrameResource_InrD) (simp add: OnKeyboardInput_def cam)
  from cur have pp: "p' = p" and fr: "fr = mFrameResources s ! p"
    by (simp_all add: CurrFrameResource_eq_Inr s1)
  have frames: "mFrameResources s1 = mFrameResources s" by (simp add: s1)
  have returned: "(Fence fr = 0 \<or> Fence fr \<le> mFence s2) \<and>
            (\<exists>k. s2 = (GpuRetire ^^ k) s1 \<and>
                 (\<forall>j<k. mFence ((GpuRetire ^^ j) s1) < Fence fr)) \<and>
            mFrameResources s2 = mFrameResources s \<and>
            mAllRitems s2 = mAllRitems s \<and>
            mMaterials s2 = mMaterials s \<and>
            Update M gt w s = UpdateConstants M gt w s2"
    if wt: "WaitForFrameResource s1 = Inr s2" for s2
  proof -
    from wt obtain p'' fr'' k where "CurrFrameResource s1 = Inr (p'', fr'')"
      and k: "s2 = (GpuRetire ^^ k) s1" "Fence fr'' = 0 \<or> Fence fr'' \<le> mFence s2"
        "\<forall>j<k. mFence ((GpuRetire ^^ j) s1) < Fence fr''"
      by (rule WaitForFrameResource_InrD)
    with cur have same: "fr'' = fr" by simp
    have "mFrameResources s2 = mFrameResources s" "mAllRitems s2 = mAllRitems s"
      "mMaterials s2 = mMaterials s"
      by (simp_all add: k(1) GpuRetire_pow_proj s1)
    with k same Update_after_wait [OF cyc wt, of gt w] show ?thesis by blast
  qed
  have skipped: "WaitForFrameResource s1 = Inr s1" if "Fence fr = 0 \<or> Fence fr \<le> mFence s1"
    using cur that by (rule WaitForFrameResource_noop)
  have woken: "\<exists>s2. WaitForFrameResource s1 = Inr s2 \<and> Fence fr \<le> mFence s2"
    if h: "Fence fr \<noteq> 0 \<and> mFence s1 < Fence fr \<and>
      (\<exists>v \<in> set (mCommandQueue s1). Fence fr \<le> v)"
  proof -
    from WaitForFrameResource_total [OF cur] h obtain s2 where
      wt: "WaitForFrameResource s1 = Inr s2"
      by blast
    from returned [OF wt] h have "Fence fr \<le> mFence s2" by blast
    with wt show ?thesis by blast
  qed
  have blocked: "WaitForFrameResource s1 = Inl WaitsForever \<and>
      Update M gt w s = Inl WaitsForever"
    if h: "Fence fr \<noteq> 0 \<and> mFence s1 < Fence fr \<and>
      (\<forall>v \<in> set (mCommandQueue s1). v < Fence fr)"
  proof -
    from h have "WaitForFrameResource s1 = Inl WaitsForever"
      by (intro WaitForFrameResource_blocked [OF cur]) simp_all
    with Update_blocked [OF cyc this] show ?thesis by simp
  qed
  from p' pp have slot: "int p = (mCurrFrameResourceIndex s + 1) mod 3" by simp
  from returned have r: "\<forall>s2. WaitForFrameResource s1 = Inr s2 \<longrightarrow>
            (Fence fr = 0 \<or> Fence fr \<le> mFence s2) \<and>
            (\<exists>k. s2 = (GpuRetire ^^ k) s1 \<and>
                 (\<forall>j<k. mFence ((GpuRetire ^^ j) s1) < Fence fr)) \<and>
            mFrameResources s2 = mFrameResources s \<and>
            mAllRitems s2 = mAllRitems s \<and>
            mMaterials s2 = mMaterials s \<and>
            Update M gt w s = UpdateConstants M gt w s2"
    by (intro allI impI)
  from skipped have sk: "Fence fr = 0 \<or> Fence fr \<le> mFence s1 \<longrightarrow>
      WaitForFrameResource s1 = Inr s1"
    by (intro impI)
  from woken have wk: "Fence fr \<noteq> 0 \<and> mFence s1 < Fence fr \<and>
            (\<exists>v \<in> set (mCommandQueue s1). Fence fr \<le> v) \<longrightarrow>
            (\<exists>s2. WaitForFrameResource s1 = Inr s2 \<and> Fence fr \<le> mFence s2)"
    by (intro impI)
  from blocked have bl: "Fence fr \<noteq> 0 \<and> mFence s1 < Fence fr \<and>
            (\<forall>v \<in> set (mCommandQueue s1). v < Fence fr) \<longrightarrow>
            WaitForFrameResource s1 = Inl WaitsForever \<and>
            Update M gt w s = Inl WaitsForever"
    by (intro impI)
  from slot fr frames r sk wk bl show ?thesis
    by (intro conjI)
qed

theorem C1_wait_before_reuse_witness:
  "\<exists>s1 s2. CycleFrameResource (UpdateCamera M0 (OnKeyboardInput appInFlight)) = Inr s1 \<and>
     CurrFrameResource s1 = Inr (1, mFrameResources appInFlight ! 1) \<and>
     Fence (mFrameResources appInFlight ! 1) = 1 \<and> mFence s1 = 0 \<and>
     mCommandQueue s1 = [1, 2, 3] \<and>
     WaitForFrameResource s1 = Inr s2 \<and> 1 \<le> mFence s2"
proof -
  obtain e v where cam: "UpdateCamera M0 appInFlight = appInFlight\<lparr>mEyePos := e, mView := v\<rparr>"
    using UpdateCamera_frame by blast
  have idx: "mCurrFrameResourceIndex appInFlight = 0"
    and len: "length (mFrameResources appInFlight) = 3"
    and stamp: "Fence (mFrameResources appInFlight ! 1) = 1"
    and fence: "mFence appInFlight = 0" "mCommandQueue appInFlight = [1, 2, 3]"
    by (simp_all add: appInFlight_def)
  from CycleFrameResource_total [of "UpdateCamera M0 (OnKeyboardInput appInFlight)"]
  obtain s1 where cyc: "CycleFrameResource (UpdateCamera M0 (OnKeyboardInput appInFlight)) = Inr s1"
    by (auto simp: OnKeyboardInput_def cam idx len gNumFrameResources_def)
  then obtain p where p: "int p = (mCurrFrameResourceIndex appInFlight + 1) mod 3"
    and s1: "s1 = appInFlight\<lparr>mEyePos := e, mView := v,
      mCurrFrameResourceIndex := int p, mCurrFrameResource := Some p\<rparr>"
    by (rule CycleFrameResource_InrD) (simp add: OnKeyboardInput_def cam)
  from p have p1: "p = 1" by (simp add: idx)
  have cur: "CurrFrameResource s1 = Inr (1, mFrameResources appInFlight ! 1)"
    by (simp add: CurrFrameResource_eq_Inr s1 p1 len)
  have s1f: "mFence s1 = 0" "mCommandQueue s1 = [1, 2, 3]"
    by (simp_all add: s1 fence)
  have pending: "Fence (mFrameResources appInFlight ! 1) \<noteq> 0 \<and>
      mFence s1 < Fence (mFrameResources appInFlight ! 1) \<and>
      (\<exists>v \<in> set (mCommandQueue s1). Fence (mFrameResources appInFlight ! 1) \<le> v)"
    unfolding stamp s1f by simp
  from C1_wait_before_reuse [OF cyc cur, where gt = "fst (snd inp0)" and w = "snd (snd inp0)"]
  have "Fence (mFrameResources appInFlight ! 1) \<noteq> 0 \<and>
      mFence s1 < Fence (mFrameResources appInFlight ! 1) \<and>
      (\<exists>v \<in> set (mCommandQueue s1). Fence (mFrameResources appInFlight ! 1) \<le> v) \<longrightarrow>
      (\<exists>s2. WaitForFrameResource s1 = Inr s2 \<and>
         Fence (mFrameResources appInFlight ! 1) \<le> mFence s2)"
    by (elim conjE)
  with pending obtain s2 where "WaitForFrameResource s1 = Inr s2"
    "Fence (mFrameResources appInFlight ! 1) \<le> mFence s2"
    by blast
  then have "WaitForFrameResource s1 = Inr s2" "1 \<le> mFence s2"
    unfolding stamp by simp_all
  with cyc cur stamp s1f show ?thesis by blast
qed

lemma WritesSince_mono_right:
  assumes "mMappedData b1 = n1 @ mMappedData b0" and "mMappedData b2 = n2 @ mMappedData b1"
  shows "set (WritesSince b0 b1) \<subseteq> set (WritesSince b0 b2)"
  using assms by (simp add: WritesSince_def)

lemma WritesSince_mono_left:
  assumes "mMappedData b1 = n1 @ mMappedData b0" and "mMappedData b2 = n2 @ mMappedData b1"
  shows "set (WritesSince b1 b2) \<subseteq> set (WritesSince b0 b2)"
  using assms by (simp add: WritesSince_def)

lemma objectWrites_mem:
  assumes "e \<in> set es" and "0 < RenderItem.NumFramesDirty e"
  shows "(unat (ObjCBIndex e), objConstants e) \<in> set (objectWrites es)"
  using assms by (auto simp: objectWrites_def)

lemma materialWrites_mem:
  assumes "(name, m) \<in> set es" and "0 < Material.NumFramesDirty m"
  shows "(MatCBIndex m, matConstants m) \<in> set (materialWrites es)"
  using assms by (force simp: materialWrites_def)

lemma objConstants_dirty [simp]:
  "objConstants (e\<lparr>RenderItem.NumFramesDirty := d\<rparr>) = objConstants e"
  by (simp add: objConstants_def)

lemma matConstants_dirty [simp]:
  "matConstants (m\<lparr>Material.NumFramesDirty := d\<rparr>) = matConstants m"
  by (simp add: matConstants_def)

lemma nextSlot_int: "int (nextSlot s) = (mCurrFrameResourceIndex s + 1) mod 3"
  by (simp add: nextSlot_def)

lemma nextSlot_less: "nextSlot s < 3"
proof -
  have "int (nextSlot s) < 3" unfolding nextSlot_int by simp
  then show ?thesis by simp
qed

lemma nextSlot_step:
  assumes "runFrame M inp s = Inr s'"
  shows "nextSlot s' = (nextSlot s + 1) mod 3"
proof -
  have "int (nextSlot s') = (int (nextSlot s) + 1) mod 3"
    unfolding nextSlot_int runFrame_ring(1) [OF assms] ..
  also have "\<dots> = int ((nextSlot s + 1) mod 3)"
    by (simp add: zmod_int add.commute)
  finally show ?thesis by simp
qed

text \<open>One returning frame and one dirty render item, one dirty material.\<close>

lemma frame_item:
  assumes f: "runFrame M inp s = Inr s'" and r: "r < length (mAllRitems s)"
    and d: "0 < RenderItem.NumFramesDirty (mAllRitems s ! r)"
  shows "mAllRitems s' ! r = (mAllRitems s ! r)
           \<lparr>RenderItem.NumFramesDirty := RenderItem.NumFramesDirty (mAllRitems s ! r) - 1\<rparr>"
    and "(unat (ObjCBIndex (mAllRitems s ! r)), objConstants (mAllRitems s ! r)) \<in>
           set (WritesSince (ObjectCB (mFrameResources s ! nextSlot s))
                  (ObjectCB (mFrameResources s' ! nextSlot s)))"
proof -
  note o = runFrame_objects [OF f]
  from r d show "mAllRitems s' ! r = (mAllRitems s ! r)
           \<lparr>RenderItem.NumFramesDirty := RenderItem.NumFramesDirty (mAllRitems s ! r) - 1\<rparr>"
    by (simp add: o(1) ritemAfterUpload_def)
  have "WritesSince (ObjectCB (mFrameResources s ! nextSlot s))
          (ObjectCB (mFrameResources s' ! nextSlot s)) = objectWrites (mAllRitems s)"
    by (rule WritesSince_append) (simp add: o(2))
  moreover from r have "mAllRitems s ! r \<in> set (mAllRitems s)" by simp
  ultimately show "(unat (ObjCBIndex (mAllRitems s ! r)), objConstants (mAllRitems s ! r)) \<in>
           set (WritesSince (ObjectCB (mFrameResources s ! nextSlot s))
                  (ObjectCB (mFrameResources s' ! nextSlot s)))"
    using d by (simp add: objectWrites_mem)
qed

lemma frame_items_length:
  assumes "runFrame M inp s = Inr s'"
  shows "length (mAllRitems s') = length (mAllRitems s)"
  by (simp add: runFrame_objects(1) [OF assms])

lemma frame_material:
  assumes f: "runFrame M inp s = Inr s'" and n: "name \<noteq> ''water''"
    and m: "map_of (mMaterials s) name = Some m"
    and d: "0 < Material.NumFramesDirty m"
  shows "map_of (mMaterials s') name =
           Some (m\<lparr>Material.NumFramesDirty := Material.NumFramesDirty m - 1\<rparr>)"
    and "(MatCBIndex m, matConstants m) \<in>
           set (WritesSince (MaterialCB (mFrameResources s ! nextSlot s))
                  (MaterialCB (mFrameResources s' ! nextSlot s)))"
proof -
  from runFrame_materials [OF f] obtain wm tr where
    mats: "mMaterials s' = map (apsnd materialAfterUpload)
             (AList.update ''water''
                (wm\<lparr>Material.MatTransform := tr, Material.NumFramesDirty := gNumFrameResources\<rparr>)
                (mMaterials s))"
    and cb: "MaterialCB (mFrameResources s' ! nextSlot s) =
             (MaterialCB (mFrameResources s ! nextSlot s))
               \<lparr>mMappedData := materialWrites (AList.update ''water''
                    (wm\<lparr>Material.MatTransform := tr,
                        Material.NumFramesDirty := gNumFrameResources\<rparr>)
                    (mMaterials s)) @
                  mMappedData (MaterialCB (mFrameResources s ! nextSlot s))\<rparr>"
    by blast
  let ?mats1 = "AList.update ''water''
    (wm\<lparr>Material.MatTransform := tr, Material.NumFramesDirty := gNumFrameResources\<rparr>)
    (mMaterials s)"
  from n m d show "map_of (mMaterials s') name =
           Some (m\<lparr>Material.NumFramesDirty := Material.NumFramesDirty m - 1\<rparr>)"
    unfolding mats by (simp add: map_of_after_frame materialAfterUpload_def)
  have "WritesSince (MaterialCB (mFrameResources s ! nextSlot s))
          (MaterialCB (mFrameResources s' ! nextSlot s)) = materialWrites ?mats1"
    by (rule WritesSince_append) (simp add: cb)
  moreover from m have "(name, m) \<in> set (mMaterials s)" by (rule map_of_SomeD)
  then have "(name, m) \<in> set ?mats1" using n by (rule entry_after_update)
  ultimately show "(MatCBIndex m, matConstants m) \<in>
           set (WritesSince (MaterialCB (mFrameResources s ! nextSlot s))
                  (MaterialCB (mFrameResources s' ! nextSlot s)))"
    using d by (simp add: materialWrites_mem)
qed

lemma frame_object_log:
  assumes f: "runFrame M inp s = Inr s'"
  shows "\<exists>new. mMappedData (ObjectCB (mFrameResources s' ! q)) =
           new @ mMappedData (ObjectCB (mFrameResources s ! q))"
proof (cases "q = nextSlot s")
  case True
  then show ?thesis by (simp add: runFrame_objects(2) [OF f])
next
  case False
  then show ?thesis by (simp add: runFrame_ring(5) [OF f])
qed

lemma frame_material_log:
  assumes f: "runFrame M inp s = Inr s'"
  shows "\<exists>new. mMappedData (MaterialCB (mFrameResources s' ! q)) =
           new @ mMappedData (MaterialCB (mFrameResources s ! q))"
proof (cases "q = nextSlot s")
  case True
  from runFrame_materials [OF f] show ?thesis unfolding True by auto
next
  case False
  then show ?thesis by (simp add: runFrame_ring(5) [OF f])
qed

text \<open>
  Three buffers that extend one another, and a write that each of the three steps made
  into the buffer of its own slot: every slot has received the write.
\<close>

lemma three_slots_cover:
  assumes "p1 < 3" and "p2 = (p1 + 1) mod 3" and "p3 = (p2 + 1) mod 3" and "q < (3::nat)"
  shows "q = p1 \<or> q = p2 \<or> q = p3"
  using assms by presburger

lemma three_frames_received:
  fixes b0 b1 b2 b3 :: "nat \<Rightarrow> 'c UploadBuffer"
  assumes e1: "\<And>q. \<exists>new. mMappedData (b1 q) = new @ mMappedData (b0 q)"
    and e2: "\<And>q. \<exists>new. mMappedData (b2 q) = new @ mMappedData (b1 q)"
    and e3: "\<And>q. \<exists>new. mMappedData (b3 q) = new @ mMappedData (b2 q)"
    and w1: "x \<in> set (WritesSince (b0 p1) (b1 p1))"
    and w2: "x \<in> set (WritesSince (b1 p2) (b2 p2))"
    and w3: "x \<in> set (WritesSince (b2 p3) (b3 p3))"
    and p: "p1 < 3" "p2 = (p1 + 1) mod 3" "p3 = (p2 + 1) mod 3" and q: "q < 3"
  shows "x \<in> set (WritesSince (b0 q) (b3 q))"
proof -
  obtain n1 where e1: "mMappedData (b1 q) = n1 @ mMappedData (b0 q)"
    using e1 [of q] by auto
  obtain n2 where e2: "mMappedData (b2 q) = n2 @ mMappedData (b1 q)"
    using e2 [of q] by auto
  obtain n3 where e3: "mMappedData (b3 q) = n3 @ mMappedData (b2 q)"
    using e3 [of q] by auto
  have w01: "WritesSince (b0 q) (b1 q) = n1" by (rule WritesSince_append) (rule e1)
  have w12: "WritesSince (b1 q) (b2 q) = n2" by (rule WritesSince_append) (rule e2)
  have w23: "WritesSince (b2 q) (b3 q) = n3" by (rule WritesSince_append) (rule e3)
  have w03: "WritesSince (b0 q) (b3 q) = n3 @ n2 @ n1"
    by (rule WritesSince_append) (simp add: e1 e2 e3)
  have "x \<in> set n1" if "q = p1" using w1 w01 that by simp
  moreover have "x \<in> set n2" if "q = p2" using w2 w12 that by simp
  moreover have "x \<in> set n3" if "q = p3" using w3 w23 that by simp
  moreover from three_slots_cover [OF p q] have "q = p1 \<or> q = p2 \<or> q = p3" .
  ultimately have "x \<in> set (n3 @ n2 @ n1)" by auto
  then show ?thesis by (simp only: w03)
qed

lemma three_frames_item:
  assumes f1: "runFrame M i1 s = Inr s1" and f2: "runFrame M i2 s1 = Inr s2"
    and f3: "runFrame M i3 s2 = Inr s3"
    and r: "r < length (mAllRitems s)"
    and d: "RenderItem.NumFramesDirty (mAllRitems s ! r) = 3"
  shows "mAllRitems s3 ! r = (mAllRitems s ! r)\<lparr>RenderItem.NumFramesDirty := 0\<rparr> \<and>
     (unat (ObjCBIndex (mAllRitems s ! r)), objConstants (mAllRitems s ! r)) \<in>
        set (WritesSince (ObjectCB (mFrameResources s ! nextSlot s))
               (ObjectCB (mFrameResources s1 ! nextSlot s))) \<and>
     (unat (ObjCBIndex (mAllRitems s ! r)), objConstants (mAllRitems s ! r)) \<in>
        set (WritesSince (ObjectCB (mFrameResources s1 ! nextSlot s1))
               (ObjectCB (mFrameResources s2 ! nextSlot s1))) \<and>
     (unat (ObjCBIndex (mAllRitems s ! r)), objConstants (mAllRitems s ! r)) \<in>
        set (WritesSince (ObjectCB (mFrameResources s2 ! nextSlot s2))
               (ObjectCB (mFrameResources s3 ! nextSlot s2))) \<and>
     (\<forall>q<3. (unat (ObjCBIndex (mAllRitems s ! r)), objConstants (mAllRitems s ! r)) \<in>
        set (WritesSince (ObjectCB (mFrameResources s ! q))
               (ObjectCB (mFrameResources s3 ! q))))"
proof -
  let ?e = "mAllRitems s ! r"
  let ?W = "(unat (ObjCBIndex ?e), objConstants ?e)"
  from d have d0: "0 < RenderItem.NumFramesDirty ?e" by simp
  note a1 = frame_item [OF f1 r d0]
  have e1: "mAllRitems s1 ! r = ?e\<lparr>RenderItem.NumFramesDirty := 2\<rparr>"
    using a1(1) d by simp
  have r1: "r < length (mAllRitems s1)" using r by (simp add: frame_items_length [OF f1])
  have d1: "0 < RenderItem.NumFramesDirty (mAllRitems s1 ! r)" by (simp add: e1)
  note a2 = frame_item [OF f2 r1 d1]
  have e2: "mAllRitems s2 ! r = ?e\<lparr>RenderItem.NumFramesDirty := 1\<rparr>"
    using a2(1) by (simp add: e1)
  have r2: "r < length (mAllRitems s2)" using r1 by (simp add: frame_items_length [OF f2])
  have d2: "0 < RenderItem.NumFramesDirty (mAllRitems s2 ! r)" by (simp add: e2)
  note a3 = frame_item [OF f3 r2 d2]
  have e3: "mAllRitems s3 ! r = ?e\<lparr>RenderItem.NumFramesDirty := 0\<rparr>"
    using a3(1) by (simp add: e2)
  have w1: "?W \<in> set (WritesSince (ObjectCB (mFrameResources s ! nextSlot s))
               (ObjectCB (mFrameResources s1 ! nextSlot s)))"
    by (rule a1(2))
  have w2: "?W \<in> set (WritesSince (ObjectCB (mFrameResources s1 ! nextSlot s1))
               (ObjectCB (mFrameResources s2 ! nextSlot s1)))"
    using a2(2) by (simp add: e1)
  have w3: "?W \<in> set (WritesSince (ObjectCB (mFrameResources s2 ! nextSlot s2))
               (ObjectCB (mFrameResources s3 ! nextSlot s2)))"
    using a3(2) by (simp add: e2)
  have all: "?W \<in> set (WritesSince (ObjectCB (mFrameResources s ! q))
               (ObjectCB (mFrameResources s3 ! q)))" if q: "q < 3" for q
    by (rule three_frames_received
          [where ?b0.0 = "\<lambda>q. ObjectCB (mFrameResources s ! q)"
             and ?b1.0 = "\<lambda>q. ObjectCB (mFrameResources s1 ! q)"
             and ?b2.0 = "\<lambda>q. ObjectCB (mFrameResources s2 ! q)"
             and ?b3.0 = "\<lambda>q. ObjectCB (mFrameResources s3 ! q)",
           OF frame_object_log [OF f1] frame_object_log [OF f2] frame_object_log [OF f3]
             w1 w2 w3 nextSlot_less nextSlot_step [OF f1] nextSlot_step [OF f2] q])
  from e3 w1 w2 w3 all show ?thesis by blast
qed

lemma three_frames_material:
  assumes f1: "runFrame M i1 s = Inr s1" and f2: "runFrame M i2 s1 = Inr s2"
    and f3: "runFrame M i3 s2 = Inr s3"
    and n: "name \<noteq> ''water''"
    and m: "map_of (mMaterials s) name = Some m"
    and d: "Material.NumFramesDirty m = 3"
  shows "map_of (mMaterials s3) name = Some (m\<lparr>Material.NumFramesDirty := 0\<rparr>) \<and>
     (MatCBIndex m, matConstants m) \<in>
        set (WritesSince (MaterialCB (mFrameResources s ! nextSlot s))
               (MaterialCB (mFrameResources s1 ! nextSlot s))) \<and>
     (MatCBIndex m, matConstants m) \<in>
        set (WritesSince (MaterialCB (mFrameResources s1 ! nextSlot s1))
               (MaterialCB (mFrameResources s2 ! nextSlot s1))) \<and>
     (MatCBIndex m, matConstants m) \<in>
        set (WritesSince (MaterialCB (mFrameResources s2 ! nextSlot s2))
               (MaterialCB (mFrameResources s3 ! nextSlot s2))) \<and>
     (\<forall>q<3. (MatCBIndex m, matConstants m) \<in>
        set (WritesSince (MaterialCB (mFrameResources s ! q))
               (MaterialCB (mFrameResources s3 ! q))))"
proof -
  let ?W = "(MatCBIndex m, matConstants m)"
  from d have d0: "0 < Material.NumFramesDirty m" by simp
  note a1 = frame_material [OF f1 n m d0]
  have e1: "map_of (mMaterials s1) name = Some (m\<lparr>Material.NumFramesDirty := 2\<rparr>)"
    using a1(1) d by simp
  have d1: "0 < Material.NumFramesDirty (m\<lparr>Material.NumFramesDirty := 2\<rparr>)" by simp
  note a2 = frame_material [OF f2 n e1 d1]
  have e2: "map_of (mMaterials s2) name = Some (m\<lparr>Material.NumFramesDirty := 1\<rparr>)"
    using a2(1) by simp
  have d2: "0 < Material.NumFramesDirty (m\<lparr>Material.NumFramesDirty := 1\<rparr>)" by simp
  note a3 = frame_material [OF f3 n e2 d2]
  have e3: "map_of (mMaterials s3) name = Some (m\<lparr>Material.NumFramesDirty := 0\<rparr>)"
    using a3(1) by simp
  have w1: "?W \<in> set (WritesSince (MaterialCB (mFrameResources s ! nextSlot s))
               (MaterialCB (mFrameResources s1 ! nextSlot s)))"
    by (rule a1(2))
  have w2: "?W \<in> set (WritesSince (MaterialCB (mFrameResources s1 ! nextSlot s1))
               (MaterialCB (mFrameResources s2 ! nextSlot s1)))"
    using a2(2) by simp
  have w3: "?W \<in> set (WritesSince (MaterialCB (mFrameResources s2 ! nextSlot s2))
               (MaterialCB (mFrameResources s3 ! nextSlot s2)))"
    using a3(2) by simp
  have all: "?W \<in> set (WritesSince (MaterialCB (mFrameResources s ! q))
               (MaterialCB (mFrameResources s3 ! q)))" if q: "q < 3" for q
    by (rule three_frames_received
          [where ?b0.0 = "\<lambda>q. MaterialCB (mFrameResources s ! q)"
             and ?b1.0 = "\<lambda>q. MaterialCB (mFrameResources s1 ! q)"
             and ?b2.0 = "\<lambda>q. MaterialCB (mFrameResources s2 ! q)"
             and ?b3.0 = "\<lambda>q. MaterialCB (mFrameResources s3 ! q)",
           OF frame_material_log [OF f1] frame_material_log [OF f2] frame_material_log [OF f3]
             w1 w2 w3 nextSlot_less nextSlot_step [OF f1] nextSlot_step [OF f2] q])
  from e3 w1 w2 w3 all show ?thesis by blast
qed

text \<open>Three frames return: under the invariants, and from three fresh frame resources.\<close>

lemma three_frames_total:
  assumes "SceneOK s" and "FenceOK s" and "unat (mCurrentFence s) + 3 < 2 ^ 64"
  shows "\<exists>s1 s2 s3. runFrame M i1 s = Inr s1 \<and> runFrame M i2 s1 = Inr s2 \<and>
           runFrame M i3 s2 = Inr s3 \<and> runFrames M [i1, i2, i3] s = Inr s3"
proof -
  from runFrames_invariant [OF assms(1,2), of "[i1, i2, i3]" M] assms(3)
  obtain s3 where "runFrames M [i1, i2, i3] s = Inr s3" by auto
  then show ?thesis by (auto simp: andThen_eq_Inr)
qed

lemma three_frames_fresh:
  assumes ok: "SceneOK s" and fresh: "\<forall>q<3. Fence (mFrameResources s ! q) = 0"
  shows "\<exists>s1 s2 s3. runFrame M i1 s = Inr s1 \<and> runFrame M i2 s1 = Inr s2 \<and>
           runFrame M i3 s2 = Inr s3 \<and> runFrames M [i1, i2, i3] s = Inr s3"
proof -
  from fresh nextSlot_less [of s] have "Fence (mFrameResources s ! nextSlot s) = 0" by blast
  with runFrame_total [OF ok, of M i1] obtain s1 where f1: "runFrame M i1 s = Inr s1"
    by blast
  have ok1: "SceneOK s1" using ok f1 by (rule SceneOK_runFrame)
  have p2: "nextSlot s1 \<noteq> nextSlot s"
    using nextSlot_step [OF f1] nextSlot_less [of s] by presburger
  then have "mFrameResources s1 ! nextSlot s1 = mFrameResources s ! nextSlot s1"
    by (rule runFrame_ring(5) [OF f1])
  with fresh nextSlot_less [of s1] have "Fence (mFrameResources s1 ! nextSlot s1) = 0"
    by simp
  with runFrame_total [OF ok1, of M i2] obtain s2 where f2: "runFrame M i2 s1 = Inr s2"
    by blast
  have ok2: "SceneOK s2" using ok1 f2 by (rule SceneOK_runFrame)
  have p3: "nextSlot s2 \<noteq> nextSlot s1" "nextSlot s2 \<noteq> nextSlot s"
    using nextSlot_step [OF f1] nextSlot_step [OF f2] nextSlot_less [of s] by presburger+
  then have "mFrameResources s2 ! nextSlot s2 = mFrameResources s ! nextSlot s2"
    using runFrame_ring(5) [OF f2, of "nextSlot s2"] runFrame_ring(5) [OF f1, of "nextSlot s2"]
    by simp
  with fresh nextSlot_less [of s2] have "Fence (mFrameResources s2 ! nextSlot s2) = 0"
    by simp
  with runFrame_total [OF ok2, of M i3] obtain s3 where f3: "runFrame M i3 s2 = Inr s3"
    by blast
  from f1 f2 f3 show ?thesis by simp
qed

lemma Initialize_dirty:
  "\<forall>e \<in> set (mAllRitems (Initialize M args n (NewTreeBillboardsApp base))).
     RenderItem.NumFramesDirty e = gNumFrameResources"
  unfolding Initialize_mAllRitems
  by (simp add: ritem_defs BuildRenderItem_def NewRenderItem_def split: prod.splits)

lemma Initialize_length:
  "length (mAllRitems (Initialize M args n (NewTreeBillboardsApp base))) = 21"
  unfolding Initialize_mAllRitems by simp

lemma Initialize_fresh:
  "\<forall>q<3. Fence (mFrameResources (Initialize M args n (NewTreeBillboardsApp base)) ! q) = 0"
  by (simp add: Initialize_frames NewFrameResource_def)

lemma Initialize_nextSlot:
  "nextSlot (Initialize M args n (NewTreeBillboardsApp base)) = 1"
  by (simp add: nextSlot_def Initialize_frames)

lemma objConstants_fields:
  "\<forall>e. objConstants e =
        \<lparr>ObjectConstants.World = XMMatrixTranspose (RenderItem.World e),
         ObjectConstants.TexTransform = XMMatrixTranspose (RenderItem.TexTransform e)\<rparr>"
  by (simp add: objConstants_def)

lemma matConstants_fields:
  "\<forall>m. matConstants m =
        \<lparr>MaterialConstants.DiffuseAlbedo = Material.DiffuseAlbedo m,
         MaterialConstants.FresnelR0 = Material.FresnelR0 m,
         MaterialConstants.Roughness = Material.Roughness m,
         MaterialConstants.MatTransform = XMMatrixTranspose (Material.MatTransform m)\<rparr>"
  by (simp add: matConstants_def)

text \<open>
  C2. An entity whose counter has just been set to \<^verbatim>\<open>gNumFrameResources\<close> (3) and that
  nothing marks again is uploaded by each of the next three frames, to the frame resource
  current in that frame, and its counter is 0 afterwards. From a state that satisfies the
  scene and fence invariants and whose fence counter is at least three below its maximum,
  three consecutive frames (whatever the GPU retires in between) return, and
  \<^item> every render item with counter 3 is the same item with counter 0 afterwards, the first
    frame has written its constants at its index to the frame resource it moved to, the
    second and the third frame likewise, and each of the three frame resources has
    received that write;
  \<^item> the same holds for every material with counter 3 other than the water material,
    which \<^verbatim>\<open>AnimateMaterials\<close> marks again in every frame;
  \<^item> the constants written are recomputed from the entity: the transposed world and
    texture transforms of a render item, and the albedo, the reflectance, the roughness
    and the transposed texture transform of a material.
\<close>

theorem C2_dirty_propagates_to_all_slots:
  assumes ok: "SceneOK s" and fok: "FenceOK s"
    and nw: "unat (mCurrentFence s) + 3 < 2 ^ 64"
  shows "(\<exists>s1 s2 s3.
     runFrame M i1 s = Inr s1 \<and> runFrame M i2 s1 = Inr s2 \<and> runFrame M i3 s2 = Inr s3 \<and>
     runFrames M [i1, i2, i3] s = Inr s3 \<and>
     (\<forall>r < length (mAllRitems s).
        RenderItem.NumFramesDirty (mAllRitems s ! r) = gNumFrameResources \<longrightarrow>
        mAllRitems s3 ! r = (mAllRitems s ! r)\<lparr>RenderItem.NumFramesDirty := 0\<rparr> \<and>
        (unat (ObjCBIndex (mAllRitems s ! r)), objConstants (mAllRitems s ! r)) \<in>
           set (WritesSince (ObjectCB (mFrameResources s ! nextSlot s))
                  (ObjectCB (mFrameResources s1 ! nextSlot s))) \<and>
        (unat (ObjCBIndex (mAllRitems s ! r)), objConstants (mAllRitems s ! r)) \<in>
           set (WritesSince (ObjectCB (mFrameResources s1 ! nextSlot s1))
                  (ObjectCB (mFrameResources s2 ! nextSlot s1))) \<and>
        (unat (ObjCBIndex (mAllRitems s ! r)), objConstants (mAllRitems s ! r)) \<in>
           set (WritesSince (ObjectCB (mFrameResources s2 ! nextSlot s2))
                  (ObjectCB (mFrameResources s3 ! nextSlot s2))) \<and>
        (\<forall>q<3. (unat (ObjCBIndex (mAllRitems s ! r)), objConstants (mAllRitems s ! r)) \<in>
           set (WritesSince (ObjectCB (mFrameResources s ! q))
                  (ObjectCB (mFrameResources s3 ! q))))) \<and>
     (\<forall>name m. name \<noteq> ''water'' \<longrightarrow> map_of (mMaterials s) name = Some m \<longrightarrow>
        Material.NumFramesDirty m = gNumFrameResources \<longrightarrow>
        map_of (mMaterials s3) name = Some (m\<lparr>Material.NumFramesDirty := 0\<rparr>) \<and>
        (MatCBIndex m, matConstants m) \<in>
           set (WritesSince (MaterialCB (mFrameResources s ! nextSlot s))
                  (MaterialCB (mFrameResources s1 ! nextSlot s))) \<and>
        (MatCBIndex m, matConstants m) \<in>
           set (WritesSince (MaterialCB (mFrameResources s1 ! nextSlot s1))
                  (MaterialCB (mFrameResources s2 ! nextSlot s1))) \<and>
        (MatCBIndex m, matConstants m) \<in>
           set (WritesSince (MaterialCB (mFrameResources s2 ! nextSlot s2))
                  (MaterialCB (mFrameResources s3 ! nextSlot s2))) \<and>
        (\<forall>q<3. (MatCBIndex m, matConstants m) \<in>
           set (WritesSince (MaterialCB (mFrameResources s ! q))
                  (MaterialCB (mFrameResources s3 ! q)))))) \<and>
     (\<forall>e. objConstants e =
        \<lparr>ObjectConstants.World = XMMatrixTranspose (RenderItem.World e),
         ObjectConstants.TexTransform = XMMatrixTranspose (RenderItem.TexTransform e)\<rparr>) \<and>
     (\<forall>m. matConstants m =
        \<lparr>MaterialConstants.DiffuseAlbedo = Material.DiffuseAlbedo m,
         MaterialConstants.FresnelR0 = Material.FresnelR0 m,
         MaterialConstants.Roughness = Material.Roughness m,
         MaterialConstants.MatTransform = XMMatrixTranspose (Material.MatTransform m)\<rparr>)"
proof -
  from three_frames_total [OF ok fok nw, of M i1 i2 i3] obtain s1 s2 s3 where
    f1: "runFrame M i1 s = Inr s1" and f2: "runFrame M i2 s1 = Inr s2"
    and f3: "runFrame M i3 s2 = Inr s3" and fs: "runFrames M [i1, i2, i3] s = Inr s3"
    by blast
  have items: "\<forall>r < length (mAllRitems s).
        RenderItem.NumFramesDirty (mAllRitems s ! r) = gNumFrameResources \<longrightarrow>
        mAllRitems s3 ! r = (mAllRitems s ! r)\<lparr>RenderItem.NumFramesDirty := 0\<rparr> \<and>
        (unat (ObjCBIndex (mAllRitems s ! r)), objConstants (mAllRitems s ! r)) \<in>
           set (WritesSince (ObjectCB (mFrameResources s ! nextSlot s))
                  (ObjectCB (mFrameResources s1 ! nextSlot s))) \<and>
        (unat (ObjCBIndex (mAllRitems s ! r)), objConstants (mAllRitems s ! r)) \<in>
           set (WritesSince (ObjectCB (mFrameResources s1 ! nextSlot s1))
                  (ObjectCB (mFrameResources s2 ! nextSlot s1))) \<and>
        (unat (ObjCBIndex (mAllRitems s ! r)), objConstants (mAllRitems s ! r)) \<in>
           set (WritesSince (ObjectCB (mFrameResources s2 ! nextSlot s2))
                  (ObjectCB (mFrameResources s3 ! nextSlot s2))) \<and>
        (\<forall>q<3. (unat (ObjCBIndex (mAllRitems s ! r)), objConstants (mAllRitems s ! r)) \<in>
           set (WritesSince (ObjectCB (mFrameResources s ! q))
                  (ObjectCB (mFrameResources s3 ! q))))"
  proof (intro allI impI)
    fix r assume r: "r < length (mAllRitems s)"
      and "RenderItem.NumFramesDirty (mAllRitems s ! r) = gNumFrameResources"
    then have d: "RenderItem.NumFramesDirty (mAllRitems s ! r) = 3"
      by (simp add: gNumFrameResources_def)
    show "mAllRitems s3 ! r = (mAllRitems s ! r)\<lparr>RenderItem.NumFramesDirty := 0\<rparr> \<and>
        (unat (ObjCBIndex (mAllRitems s ! r)), objConstants (mAllRitems s ! r)) \<in>
           set (WritesSince (ObjectCB (mFrameResources s ! nextSlot s))
                  (ObjectCB (mFrameResources s1 ! nextSlot s))) \<and>
        (unat (ObjCBIndex (mAllRitems s ! r)), objConstants (mAllRitems s ! r)) \<in>
           set (WritesSince (ObjectCB (mFrameResources s1 ! nextSlot s1))
                  (ObjectCB (mFrameResources s2 ! nextSlot s1))) \<and>
        (unat (ObjCBIndex (mAllRitems s ! r)), objConstants (mAllRitems s ! r)) \<in>
           set (WritesSince (ObjectCB (mFrameResources s2 ! nextSlot s2))
                  (ObjectCB (mFrameResources s3 ! nextSlot s2))) \<and>
        (\<forall>q<3. (unat (ObjCBIndex (mAllRitems s ! r)), objConstants (mAllRitems s ! r)) \<in>
           set (WritesSince (ObjectCB (mFrameResources s ! q))
                  (ObjectCB (mFrameResources s3 ! q))))"
      by (rule three_frames_item [OF f1 f2 f3 r d])
  qed
  have mats: "\<forall>name m. name \<noteq> ''water'' \<longrightarrow> map_of (mMaterials s) name = Some m \<longrightarrow>
        Material.NumFramesDirty m = gNumFrameResources \<longrightarrow>
        map_of (mMaterials s3) name = Some (m\<lparr>Material.NumFramesDirty := 0\<rparr>) \<and>
        (MatCBIndex m, matConstants m) \<in>
           set (WritesSince (MaterialCB (mFrameResources s ! nextSlot s))
                  (MaterialCB (mFrameResources s1 ! nextSlot s))) \<and>
        (MatCBIndex m, matConstants m) \<in>
           set (WritesSince (MaterialCB (mFrameResources s1 ! nextSlot s1))
                  (MaterialCB (mFrameResources s2 ! nextSlot s1))) \<and>
        (MatCBIndex m, matConstants m) \<in>
           set (WritesSince (MaterialCB (mFrameResources s2 ! nextSlot s2))
                  (MaterialCB (mFrameResources s3 ! nextSlot s2))) \<and>
        (\<forall>q<3. (MatCBIndex m, matConstants m) \<in>
           set (WritesSince (MaterialCB (mFrameResources s ! q))
                  (MaterialCB (mFrameResources s3 ! q))))"
  proof (intro allI impI)
    fix name m assume n: "name \<noteq> ''water''" and m: "map_of (mMaterials s) name = Some m"
      and "Material.NumFramesDirty m = gNumFrameResources"
    then have d: "Material.NumFramesDirty m = 3" by (simp add: gNumFrameResources_def)
    show "map_of (mMaterials s3) name = Some (m\<lparr>Material.NumFramesDirty := 0\<rparr>) \<and>
        (MatCBIndex m, matConstants m) \<in>
           set (WritesSince (MaterialCB (mFrameResources s ! nextSlot s))
                  (MaterialCB (mFrameResources s1 ! nextSlot s))) \<and>
        (MatCBIndex m, matConstants m) \<in>
           set (WritesSince (MaterialCB (mFrameResources s1 ! nextSlot s1))
                  (MaterialCB (mFrameResources s2 ! nextSlot s1))) \<and>
        (MatCBIndex m, matConstants m) \<in>
           set (WritesSince (MaterialCB (mFrameResources s2 ! nextSlot s2))
                  (MaterialCB (mFrameResources s3 ! nextSlot s2))) \<and>
        (\<forall>q<3. (MatCBIndex m, matConstants m) \<in>
           set (WritesSince (MaterialCB (mFrameResources s ! q))
                  (MaterialCB (mFrameResources s3 ! q))))"
      by (rule three_frames_material [OF f1 f2 f3 n m d])
  qed
  have ex: "\<exists>s1 s2 s3.
     runFrame M i1 s = Inr s1 \<and> runFrame M i2 s1 = Inr s2 \<and> runFrame M i3 s2 = Inr s3 \<and>
     runFrames M [i1, i2, i3] s = Inr s3 \<and>
     (\<forall>r < length (mAllRitems s).
        RenderItem.NumFramesDirty (mAllRitems s ! r) = gNumFrameResources \<longrightarrow>
        mAllRitems s3 ! r = (mAllRitems s ! r)\<lparr>RenderItem.NumFramesDirty := 0\<rparr> \<and>
        (unat (ObjCBIndex (mAllRitems s ! r)), objConstants (mAllRitems s ! r)) \<in>
           set (WritesSince (ObjectCB (mFrameResources s ! nextSlot s))
                  (ObjectCB (mFrameResources s1 ! nextSlot s))) \<and>
        (unat (ObjCBIndex (mAllRitems s ! r)), objConstants (mAllRitems s ! r)) \<in>
           set (WritesSince (ObjectCB (mFrameResources s1 ! nextSlot s1))
                  (ObjectCB (mFrameResources s2 ! nextSlot s1))) \<and>
        (unat (ObjCBIndex (mAllRitems s ! r)), objConstants (mAllRitems s ! r)) \<in>
           set (WritesSince (ObjectCB (mFrameResources s2 ! nextSlot s2))
                  (ObjectCB (mFrameResources s3 ! nextSlot s2))) \<and>
        (\<forall>q<3. (unat (ObjCBIndex (mAllRitems s ! r)), objConstants (mAllRitems s ! r)) \<in>
           set (WritesSince (ObjectCB (mFrameResources s ! q))
                  (ObjectCB (mFrameResources s3 ! q))))) \<and>
     (\<forall>name m. name \<noteq> ''water'' \<longrightarrow> map_of (mMaterials s) name = Some m \<longrightarrow>
        Material.NumFramesDirty m = gNumFrameResources \<longrightarrow>
        map_of (mMaterials s3) name = Some (m\<lparr>Material.NumFramesDirty := 0\<rparr>) \<and>
        (MatCBIndex m, matConstants m) \<in>
           set (WritesSince (MaterialCB (mFrameResources s ! nextSlot s))
                  (MaterialCB (mFrameResources s1 ! nextSlot s))) \<and>
        (MatCBIndex m, matConstants m) \<in>
           set (WritesSince (MaterialCB (mFrameResources s1 ! nextSlot s1))
                  (MaterialCB (mFrameResources s2 ! nextSlot s1))) \<and>
        (MatCBIndex m, matConstants m) \<in>
           set (WritesSince (MaterialCB (mFrameResources s2 ! nextSlot s2))
                  (MaterialCB (mFrameResources s3 ! nextSlot s2))) \<and>
        (\<forall>q<3. (MatCBIndex m, matConstants m) \<in>
           set (WritesSince (MaterialCB (mFrameResources s ! q))
                  (MaterialCB (mFrameResources s3 ! q)))))"
    apply (rule exI [of _ s1], rule exI [of _ s2], rule exI [of _ s3])
    apply (intro conjI)
         apply (rule f1)
        apply (rule f2)
       apply (rule f3)
      apply (rule fs)
     apply (rule items)
    apply (rule mats)
    done
  from ex objConstants_fields matConstants_fields show ?thesis by (intro conjI)
qed

theorem C2_dirty_propagates_to_all_slots_witness:
  "\<exists>s3. runFrames M0 [inp0, inp0, inp0] app0 = Inr s3 \<and>
     RenderItem.NumFramesDirty (mAllRitems app0 ! 19) = 3 \<and>
     mAllRitems s3 ! 19 = (mAllRitems app0 ! 19)\<lparr>RenderItem.NumFramesDirty := 0\<rparr> \<and>
     (0, objConstants (mAllRitems app0 ! 19)) \<in>
        set (WritesSince (ObjectCB (mFrameResources app0 ! 0))
               (ObjectCB (mFrameResources s3 ! 0))) \<and>
     (0, objConstants (mAllRitems app0 ! 19)) \<in>
        set (WritesSince (ObjectCB (mFrameResources app0 ! 1))
               (ObjectCB (mFrameResources s3 ! 1))) \<and>
     (0, objConstants (mAllRitems app0 ! 19)) \<in>
        set (WritesSince (ObjectCB (mFrameResources app0 ! 2))
               (ObjectCB (mFrameResources s3 ! 2)))"
proof -
  have nw: "unat (mCurrentFence app0) + 3 < 2 ^ 64" by (simp add: app0_fence)
  have l: "19 < length (mAllRitems app0)" by (simp add: app0_def Initialize_length)
  have d: "RenderItem.NumFramesDirty (mAllRitems app0 ! 19) = gNumFrameResources"
    using Initialize_dirty [of M0 args0 4 base0] l by (simp add: app0_def)
  then have d3: "RenderItem.NumFramesDirty (mAllRitems app0 ! 19) = 3"
    by (simp add: gNumFrameResources_def)
  from C2_dirty_propagates_to_all_slots [OF app0_SceneOK app0_FenceOK nw, of M0 inp0 inp0 inp0]
  show ?thesis
  proof (elim conjE exE)
    fix s1 s2 s3
    assume fs: "runFrames M0 [inp0, inp0, inp0] app0 = Inr s3"
      and a: "\<forall>r < length (mAllRitems app0).
        RenderItem.NumFramesDirty (mAllRitems app0 ! r) = gNumFrameResources \<longrightarrow>
        mAllRitems s3 ! r = (mAllRitems app0 ! r)\<lparr>RenderItem.NumFramesDirty := 0\<rparr> \<and>
        (unat (ObjCBIndex (mAllRitems app0 ! r)), objConstants (mAllRitems app0 ! r)) \<in>
           set (WritesSince (ObjectCB (mFrameResources app0 ! nextSlot app0))
                  (ObjectCB (mFrameResources s1 ! nextSlot app0))) \<and>
        (unat (ObjCBIndex (mAllRitems app0 ! r)), objConstants (mAllRitems app0 ! r)) \<in>
           set (WritesSince (ObjectCB (mFrameResources s1 ! nextSlot s1))
                  (ObjectCB (mFrameResources s2 ! nextSlot s1))) \<and>
        (unat (ObjCBIndex (mAllRitems app0 ! r)), objConstants (mAllRitems app0 ! r)) \<in>
           set (WritesSince (ObjectCB (mFrameResources s2 ! nextSlot s2))
                  (ObjectCB (mFrameResources s3 ! nextSlot s2))) \<and>
        (\<forall>q<3. (unat (ObjCBIndex (mAllRitems app0 ! r)), objConstants (mAllRitems app0 ! r)) \<in>
           set (WritesSince (ObjectCB (mFrameResources app0 ! q))
                  (ObjectCB (mFrameResources s3 ! q))))"
    have i: "unat (ObjCBIndex (mAllRitems app0 ! 19)) = 0"
      by (simp add: app0_def Initialize_mAllRitems wavesRitem_def)
    from a [rule_format, OF l d]
    have e: "mAllRitems s3 ! 19 = (mAllRitems app0 ! 19)\<lparr>RenderItem.NumFramesDirty := 0\<rparr>"
      and q: "\<forall>q<3. (0, objConstants (mAllRitems app0 ! 19)) \<in>
             set (WritesSince (ObjectCB (mFrameResources app0 ! q))
                    (ObjectCB (mFrameResources s3 ! q)))"
      unfolding i by blast+
    from q [rule_format, of 0] q [rule_format, of 1] q [rule_format, of 2]
    have "(0, objConstants (mAllRitems app0 ! 19)) \<in>
          set (WritesSince (ObjectCB (mFrameResources app0 ! 0))
                 (ObjectCB (mFrameResources s3 ! 0)))"
       "(0, objConstants (mAllRitems app0 ! 19)) \<in>
          set (WritesSince (ObjectCB (mFrameResources app0 ! 1))
                 (ObjectCB (mFrameResources s3 ! 1)))"
       "(0, objConstants (mAllRitems app0 ! 19)) \<in>
          set (WritesSince (ObjectCB (mFrameResources app0 ! 2))
                 (ObjectCB (mFrameResources s3 ! 2)))"
      by simp_all
    with fs d3 e show ?thesis by (intro exI [of _ s3]) simp
  qed
qed

text \<open>
  C10. A render item is constructed with its counter equal to \<^verbatim>\<open>gNumFrameResources\<close>,
  which is 3, and the scene build leaves the counter of every render item it creates at
  that value. So, with no step marking any render item between construction and the first
  frames, the first three frames after \<^verbatim>\<open>Initialize\<close> return, they move through the frame
  resources 1, 2 and 0, each of them writes the initial constants of every render item (its
  transposed world and texture transforms) at the item's index to the frame resource it
  moved to, every frame resource has received them, and every counter is 0 afterwards.
\<close>

theorem C10_new_render_item_propagates:
  assumes s: "s = Initialize M args n (NewTreeBillboardsApp base)"
  shows "RenderItem.NumFramesDirty (NewRenderItem M) = gNumFrameResources \<and>
     gNumFrameResources = 3 \<and>
     length (mAllRitems s) = 21 \<and>
     (\<forall>e \<in> set (mAllRitems s). RenderItem.NumFramesDirty e = gNumFrameResources) \<and>
     (\<exists>s1 s2 s3.
     runFrame M i1 s = Inr s1 \<and> runFrame M i2 s1 = Inr s2 \<and> runFrame M i3 s2 = Inr s3 \<and>
     runFrames M [i1, i2, i3] s = Inr s3 \<and>
     nextSlot s = 1 \<and> nextSlot s1 = 2 \<and> nextSlot s2 = 0 \<and>
     (\<forall>r < length (mAllRitems s).
        mAllRitems s3 ! r = (mAllRitems s ! r)\<lparr>RenderItem.NumFramesDirty := 0\<rparr> \<and>
        (unat (ObjCBIndex (mAllRitems s ! r)), objConstants (mAllRitems s ! r)) \<in>
           set (WritesSince (ObjectCB (mFrameResources s ! 1))
                  (ObjectCB (mFrameResources s1 ! 1))) \<and>
        (unat (ObjCBIndex (mAllRitems s ! r)), objConstants (mAllRitems s ! r)) \<in>
           set (WritesSince (ObjectCB (mFrameResources s1 ! 2))
                  (ObjectCB (mFrameResources s2 ! 2))) \<and>
        (unat (ObjCBIndex (mAllRitems s ! r)), objConstants (mAllRitems s ! r)) \<in>
           set (WritesSince (ObjectCB (mFrameResources s2 ! 0))
                  (ObjectCB (mFrameResources s3 ! 0))) \<and>
        (\<forall>q<3. (unat (ObjCBIndex (mAllRitems s ! r)), objConstants (mAllRitems s ! r)) \<in>
           set (WritesSince (ObjectCB (mFrameResources s ! q))
                  (ObjectCB (mFrameResources s3 ! q)))))) \<and>
     (\<forall>e. objConstants e =
        \<lparr>ObjectConstants.World = XMMatrixTranspose (RenderItem.World e),
         ObjectConstants.TexTransform = XMMatrixTranspose (RenderItem.TexTransform e)\<rparr>)"
proof -
  have c1: "RenderItem.NumFramesDirty (NewRenderItem M) = gNumFrameResources"
    by (simp add: NewRenderItem_def)
  have c2: "gNumFrameResources = 3" by (simp add: gNumFrameResources_def)
  have c3: "length (mAllRitems s) = 21" unfolding s by (rule Initialize_length)
  have c4: "\<forall>e \<in> set (mAllRitems s). RenderItem.NumFramesDirty e = gNumFrameResources"
    unfolding s by (rule Initialize_dirty)
  have ok: "SceneOK s" unfolding s by (rule SceneOK_Initialize)
  have fresh: "\<forall>q<3. Fence (mFrameResources s ! q) = 0" unfolding s by (rule Initialize_fresh)
  from three_frames_fresh [OF ok fresh, of M i1 i2 i3] obtain s1 s2 s3 where
    f1: "runFrame M i1 s = Inr s1" and f2: "runFrame M i2 s1 = Inr s2"
    and f3: "runFrame M i3 s2 = Inr s3" and fs: "runFrames M [i1, i2, i3] s = Inr s3"
    by blast
  have n0: "nextSlot s = 1" unfolding s by (rule Initialize_nextSlot)
  have n1: "nextSlot s1 = 2" using nextSlot_step [OF f1] by (simp add: n0)
  have n2: "nextSlot s2 = 0" using nextSlot_step [OF f2] by (simp add: n1)
  have items: "\<forall>r < length (mAllRitems s).
        mAllRitems s3 ! r = (mAllRitems s ! r)\<lparr>RenderItem.NumFramesDirty := 0\<rparr> \<and>
        (unat (ObjCBIndex (mAllRitems s ! r)), objConstants (mAllRitems s ! r)) \<in>
           set (WritesSince (ObjectCB (mFrameResources s ! 1))
                  (ObjectCB (mFrameResources s1 ! 1))) \<and>
        (unat (ObjCBIndex (mAllRitems s ! r)), objConstants (mAllRitems s ! r)) \<in>
           set (WritesSince (ObjectCB (mFrameResources s1 ! 2))
                  (ObjectCB (mFrameResources s2 ! 2))) \<and>
        (unat (ObjCBIndex (mAllRitems s ! r)), objConstants (mAllRitems s ! r)) \<in>
           set (WritesSince (ObjectCB (mFrameResources s2 ! 0))
                  (ObjectCB (mFrameResources s3 ! 0))) \<and>
        (\<forall>q<3. (unat (ObjCBIndex (mAllRitems s ! r)), objConstants (mAllRitems s ! r)) \<in>
           set (WritesSince (ObjectCB (mFrameResources s ! q))
                  (ObjectCB (mFrameResources s3 ! q))))"
  proof (intro allI impI)
    fix r assume r: "r < length (mAllRitems s)"
    with c4 have d: "RenderItem.NumFramesDirty (mAllRitems s ! r) = 3"
      by (simp add: c2 [symmetric])
    from three_frames_item [OF f1 f2 f3 r d]
    show "mAllRitems s3 ! r = (mAllRitems s ! r)\<lparr>RenderItem.NumFramesDirty := 0\<rparr> \<and>
        (unat (ObjCBIndex (mAllRitems s ! r)), objConstants (mAllRitems s ! r)) \<in>
           set (WritesSince (ObjectCB (mFrameResources s ! 1))
                  (ObjectCB (mFrameResources s1 ! 1))) \<and>
        (unat (ObjCBIndex (mAllRitems s ! r)), objConstants (mAllRitems s ! r)) \<in>
           set (WritesSince (ObjectCB (mFrameResources s1 ! 2))
                  (ObjectCB (mFrameResources s2 ! 2))) \<and>
        (unat (ObjCBIndex (mAllRitems s ! r)), objConstants (mAllRitems s ! r)) \<in>
           set (WritesSince (ObjectCB (mFrameResources s2 ! 0))
                  (ObjectCB (mFrameResources s3 ! 0))) \<and>
        (\<forall>q<3. (unat (ObjCBIndex (mAllRitems s ! r)), objConstants (mAllRitems s ! r)) \<in>
           set (WritesSince (ObjectCB (mFrameResources s ! q))
                  (ObjectCB (mFrameResources s3 ! q))))"
      unfolding n0 n1 n2 .
  qed
  have ex: "\<exists>s1 s2 s3.
     runFrame M i1 s = Inr s1 \<and> runFrame M i2 s1 = Inr s2 \<and> runFrame M i3 s2 = Inr s3 \<and>
     runFrames M [i1, i2, i3] s = Inr s3 \<and>
     nextSlot s = 1 \<and> nextSlot s1 = 2 \<and> nextSlot s2 = 0 \<and>
     (\<forall>r < length (mAllRitems s).
        mAllRitems s3 ! r = (mAllRitems s ! r)\<lparr>RenderItem.NumFramesDirty := 0\<rparr> \<and>
        (unat (ObjCBIndex (mAllRitems s ! r)), objConstants (mAllRitems s ! r)) \<in>
           set (WritesSince (ObjectCB (mFrameResources s ! 1))
                  (ObjectCB (mFrameResources s1 ! 1))) \<and>
        (unat (ObjCBIndex (mAllRitems s ! r)), objConstants (mAllRitems s ! r)) \<in>
           set (WritesSince (ObjectCB (mFrameResources s1 ! 2))
                  (ObjectCB (mFrameResources s2 ! 2))) \<and>
        (unat (ObjCBIndex (mAllRitems s ! r)), objConstants (mAllRitems s ! r)) \<in>
           set (WritesSince (ObjectCB (mFrameResources s2 ! 0))
                  (ObjectCB (mFrameResources s3 ! 0))) \<and>
        (\<forall>q<3. (unat (ObjCBIndex (mAllRitems s ! r)), objConstants (mAllRitems s ! r)) \<in>
           set (WritesSince (ObjectCB (mFrameResources s ! q))
                  (ObjectCB (mFrameResources s3 ! q)))))"
    apply (rule exI [of _ s1], rule exI [of _ s2], rule exI [of _ s3])
    apply (intro conjI)
           apply (rule f1)
          apply (rule f2)
         apply (rule f3)
        apply (rule fs)
       apply (rule n0)
      apply (rule n1)
     apply (rule n2)
    apply (rule items)
    done
  from c1 c2 c3 c4 ex objConstants_fields show ?thesis by (intro conjI)
qed

theorem C10_new_render_item_propagates_witness:
  "\<exists>s3. runFrames M0 [inp0, inp0, inp0] app0 = Inr s3 \<and>
     RenderItem.NumFramesDirty (mAllRitems app0 ! 20) = 3 \<and>
     mAllRitems s3 ! 20 = (mAllRitems app0 ! 20)\<lparr>RenderItem.NumFramesDirty := 0\<rparr> \<and>
     (1, objConstants (mAllRitems app0 ! 20)) \<in>
        set (WritesSince (ObjectCB (mFrameResources app0 ! 0))
               (ObjectCB (mFrameResources s3 ! 0))) \<and>
     (1, objConstants (mAllRitems app0 ! 20)) \<in>
        set (WritesSince (ObjectCB (mFrameResources app0 ! 1))
               (ObjectCB (mFrameResources s3 ! 1))) \<and>
     (1, objConstants (mAllRitems app0 ! 20)) \<in>
        set (WritesSince (ObjectCB (mFrameResources app0 ! 2))
               (ObjectCB (mFrameResources s3 ! 2)))"
  using C10_new_render_item_propagates [OF app0_def, of inp0 inp0 inp0]
proof (elim conjE exE)
  fix s1 s2 s3
  assume fs: "runFrames M0 [inp0, inp0, inp0] app0 = Inr s3"
    and len: "length (mAllRitems app0) = 21"
    and n: "gNumFrameResources = 3"
    and all: "\<forall>e \<in> set (mAllRitems app0). RenderItem.NumFramesDirty e = gNumFrameResources"
    and a: "\<forall>r < length (mAllRitems app0).
        mAllRitems s3 ! r = (mAllRitems app0 ! r)\<lparr>RenderItem.NumFramesDirty := 0\<rparr> \<and>
        (unat (ObjCBIndex (mAllRitems app0 ! r)), objConstants (mAllRitems app0 ! r)) \<in>
           set (WritesSince (ObjectCB (mFrameResources app0 ! 1))
                  (ObjectCB (mFrameResources s1 ! 1))) \<and>
        (unat (ObjCBIndex (mAllRitems app0 ! r)), objConstants (mAllRitems app0 ! r)) \<in>
           set (WritesSince (ObjectCB (mFrameResources s1 ! 2))
                  (ObjectCB (mFrameResources s2 ! 2))) \<and>
        (unat (ObjCBIndex (mAllRitems app0 ! r)), objConstants (mAllRitems app0 ! r)) \<in>
           set (WritesSince (ObjectCB (mFrameResources s2 ! 0))
                  (ObjectCB (mFrameResources s3 ! 0))) \<and>
        (\<forall>q<3. (unat (ObjCBIndex (mAllRitems app0 ! r)), objConstants (mAllRitems app0 ! r)) \<in>
           set (WritesSince (ObjectCB (mFrameResources app0 ! q))
                  (ObjectCB (mFrameResources s3 ! q))))"
  have l: "20 < length (mAllRitems app0)" by (simp add: len)
  then have "mAllRitems app0 ! 20 \<in> set (mAllRitems app0)" by (rule nth_mem)
  with all n have d3: "RenderItem.NumFramesDirty (mAllRitems app0 ! 20) = 3" by simp
  have i: "unat (ObjCBIndex (mAllRitems app0 ! 20)) = 1"
    by (simp add: app0_def Initialize_mAllRitems treeSpritesRitem_def)
  from a [rule_format, OF l]
  have e: "mAllRitems s3 ! 20 = (mAllRitems app0 ! 20)\<lparr>RenderItem.NumFramesDirty := 0\<rparr>"
    and q: "\<forall>q<3. (1, objConstants (mAllRitems app0 ! 20)) \<in>
           set (WritesSince (ObjectCB (mFrameResources app0 ! q))
                  (ObjectCB (mFrameResources s3 ! q)))"
    unfolding i by blast+
  from q [rule_format, of 0] q [rule_format, of 1] q [rule_format, of 2]
  have "(1, objConstants (mAllRitems app0 ! 20)) \<in>
        set (WritesSince (ObjectCB (mFrameResources app0 ! 0))
               (ObjectCB (mFrameResources s3 ! 0)))"
     "(1, objConstants (mAllRitems app0 ! 20)) \<in>
        set (WritesSince (ObjectCB (mFrameResources app0 ! 1))
               (ObjectCB (mFrameResources s3 ! 1)))"
     "(1, objConstants (mAllRitems app0 ! 20)) \<in>
        set (WritesSince (ObjectCB (mFrameResources app0 ! 2))
               (ObjectCB (mFrameResources s3 ! 2)))"
    by simp_all
  with fs d3 e show ?thesis by (intro exI [of _ s3]) simp
qed

lemma set_AList_update: "set (AList.update k v xs) \<subseteq> insert (k, v) (set xs)"
  by (induction xs) auto

lemma ritemAfterUpload_bounds:
  assumes "0 \<le> RenderItem.NumFramesDirty e" and "RenderItem.NumFramesDirty e \<le> n"
  shows "0 \<le> RenderItem.NumFramesDirty (ritemAfterUpload e)"
    and "RenderItem.NumFramesDirty (ritemAfterUpload e) \<le> n"
  using assms by (simp_all add: ritemAfterUpload_def)

lemma materialAfterUpload_bounds:
  assumes "0 \<le> Material.NumFramesDirty m" and "Material.NumFramesDirty m \<le> n"
  shows "0 \<le> Material.NumFramesDirty (materialAfterUpload m)"
    and "Material.NumFramesDirty (materialAfterUpload m) \<le> n"
  using assms by (simp_all add: materialAfterUpload_def)

lemma DirtyOK_items:
  assumes "DirtyOK s" and "mMaterials s' = mMaterials s"
    and "mAllRitems s' = map ritemAfterUpload (mAllRitems s)"
  shows "DirtyOK s'"
  using assms by (auto simp: DirtyOK_def ritemAfterUpload_bounds)

lemma DirtyOK_materials:
  assumes "DirtyOK s" and "mAllRitems s' = mAllRitems s"
    and "mMaterials s' = map (apsnd materialAfterUpload) (mMaterials s)"
  shows "DirtyOK s'"
  using assms by (auto simp: DirtyOK_def materialAfterUpload_bounds)

lemma DirtyOK_mark:
  assumes "DirtyOK s" and "mAllRitems s' = mAllRitems s"
    and "mMaterials s' = AList.update k (m\<lparr>Material.MatTransform := tr,
           Material.NumFramesDirty := gNumFrameResources\<rparr>) (mMaterials s)"
  shows "DirtyOK s'"
proof -
  have "0 \<le> Material.NumFramesDirty (snd e) \<and>
      Material.NumFramesDirty (snd e) \<le> gNumFrameResources"
    if "e \<in> set (mMaterials s')" for e
  proof -
    from that set_AList_update [of k _ "mMaterials s"] assms(3)
    have "e = (k, m\<lparr>Material.MatTransform := tr,
           Material.NumFramesDirty := gNumFrameResources\<rparr>) \<or> e \<in> set (mMaterials s)"
      by auto
    with assms(1) show ?thesis by (auto simp: DirtyOK_def gNumFrameResources_def)
  qed
  with assms(1,2) show ?thesis by (simp add: DirtyOK_def)
qed

lemma DirtyOK_AnimateMaterials:
  assumes "DirtyOK s" and "AnimateMaterials M gt s = Inr s'"
  shows "DirtyOK s'"
proof -
  from assms(2) obtain wm where wm: "map_of (mMaterials s) ''water'' = Some wm"
    by (rule AnimateMaterials_InrD)
  from AnimateMaterials_eq [OF wm, of M gt] assms(2) obtain tr where
    "s' = s\<lparr>mMaterials := AList.update ''water''
              (wm\<lparr>Material.MatTransform := tr, Material.NumFramesDirty := gNumFrameResources\<rparr>)
              (mMaterials s)\<rparr>"
    by auto
  then show ?thesis by (intro DirtyOK_mark [OF assms(1)]) simp_all
qed

lemma DirtyOK_UpdateObjectCBs:
  assumes "DirtyOK s" and "UpdateObjectCBs s = Inr s'"
  shows "DirtyOK s'"
proof -
  from assms(2) obtain p fr where cur: "CurrFrameResource s = Inr (p, fr)"
    by (rule UpdateObjectCBs_InrD)
  from assms(2) show ?thesis
    unfolding UpdateObjectCBs_eq [OF cur]
    by (intro DirtyOK_items [OF assms(1)]) auto
qed

lemma DirtyOK_UpdateMaterialCBs:
  assumes "DirtyOK s" and "UpdateMaterialCBs s = Inr s'"
  shows "DirtyOK s'"
proof -
  from assms(2) obtain p fr where cur: "CurrFrameResource s = Inr (p, fr)"
    by (rule UpdateMaterialCBs_InrD)
  from assms(2) show ?thesis
    unfolding UpdateMaterialCBs_eq [OF cur]
    by (intro DirtyOK_materials [OF assms(1)]) auto
qed

lemma DirtyOK_trackerSteps:
  assumes "DirtyOK s" and "trackerSteps M sts s = Inr s'"
  shows "DirtyOK s'"
  using assms
proof (induction sts arbitrary: s)
  case Nil
  then show ?case by simp
next
  case (Cons st sts)
  from Cons.prems(2) obtain s1 where st: "trackerStep M st s = Inr s1"
    and rest: "trackerSteps M sts s1 = Inr s'"
    by (auto simp: andThen_eq_Inr)
  from st Cons.prems(1) have "DirtyOK s1"
    by (cases st)
      (auto intro: DirtyOK_AnimateMaterials DirtyOK_UpdateObjectCBs DirtyOK_UpdateMaterialCBs)
  then show ?case using rest by (rule Cons.IH)
qed

lemma DirtyOK_runFrame:
  assumes ok: "DirtyOK s" and f: "runFrame M inp s = Inr s'"
  shows "DirtyOK s'"
proof -
  from runFrame_materials [OF f] obtain wm tr where
    m: "mMaterials s' = map (apsnd materialAfterUpload)
             (AList.update ''water''
                (wm\<lparr>Material.MatTransform := tr, Material.NumFramesDirty := gNumFrameResources\<rparr>)
                (mMaterials s))"
    by blast
  define s1 where "s1 = s\<lparr>mMaterials := AList.update ''water''
                (wm\<lparr>Material.MatTransform := tr, Material.NumFramesDirty := gNumFrameResources\<rparr>)
                (mMaterials s)\<rparr>"
  have "DirtyOK s1" by (rule DirtyOK_mark [OF ok]) (simp_all add: s1_def)
  then have "DirtyOK (s1\<lparr>mAllRitems := map ritemAfterUpload (mAllRitems s1)\<rparr>)"
    by (rule DirtyOK_items) simp_all
  then show ?thesis
    by (rule DirtyOK_materials) (simp_all add: s1_def m runFrame_objects(1) [OF f])
qed

lemma DirtyOK_runFrames:
  assumes "DirtyOK s" and "runFrames M inps s = Inr s'"
  shows "DirtyOK s'"
  using assms
proof (induction inps arbitrary: s)
  case Nil
  then show ?case by simp
next
  case (Cons inp inps)
  from Cons.prems(2) obtain s1 where f: "runFrame M inp s = Inr s1"
    and rest: "runFrames M inps s1 = Inr s'"
    by (auto simp: andThen_eq_Inr)
  from Cons.prems(1) f have "DirtyOK s1" by (rule DirtyOK_runFrame)
  then show ?case using rest by (rule Cons.IH)
qed

lemma Initialize_materials_dirty:
  "\<forall>e \<in> set (mMaterials (Initialize M args n (NewTreeBillboardsApp base))).
     Material.NumFramesDirty (snd e) = gNumFrameResources"
  by (simp add: scene_defs BuildMaterial_def NewMaterial_def)

lemma DirtyOK_Initialize: "DirtyOK (Initialize M args n (NewTreeBillboardsApp base))"
  using Initialize_dirty [of M args n base] Initialize_materials_dirty [of M args n base]
  by (simp add: DirtyOK_def gNumFrameResources_def)

lemma AnimateMaterials_marks:
  assumes "AnimateMaterials M gt s = Inr s'"
  shows "\<exists>wm. map_of (mMaterials s') ''water'' = Some wm \<and>
           Material.NumFramesDirty wm = gNumFrameResources"
    and "name \<noteq> ''water'' \<Longrightarrow> map_of (mMaterials s') name = map_of (mMaterials s) name"
    and "mAllRitems s' = mAllRitems s"
proof -
  from assms obtain wm where wm: "map_of (mMaterials s) ''water'' = Some wm"
    by (rule AnimateMaterials_InrD)
  from AnimateMaterials_eq [OF wm, of M gt] assms obtain tr where
    s': "s' = s\<lparr>mMaterials := AList.update ''water''
              (wm\<lparr>Material.MatTransform := tr, Material.NumFramesDirty := gNumFrameResources\<rparr>)
              (mMaterials s)\<rparr>"
    by auto
  show "\<exists>wm. map_of (mMaterials s') ''water'' = Some wm \<and>
           Material.NumFramesDirty wm = gNumFrameResources"
    by (simp add: s' update_conv')
  show "map_of (mMaterials s') name = map_of (mMaterials s) name" if "name \<noteq> ''water''"
    using that by (simp add: s' update_conv')
  show "mAllRitems s' = mAllRitems s" by (simp add: s')
qed

lemma UpdateMaterialCBs_entry:
  assumes "UpdateMaterialCBs s = Inr s'" and "map_of (mMaterials s) name = Some m"
  shows "map_of (mMaterials s') name = Some (materialAfterUpload m)"
proof -
  from assms(1) obtain p fr where cur: "CurrFrameResource s = Inr (p, fr)"
    by (rule UpdateMaterialCBs_InrD)
  have "map_of (map (apsnd f) ys) name = map_option f (map_of ys name)" for ys
    and f :: "'a Material \<Rightarrow> 'a Material"
    by (induction ys) auto
  with assms show ?thesis
    unfolding UpdateMaterialCBs_eq [OF cur] by auto
qed

lemma UpdateObjectCBs_entry:
  assumes "UpdateObjectCBs s = Inr s'"
  shows "mAllRitems s' = map ritemAfterUpload (mAllRitems s)"
    and "mMaterials s' = mMaterials s"
proof -
  from assms obtain p fr where cur: "CurrFrameResource s = Inr (p, fr)"
    by (rule UpdateObjectCBs_InrD)
  from assms show "mAllRitems s' = map ritemAfterUpload (mAllRitems s)"
    and "mMaterials s' = mMaterials s"
    unfolding UpdateObjectCBs_eq [OF cur] by auto
qed

lemma map_of_apsnd: "map_of (map (apsnd f) ys) k = map_option f (map_of ys k)"
  by (induction ys) auto

lemma trackerStep_total:
  assumes "map_of (mMaterials s) ''water'' \<noteq> None"
    and "mCurrFrameResource s = Some p" and "p < length (mFrameResources s)"
  shows "\<exists>s'. trackerStep M st s = Inr s' \<and> map_of (mMaterials s') ''water'' \<noteq> None \<and>
           mCurrFrameResource s' = Some p \<and> p < length (mFrameResources s')"
proof -
  from assms(2,3) have cur: "CurrFrameResource s = Inr (p, mFrameResources s ! p)"
    by (simp add: CurrFrameResource_eq_Inr)
  show ?thesis
  proof (cases st)
    case (StepAnimateMaterials gt)
    from assms(1) obtain wm where wm: "map_of (mMaterials s) ''water'' = Some wm" by blast
    from AnimateMaterials_eq [OF wm, of M gt] obtain tr where
      "AnimateMaterials M gt s = Inr (s\<lparr>mMaterials := AList.update ''water''
              (wm\<lparr>Material.MatTransform := tr, Material.NumFramesDirty := gNumFrameResources\<rparr>)
              (mMaterials s)\<rparr>)"
      by blast
    with assms(2,3) show ?thesis
      by (simp add: StepAnimateMaterials update_conv')
  next
    case StepUpdateObjectCBs
    from assms show ?thesis
      by (simp add: StepUpdateObjectCBs UpdateObjectCBs_eq [OF cur])
  next
    case StepUpdateMaterialCBs
    from assms(1) obtain wm where wm: "map_of (mMaterials s) ''water'' = Some wm" by blast
    have "map_of (map (apsnd materialAfterUpload) (mMaterials s)) ''water'' =
        Some (materialAfterUpload wm)"
      by (simp add: map_of_apsnd wm)
    with assms show ?thesis
      by (simp add: StepUpdateMaterialCBs UpdateMaterialCBs_eq [OF cur])
  qed
qed

lemma trackerSteps_total:
  assumes "map_of (mMaterials s) ''water'' \<noteq> None"
    and "mCurrFrameResource s = Some p" and "p < length (mFrameResources s)"
  shows "\<exists>s'. trackerSteps M sts s = Inr s'"
  using assms
proof (induction sts arbitrary: s)
  case Nil
  show ?case by simp
next
  case (Cons st sts)
  from trackerStep_total [OF Cons.prems, of M st] obtain s1 where
    st: "trackerStep M st s = Inr s1" and inv: "map_of (mMaterials s1) ''water'' \<noteq> None"
      "mCurrFrameResource s1 = Some p" "p < length (mFrameResources s1)"
    by blast
  from Cons.IH [OF inv] st show ?case by simp
qed

lemma DirtyOK_D:
  assumes "DirtyOK s"
  shows "\<forall>e \<in> set (mAllRitems s).
           0 \<le> RenderItem.NumFramesDirty e \<and> RenderItem.NumFramesDirty e \<le> 3"
    and "\<forall>name m. map_of (mMaterials s) name = Some m \<longrightarrow>
           0 \<le> Material.NumFramesDirty m \<and> Material.NumFramesDirty m \<le> 3"
proof -
  from assms show "\<forall>e \<in> set (mAllRitems s).
      0 \<le> RenderItem.NumFramesDirty e \<and> RenderItem.NumFramesDirty e \<le> 3"
    by (simp add: DirtyOK_def gNumFrameResources_def)
  show "\<forall>name m. map_of (mMaterials s) name = Some m \<longrightarrow>
      0 \<le> Material.NumFramesDirty m \<and> Material.NumFramesDirty m \<le> 3"
  proof (intro allI impI)
    fix name m assume "map_of (mMaterials s) name = Some m"
    then have "(name, m) \<in> set (mMaterials s)" by (rule map_of_SomeD)
    with assms show "0 \<le> Material.NumFramesDirty m \<and> Material.NumFramesDirty m \<le> 3"
      by (force simp: DirtyOK_def gNumFrameResources_def)
  qed
qed

lemma remark_twice:
  assumes "trackerSteps M [StepAnimateMaterials gt1, StepAnimateMaterials gt2] s = Inr s2"
  shows "\<exists>wm. map_of (mMaterials s2) ''water'' = Some wm \<and>
           Material.NumFramesDirty wm = gNumFrameResources"
proof -
  from assms obtain s1 where "AnimateMaterials M gt2 s1 = Inr s2"
    by (auto simp: andThen_eq_Inr)
  then show ?thesis by (rule AnimateMaterials_marks)
qed

lemma remark_twice_then_upload:
  assumes "trackerSteps M
      [StepAnimateMaterials gt1, StepAnimateMaterials gt2, StepUpdateMaterialCBs] s = Inr s3"
  shows "\<exists>wm. map_of (mMaterials s3) ''water'' = Some wm \<and>
           Material.NumFramesDirty wm = gNumFrameResources - 1"
proof -
  from assms obtain s1 s2 where "AnimateMaterials M gt2 s1 = Inr s2"
    and u: "UpdateMaterialCBs s2 = Inr s3"
    by (auto simp: andThen_eq_Inr)
  from AnimateMaterials_marks(1) [OF this(1)] obtain wm where
    wm: "map_of (mMaterials s2) ''water'' = Some wm"
      "Material.NumFramesDirty wm = gNumFrameResources"
    by blast
  from UpdateMaterialCBs_entry [OF u wm(1)] wm(2) show ?thesis
    by (simp add: materialAfterUpload_def gNumFrameResources_def)
qed

text \<open>
  C3. A dirty counter never exceeds \<^verbatim>\<open>gNumFrameResources\<close> (3) and never goes negative,
  and marking overrides instead of accumulating. The steps that touch a counter are the
  mutation of the scene (\<^verbatim>\<open>AnimateMaterials\<close>, which marks the water material) and the two
  upload loops; the render items are marked by their construction only.
  \<^item> Every sequence of these steps, and every run of frames, keeps the counters of all
    render items and materials between 0 and 3 (\<open>DirtyOK\<close>), and the scene that
    \<^verbatim>\<open>Initialize\<close> builds has them there; the steps return whenever the water material
    and the current frame resource exist.
  \<^item> \<^verbatim>\<open>AnimateMaterials\<close> leaves the counter of the water material at exactly 3 whatever it
    was before, and touches no other counter; marking twice before the upload loop
    leaves it at 3, and the upload loop that follows takes it to 2.
\<close>

theorem C3_dirty_count_bounds:
  "(DirtyOK s \<and> trackerSteps M sts s = Inr s' \<longrightarrow> DirtyOK s') \<and>
   (DirtyOK s \<and> runFrames M inps s = Inr s' \<longrightarrow> DirtyOK s') \<and>
   DirtyOK (Initialize M args n (NewTreeBillboardsApp base)) \<and>
   (DirtyOK s' \<longrightarrow>
      (\<forall>e \<in> set (mAllRitems s').
         0 \<le> RenderItem.NumFramesDirty e \<and> RenderItem.NumFramesDirty e \<le> 3) \<and>
      (\<forall>name m. map_of (mMaterials s') name = Some m \<longrightarrow>
         0 \<le> Material.NumFramesDirty m \<and> Material.NumFramesDirty m \<le> 3)) \<and>
   (map_of (mMaterials s) ''water'' \<noteq> None \<and> mCurrFrameResource s = Some p \<and>
      p < length (mFrameResources s) \<longrightarrow> (\<exists>t. trackerSteps M sts s = Inr t)) \<and>
   (AnimateMaterials M gt s = Inr s1 \<longrightarrow>
      (\<exists>wm. map_of (mMaterials s1) ''water'' = Some wm \<and>
            Material.NumFramesDirty wm = gNumFrameResources) \<and>
      (\<forall>name. name \<noteq> ''water'' \<longrightarrow>
         map_of (mMaterials s1) name = map_of (mMaterials s) name) \<and>
      mAllRitems s1 = mAllRitems s) \<and>
   (trackerSteps M [StepAnimateMaterials gt1, StepAnimateMaterials gt2] s = Inr s2 \<longrightarrow>
      (\<exists>wm. map_of (mMaterials s2) ''water'' = Some wm \<and>
            Material.NumFramesDirty wm = gNumFrameResources)) \<and>
   (trackerSteps M
      [StepAnimateMaterials gt1, StepAnimateMaterials gt2, StepUpdateMaterialCBs] s = Inr s3 \<longrightarrow>
      (\<exists>wm. map_of (mMaterials s3) ''water'' = Some wm \<and>
            Material.NumFramesDirty wm = gNumFrameResources - 1))"
proof (intro conjI impI)
  assume "DirtyOK s \<and> trackerSteps M sts s = Inr s'"
  then show "DirtyOK s'" by (blast intro: DirtyOK_trackerSteps)
next
  assume "DirtyOK s \<and> runFrames M inps s = Inr s'"
  then show "DirtyOK s'" by (blast intro: DirtyOK_runFrames)
next
  show "DirtyOK (Initialize M args n (NewTreeBillboardsApp base))"
    by (rule DirtyOK_Initialize)
next
  assume d: "DirtyOK s'"
  show "\<forall>e \<in> set (mAllRitems s').
      0 \<le> RenderItem.NumFramesDirty e \<and> RenderItem.NumFramesDirty e \<le> 3"
    by (rule DirtyOK_D(1) [OF d])
  show "\<forall>name m. map_of (mMaterials s') name = Some m \<longrightarrow>
      0 \<le> Material.NumFramesDirty m \<and> Material.NumFramesDirty m \<le> 3"
    by (rule DirtyOK_D(2) [OF d])
next
  assume "map_of (mMaterials s) ''water'' \<noteq> None \<and> mCurrFrameResource s = Some p \<and>
      p < length (mFrameResources s)"
  then show "\<exists>t. trackerSteps M sts s = Inr t"
    by (intro trackerSteps_total [of s p]) simp_all
next
  assume a: "AnimateMaterials M gt s = Inr s1"
  show "\<exists>wm. map_of (mMaterials s1) ''water'' = Some wm \<and>
      Material.NumFramesDirty wm = gNumFrameResources"
    by (rule AnimateMaterials_marks(1) [OF a])
  show "\<forall>name. name \<noteq> ''water'' \<longrightarrow>
      map_of (mMaterials s1) name = map_of (mMaterials s) name"
    by (intro allI impI) (rule AnimateMaterials_marks(2) [OF a])
  show "mAllRitems s1 = mAllRitems s"
    by (rule AnimateMaterials_marks(3) [OF a])
next
  assume "trackerSteps M [StepAnimateMaterials gt1, StepAnimateMaterials gt2] s = Inr s2"
  then show "\<exists>wm. map_of (mMaterials s2) ''water'' = Some wm \<and>
      Material.NumFramesDirty wm = gNumFrameResources"
    by (rule remark_twice)
next
  assume "trackerSteps M
      [StepAnimateMaterials gt1, StepAnimateMaterials gt2, StepUpdateMaterialCBs] s = Inr s3"
  then show "\<exists>wm. map_of (mMaterials s3) ''water'' = Some wm \<and>
      Material.NumFramesDirty wm = gNumFrameResources - 1"
    by (rule remark_twice_then_upload)
qed

lemma appInFlight_pointers:
  "map_of (mMaterials appInFlight) ''water'' \<noteq> None \<and>
   mCurrFrameResource appInFlight = Some 0 \<and> 0 < length (mFrameResources appInFlight)"
  using app0_SceneOK by (simp add: appInFlight_def SceneOK_def)

lemma appInFlight_DirtyOK: "DirtyOK appInFlight"
  using DirtyOK_Initialize [of M0 args0 4 base0]
  by (simp add: DirtyOK_def appInFlight_def app0_def)

theorem C3_dirty_count_bounds_witness:
  "DirtyOK appInFlight \<and>
   (\<exists>s3. trackerSteps M0
      [StepAnimateMaterials (fst (snd inp0)), StepAnimateMaterials (fst (snd inp0)),
       StepUpdateMaterialCBs] appInFlight = Inr s3 \<and>
      DirtyOK s3 \<and>
      (\<exists>wm. map_of (mMaterials s3) ''water'' = Some wm \<and> Material.NumFramesDirty wm = 2))"
proof -
  let ?sts = "[StepAnimateMaterials (fst (snd inp0)), StepAnimateMaterials (fst (snd inp0)),
       StepUpdateMaterialCBs]"
  note t = C3_dirty_count_bounds [where s = appInFlight and M = M0 and sts = ?sts
      and p = 0 and ?gt1.0 = "fst (snd inp0)" and ?gt2.0 = "fst (snd inp0)"]
  from t appInFlight_pointers obtain s3 where r: "trackerSteps M0 ?sts appInFlight = Inr s3"
    by blast
  from t [where s' = s3] appInFlight_DirtyOK r have d: "DirtyOK s3" by blast
  from t [where ?s3.0 = s3] r obtain wm where "map_of (mMaterials s3) ''water'' = Some wm"
    "Material.NumFramesDirty wm = gNumFrameResources - 1"
    by blast
  then have "\<exists>wm. map_of (mMaterials s3) ''water'' = Some wm \<and> Material.NumFramesDirty wm = 2"
    by (simp add: gNumFrameResources_def)
  with appInFlight_DirtyOK r d show ?thesis by blast
qed

lemma ReadData_skipped:
  assumes "mMappedData new = ws @ mMappedData old" and "i \<notin> fst ` set ws"
  shows "ReadData new i = ReadData old i"
proof -
  from assms(2) have "map_of ws i = None" by (simp add: map_of_eq_None_iff)
  with assms(1) show ?thesis by (simp add: ReadData_def map_add_def)
qed

lemma clean_item_not_written:
  assumes d: "distinct (map ObjCBIndex es)" and r: "r < length es"
    and c: "RenderItem.NumFramesDirty (es ! r) \<le> 0"
  shows "unat (ObjCBIndex (es ! r)) \<notin> fst ` set (objectWrites es)"
proof
  assume "unat (ObjCBIndex (es ! r)) \<in> fst ` set (objectWrites es)"
  then obtain e where e: "e \<in> set es" "0 < RenderItem.NumFramesDirty e"
    and i: "unat (ObjCBIndex e) = unat (ObjCBIndex (es ! r))"
    by (auto simp: objectWrites_def)
  from i have "ObjCBIndex e = ObjCBIndex (es ! r)" by (simp add: word_unat_eq_iff)
  moreover from d have "inj_on ObjCBIndex (set es)" by (simp add: distinct_map)
  moreover from r have "es ! r \<in> set es" by simp
  ultimately have "e = es ! r" using e(1) by (simp add: inj_on_def)
  with e(2) c show False by simp
qed

lemma clean_material_not_written:
  assumes d: "distinct (map (MatCBIndex \<circ> snd) es)" and m: "(name, m) \<in> set es"
    and c: "Material.NumFramesDirty m \<le> 0"
  shows "MatCBIndex m \<notin> fst ` set (materialWrites es)"
proof
  assume "MatCBIndex m \<in> fst ` set (materialWrites es)"
  then obtain e where e: "e \<in> set es" "0 < Material.NumFramesDirty (snd e)"
    and i: "MatCBIndex (snd e) = MatCBIndex m"
    by (auto simp: materialWrites_def)
  from d have "inj_on (MatCBIndex \<circ> snd) (set es)" by (simp add: distinct_map)
  with e(1) m i have "e = (name, m)" by (simp add: inj_on_def)
  with e(2) c show False by simp
qed

lemma ritemAfterUpload_clean:
  "RenderItem.NumFramesDirty e \<le> 0 \<Longrightarrow> ritemAfterUpload e = e"
  by (simp add: ritemAfterUpload_def)

lemma materialAfterUpload_clean:
  "Material.NumFramesDirty m \<le> 0 \<Longrightarrow> materialAfterUpload m = m"
  by (simp add: materialAfterUpload_def)

lemma ObjCBIndex_after_upload: "map ObjCBIndex (map ritemAfterUpload es) = map ObjCBIndex es"
  by (simp add: ritemAfterUpload_def)

text \<open>What one pass of \<^verbatim>\<open>UpdateObjectCBs\<close> leaves behind.\<close>

lemma UpdateObjectCBs_pass:
  assumes u: "UpdateObjectCBs s = Inr s'"
  obtains p where "mCurrFrameResource s = Some p" and "p < length (mFrameResources s)"
    and "mAllRitems s' = map ritemAfterUpload (mAllRitems s)"
    and "mMappedData (ObjectCB (mFrameResources s' ! p)) =
           objectWrites (mAllRitems s) @ mMappedData (ObjectCB (mFrameResources s ! p))"
    and "\<forall>q. q \<noteq> p \<longrightarrow> mFrameResources s' ! q = mFrameResources s ! q"
    and "mMaterials s' = mMaterials s"
proof -
  from u obtain p fr where cur: "CurrFrameResource s = Inr (p, fr)"
    by (rule UpdateObjectCBs_InrD)
  then have p: "mCurrFrameResource s = Some p" "p < length (mFrameResources s)"
    and fr: "fr = mFrameResources s ! p"
    by (simp_all add: CurrFrameResource_eq_Inr)
  from u have s': "s' = s\<lparr>mAllRitems := map ritemAfterUpload (mAllRitems s),
            mFrameResources := (mFrameResources s)
              [p := fr\<lparr>ObjectCB := (ObjectCB fr)
                 \<lparr>mMappedData := objectWrites (mAllRitems s) @ mMappedData (ObjectCB fr)\<rparr>\<rparr>]\<rparr>"
    unfolding UpdateObjectCBs_eq [OF cur] by simp
  show ?thesis
  proof (rule that [OF p])
    show "mAllRitems s' = map ritemAfterUpload (mAllRitems s)" by (simp add: s')
    show "mMappedData (ObjectCB (mFrameResources s' ! p)) =
        objectWrites (mAllRitems s) @ mMappedData (ObjectCB (mFrameResources s ! p))"
      using p by (simp add: s' fr)
    show "\<forall>q. q \<noteq> p \<longrightarrow> mFrameResources s' ! q = mFrameResources s ! q"
      by (simp add: s')
    show "mMaterials s' = mMaterials s" by (simp add: s')
  qed
qed

lemma UpdateMaterialCBs_pass:
  assumes u: "UpdateMaterialCBs s = Inr s'"
  obtains p where "mCurrFrameResource s = Some p" and "p < length (mFrameResources s)"
    and "mMaterials s' = map (apsnd materialAfterUpload) (mMaterials s)"
    and "mMappedData (MaterialCB (mFrameResources s' ! p)) =
           materialWrites (mMaterials s) @ mMappedData (MaterialCB (mFrameResources s ! p))"
    and "\<forall>q. q \<noteq> p \<longrightarrow> mFrameResources s' ! q = mFrameResources s ! q"
    and "mAllRitems s' = mAllRitems s"
proof -
  from u obtain p fr where cur: "CurrFrameResource s = Inr (p, fr)"
    by (rule UpdateMaterialCBs_InrD)
  then have p: "mCurrFrameResource s = Some p" "p < length (mFrameResources s)"
    and fr: "fr = mFrameResources s ! p"
    by (simp_all add: CurrFrameResource_eq_Inr)
  from u have s': "s' = s\<lparr>mMaterials := map (apsnd materialAfterUpload) (mMaterials s),
            mFrameResources := (mFrameResources s)
              [p := fr\<lparr>MaterialCB := (MaterialCB fr)
                 \<lparr>mMappedData := materialWrites (mMaterials s) @ mMappedData (MaterialCB fr)\<rparr>\<rparr>]\<rparr>"
    unfolding UpdateMaterialCBs_eq [OF cur] by simp
  show ?thesis
  proof (rule that [OF p])
    show "mMaterials s' = map (apsnd materialAfterUpload) (mMaterials s)" by (simp add: s')
    show "mMappedData (MaterialCB (mFrameResources s' ! p)) =
        materialWrites (mMaterials s) @ mMappedData (MaterialCB (mFrameResources s ! p))"
      using p by (simp add: s' fr)
    show "\<forall>q. q \<noteq> p \<longrightarrow> mFrameResources s' ! q = mFrameResources s ! q"
      by (simp add: s')
    show "mAllRitems s' = mAllRitems s" by (simp add: s')
  qed
qed

lemma Initialize_indices:
  "map ObjCBIndex (mAllRitems (Initialize M args n (NewTreeBillboardsApp base))) =
     [5, 6, 7, 8, 10, 11, 12, 13, 14, 15, 16, 17, 20, 19, 18, 9, 4, 3, 2, 0, 1]"
  unfolding Initialize_mAllRitems by (simp add: ritem_defs)

lemma Initialize_material_indices:
  "map (MatCBIndex \<circ> snd) (mMaterials (Initialize M args n (NewTreeBillboardsApp base))) =
     [0, 1, 2, 12, 3, 4, 5, 6, 7, 8, 9, 10, 11]"
  by (simp add: scene_defs BuildMaterial_def)

lemma Initialize_distinct:
  "distinct (map ObjCBIndex (mAllRitems (Initialize M args n (NewTreeBillboardsApp base))))"
  "distinct (map (MatCBIndex \<circ> snd)
     (mMaterials (Initialize M args n (NewTreeBillboardsApp base))))"
  unfolding Initialize_indices Initialize_material_indices by simp_all

lemma filter_dirty_writes:
  "objectWrites es =
     rev (map (\<lambda>e. (unat (ObjCBIndex e), objConstants e))
            (filter (\<lambda>e. 0 < RenderItem.NumFramesDirty e) es))"
  by (simp add: objectWrites_def)

lemma materialWrites_set:
  "set (materialWrites es) =
     (\<lambda>e. (MatCBIndex (snd e), matConstants (snd e))) `
       {e \<in> set es. 0 < Material.NumFramesDirty (snd e)}"
  "length (materialWrites es) = length (filter (\<lambda>e. 0 < Material.NumFramesDirty (snd e)) es)"
  by (simp_all add: materialWrites_def)

lemma UpdateObjectCBs_skips:
  assumes u: "UpdateObjectCBs s = Inr s'"
  shows "\<exists>p. mCurrFrameResource s = Some p \<and> p < length (mFrameResources s) \<and>
     WritesSince (ObjectCB (mFrameResources s ! p)) (ObjectCB (mFrameResources s' ! p)) =
       rev (map (\<lambda>e. (unat (ObjCBIndex e), objConstants e))
              (filter (\<lambda>e. 0 < RenderItem.NumFramesDirty e) (mAllRitems s))) \<and>
     length (mAllRitems s') = length (mAllRitems s) \<and>
     (\<forall>r < length (mAllRitems s). RenderItem.NumFramesDirty (mAllRitems s ! r) \<le> 0 \<longrightarrow>
        mAllRitems s' ! r = mAllRitems s ! r \<and>
        (distinct (map ObjCBIndex (mAllRitems s)) \<longrightarrow>
           ReadData (ObjectCB (mFrameResources s' ! p)) (unat (ObjCBIndex (mAllRitems s ! r))) =
           ReadData (ObjectCB (mFrameResources s ! p)) (unat (ObjCBIndex (mAllRitems s ! r)))))"
proof -
  from u obtain p where p: "mCurrFrameResource s = Some p" "p < length (mFrameResources s)"
    and items: "mAllRitems s' = map ritemAfterUpload (mAllRitems s)"
    and log: "mMappedData (ObjectCB (mFrameResources s' ! p)) =
           objectWrites (mAllRitems s) @ mMappedData (ObjectCB (mFrameResources s ! p))"
    by (rule UpdateObjectCBs_pass)
  have w: "WritesSince (ObjectCB (mFrameResources s ! p)) (ObjectCB (mFrameResources s' ! p)) =
       rev (map (\<lambda>e. (unat (ObjCBIndex e), objConstants e))
              (filter (\<lambda>e. 0 < RenderItem.NumFramesDirty e) (mAllRitems s)))"
    unfolding WritesSince_append [OF log] by (rule filter_dirty_writes)
  have len: "length (mAllRitems s') = length (mAllRitems s)" by (simp add: items)
  have clean: "mAllRitems s' ! r = mAllRitems s ! r \<and>
        (distinct (map ObjCBIndex (mAllRitems s)) \<longrightarrow>
           ReadData (ObjectCB (mFrameResources s' ! p)) (unat (ObjCBIndex (mAllRitems s ! r))) =
           ReadData (ObjectCB (mFrameResources s ! p)) (unat (ObjCBIndex (mAllRitems s ! r))))"
    if r: "r < length (mAllRitems s)" and c: "RenderItem.NumFramesDirty (mAllRitems s ! r) \<le> 0"
    for r
  proof (intro conjI impI)
    from r c show "mAllRitems s' ! r = mAllRitems s ! r"
      by (simp add: items ritemAfterUpload_clean)
    assume d: "distinct (map ObjCBIndex (mAllRitems s))"
    from log clean_item_not_written [OF d r c]
    show "ReadData (ObjectCB (mFrameResources s' ! p)) (unat (ObjCBIndex (mAllRitems s ! r))) =
        ReadData (ObjectCB (mFrameResources s ! p)) (unat (ObjCBIndex (mAllRitems s ! r)))"
      by (rule ReadData_skipped)
  qed
  from p w len clean show ?thesis by (intro exI [of _ p]) blast
qed

lemma UpdateMaterialCBs_skips:
  assumes u: "UpdateMaterialCBs s = Inr s'"
  shows "\<exists>p. mCurrFrameResource s = Some p \<and> p < length (mFrameResources s) \<and>
     set (WritesSince (MaterialCB (mFrameResources s ! p))
            (MaterialCB (mFrameResources s' ! p))) =
       (\<lambda>e. (MatCBIndex (snd e), matConstants (snd e))) `
         {e \<in> set (mMaterials s). 0 < Material.NumFramesDirty (snd e)} \<and>
     length (WritesSince (MaterialCB (mFrameResources s ! p))
               (MaterialCB (mFrameResources s' ! p))) =
       length (filter (\<lambda>e. 0 < Material.NumFramesDirty (snd e)) (mMaterials s)) \<and>
     (\<forall>name m. map_of (mMaterials s) name = Some m \<and> Material.NumFramesDirty m \<le> 0 \<longrightarrow>
        map_of (mMaterials s') name = Some m \<and>
        (distinct (map (MatCBIndex \<circ> snd) (mMaterials s)) \<longrightarrow>
           ReadData (MaterialCB (mFrameResources s' ! p)) (MatCBIndex m) =
           ReadData (MaterialCB (mFrameResources s ! p)) (MatCBIndex m)))"
proof -
  from u obtain p where p: "mCurrFrameResource s = Some p" "p < length (mFrameResources s)"
    and mats: "mMaterials s' = map (apsnd materialAfterUpload) (mMaterials s)"
    and log: "mMappedData (MaterialCB (mFrameResources s' ! p)) =
           materialWrites (mMaterials s) @ mMappedData (MaterialCB (mFrameResources s ! p))"
    by (rule UpdateMaterialCBs_pass)
  note w = WritesSince_append [OF log]
  have clean: "map_of (mMaterials s') name = Some m \<and>
        (distinct (map (MatCBIndex \<circ> snd) (mMaterials s)) \<longrightarrow>
           ReadData (MaterialCB (mFrameResources s' ! p)) (MatCBIndex m) =
           ReadData (MaterialCB (mFrameResources s ! p)) (MatCBIndex m))"
    if m: "map_of (mMaterials s) name = Some m" and c: "Material.NumFramesDirty m \<le> 0"
    for name m
  proof (intro conjI impI)
    from m c show "map_of (mMaterials s') name = Some m"
      by (simp add: mats map_of_apsnd materialAfterUpload_clean)
    assume d: "distinct (map (MatCBIndex \<circ> snd) (mMaterials s))"
    from m have "(name, m) \<in> set (mMaterials s)" by (rule map_of_SomeD)
    from log clean_material_not_written [OF d this c]
    show "ReadData (MaterialCB (mFrameResources s' ! p)) (MatCBIndex m) =
        ReadData (MaterialCB (mFrameResources s ! p)) (MatCBIndex m)"
      by (rule ReadData_skipped)
  qed
  have ws: "set (WritesSince (MaterialCB (mFrameResources s ! p))
            (MaterialCB (mFrameResources s' ! p))) =
       (\<lambda>e. (MatCBIndex (snd e), matConstants (snd e))) `
         {e \<in> set (mMaterials s). 0 < Material.NumFramesDirty (snd e)}"
    and wl: "length (WritesSince (MaterialCB (mFrameResources s ! p))
               (MaterialCB (mFrameResources s' ! p))) =
       length (filter (\<lambda>e. 0 < Material.NumFramesDirty (snd e)) (mMaterials s))"
    unfolding w by (rule materialWrites_set)+
  from p ws wl clean show ?thesis by (intro exI [of _ p]) blast
qed

lemma runFrame_skips:
  assumes f: "runFrame M inp s = Inr s'"
  shows "map ObjCBIndex (mAllRitems s') = map ObjCBIndex (mAllRitems s) \<and>
     WritesSince (ObjectCB (mFrameResources s ! nextSlot s))
         (ObjectCB (mFrameResources s' ! nextSlot s)) =
       rev (map (\<lambda>e. (unat (ObjCBIndex e), objConstants e))
              (filter (\<lambda>e. 0 < RenderItem.NumFramesDirty e) (mAllRitems s))) \<and>
     (\<forall>r < length (mAllRitems s). RenderItem.NumFramesDirty (mAllRitems s ! r) \<le> 0 \<longrightarrow>
        mAllRitems s' ! r = mAllRitems s ! r \<and>
        (distinct (map ObjCBIndex (mAllRitems s)) \<longrightarrow>
           (\<forall>q. ReadData (ObjectCB (mFrameResources s' ! q))
                  (unat (ObjCBIndex (mAllRitems s ! r))) =
                ReadData (ObjectCB (mFrameResources s ! q))
                  (unat (ObjCBIndex (mAllRitems s ! r))))))"
proof -
  note o = runFrame_objects [OF f]
  from o(2) have log: "mMappedData (ObjectCB (mFrameResources s' ! nextSlot s)) =
      objectWrites (mAllRitems s) @ mMappedData (ObjectCB (mFrameResources s ! nextSlot s))"
    by simp
  have idx: "map ObjCBIndex (mAllRitems s') = map ObjCBIndex (mAllRitems s)"
    unfolding o(1) by (rule ObjCBIndex_after_upload)
  have w: "WritesSince (ObjectCB (mFrameResources s ! nextSlot s))
         (ObjectCB (mFrameResources s' ! nextSlot s)) =
       rev (map (\<lambda>e. (unat (ObjCBIndex e), objConstants e))
              (filter (\<lambda>e. 0 < RenderItem.NumFramesDirty e) (mAllRitems s)))"
    unfolding WritesSince_append [OF log] by (rule filter_dirty_writes)
  have clean: "mAllRitems s' ! r = mAllRitems s ! r \<and>
        (distinct (map ObjCBIndex (mAllRitems s)) \<longrightarrow>
           (\<forall>q. ReadData (ObjectCB (mFrameResources s' ! q))
                  (unat (ObjCBIndex (mAllRitems s ! r))) =
                ReadData (ObjectCB (mFrameResources s ! q))
                  (unat (ObjCBIndex (mAllRitems s ! r)))))"
    if r: "r < length (mAllRitems s)" and c: "RenderItem.NumFramesDirty (mAllRitems s ! r) \<le> 0"
    for r
  proof (intro conjI impI allI)
    from r c show "mAllRitems s' ! r = mAllRitems s ! r"
      by (simp add: o(1) ritemAfterUpload_clean)
    fix q
    assume d: "distinct (map ObjCBIndex (mAllRitems s))"
    show "ReadData (ObjectCB (mFrameResources s' ! q)) (unat (ObjCBIndex (mAllRitems s ! r))) =
        ReadData (ObjectCB (mFrameResources s ! q)) (unat (ObjCBIndex (mAllRitems s ! r)))"
    proof (cases "q = nextSlot s")
      case True
      from log clean_item_not_written [OF d r c] show ?thesis
        unfolding True by (rule ReadData_skipped)
    next
      case False
      then show ?thesis by (simp add: runFrame_ring(5) [OF f])
    qed
  qed
  from idx w clean show ?thesis by blast
qed

text \<open>
  C7. An entity whose counter is 0 (the loops test \<^verbatim>\<open>NumFramesDirty > 0\<close>, so: not
  positive) is skipped by the upload loop: nothing is recomputed or written for it, the
  entity stays as it is, and so does its entry in the buffer of the current frame
  resource.
  \<^item> A pass of \<^verbatim>\<open>UpdateObjectCBs\<close> that returns adds to the object buffer of the current
    frame resource exactly one write for every render item with positive counter, in the
    order of the items, and no other; a render item with counter at most 0 is unchanged,
    and, the constant indices being distinct, what the buffer holds at its index is
    unchanged.
  \<^item> A pass of \<^verbatim>\<open>UpdateMaterialCBs\<close> that returns adds exactly one write for every
    material with positive counter and no other; a material with counter at most 0 is
    unchanged, and, the indices being distinct, so is what the buffer holds at its index.
  \<^item> The same holds for the render items over a whole frame, in every frame resource,
    and a frame keeps the constant indices.
  \<^item> The constant indices of the scene that \<^verbatim>\<open>Initialize\<close> builds are distinct.
\<close>

theorem C7_clean_entities_skipped:
  "(UpdateObjectCBs s = Inr s' \<longrightarrow>
      (\<exists>p. mCurrFrameResource s = Some p \<and> p < length (mFrameResources s) \<and>
         WritesSince (ObjectCB (mFrameResources s ! p)) (ObjectCB (mFrameResources s' ! p)) =
           rev (map (\<lambda>e. (unat (ObjCBIndex e), objConstants e))
                  (filter (\<lambda>e. 0 < RenderItem.NumFramesDirty e) (mAllRitems s))) \<and>
         length (mAllRitems s') = length (mAllRitems s) \<and>
         (\<forall>r < length (mAllRitems s). RenderItem.NumFramesDirty (mAllRitems s ! r) \<le> 0 \<longrightarrow>
            mAllRitems s' ! r = mAllRitems s ! r \<and>
            (distinct (map ObjCBIndex (mAllRitems s)) \<longrightarrow>
               ReadData (ObjectCB (mFrameResources s' ! p))
                 (unat (ObjCBIndex (mAllRitems s ! r))) =
               ReadData (ObjectCB (mFrameResources s ! p))
                 (unat (ObjCBIndex (mAllRitems s ! r))))))) \<and>
   (UpdateMaterialCBs s = Inr s' \<longrightarrow>
      (\<exists>p. mCurrFrameResource s = Some p \<and> p < length (mFrameResources s) \<and>
         set (WritesSince (MaterialCB (mFrameResources s ! p))
                (MaterialCB (mFrameResources s' ! p))) =
           (\<lambda>e. (MatCBIndex (snd e), matConstants (snd e))) `
             {e \<in> set (mMaterials s). 0 < Material.NumFramesDirty (snd e)} \<and>
         length (WritesSince (MaterialCB (mFrameResources s ! p))
                   (MaterialCB (mFrameResources s' ! p))) =
           length (filter (\<lambda>e. 0 < Material.NumFramesDirty (snd e)) (mMaterials s)) \<and>
         (\<forall>name m. map_of (mMaterials s) name = Some m \<and> Material.NumFramesDirty m \<le> 0 \<longrightarrow>
            map_of (mMaterials s') name = Some m \<and>
            (distinct (map (MatCBIndex \<circ> snd) (mMaterials s)) \<longrightarrow>
               ReadData (MaterialCB (mFrameResources s' ! p)) (MatCBIndex m) =
               ReadData (MaterialCB (mFrameResources s ! p)) (MatCBIndex m))))) \<and>
   (runFrame M inp s = Inr s' \<longrightarrow>
      map ObjCBIndex (mAllRitems s') = map ObjCBIndex (mAllRitems s) \<and>
      WritesSince (ObjectCB (mFrameResources s ! nextSlot s))
          (ObjectCB (mFrameResources s' ! nextSlot s)) =
        rev (map (\<lambda>e. (unat (ObjCBIndex e), objConstants e))
               (filter (\<lambda>e. 0 < RenderItem.NumFramesDirty e) (mAllRitems s))) \<and>
      (\<forall>r < length (mAllRitems s). RenderItem.NumFramesDirty (mAllRitems s ! r) \<le> 0 \<longrightarrow>
         mAllRitems s' ! r = mAllRitems s ! r \<and>
         (distinct (map ObjCBIndex (mAllRitems s)) \<longrightarrow>
            (\<forall>q. ReadData (ObjectCB (mFrameResources s' ! q))
                   (unat (ObjCBIndex (mAllRitems s ! r))) =
                 ReadData (ObjectCB (mFrameResources s ! q))
                   (unat (ObjCBIndex (mAllRitems s ! r))))))) \<and>
   distinct (map ObjCBIndex (mAllRitems (Initialize M args n (NewTreeBillboardsApp base)))) \<and>
   distinct (map (MatCBIndex \<circ> snd)
     (mMaterials (Initialize M args n (NewTreeBillboardsApp base))))"
proof (intro conjI impI)
  assume "UpdateObjectCBs s = Inr s'"
  then show "\<exists>p. mCurrFrameResource s = Some p \<and> p < length (mFrameResources s) \<and>
         WritesSince (ObjectCB (mFrameResources s ! p)) (ObjectCB (mFrameResources s' ! p)) =
           rev (map (\<lambda>e. (unat (ObjCBIndex e), objConstants e))
                  (filter (\<lambda>e. 0 < RenderItem.NumFramesDirty e) (mAllRitems s))) \<and>
         length (mAllRitems s') = length (mAllRitems s) \<and>
         (\<forall>r < length (mAllRitems s). RenderItem.NumFramesDirty (mAllRitems s ! r) \<le> 0 \<longrightarrow>
            mAllRitems s' ! r = mAllRitems s ! r \<and>
            (distinct (map ObjCBIndex (mAllRitems s)) \<longrightarrow>
               ReadData (ObjectCB (mFrameResources s' ! p))
                 (unat (ObjCBIndex (mAllRitems s ! r))) =
               ReadData (ObjectCB (mFrameResources s ! p))
                 (unat (ObjCBIndex (mAllRitems s ! r)))))"
    by (rule UpdateObjectCBs_skips)
next
  assume "UpdateMaterialCBs s = Inr s'"
  then show "\<exists>p. mCurrFrameResource s = Some p \<and> p < length (mFrameResources s) \<and>
         set (WritesSince (MaterialCB (mFrameResources s ! p))
                (MaterialCB (mFrameResources s' ! p))) =
           (\<lambda>e. (MatCBIndex (snd e), matConstants (snd e))) `
             {e \<in> set (mMaterials s). 0 < Material.NumFramesDirty (snd e)} \<and>
         length (WritesSince (MaterialCB (mFrameResources s ! p))
                   (MaterialCB (mFrameResources s' ! p))) =
           length (filter (\<lambda>e. 0 < Material.NumFramesDirty (snd e)) (mMaterials s)) \<and>
         (\<forall>name m. map_of (mMaterials s) name = Some m \<and> Material.NumFramesDirty m \<le> 0 \<longrightarrow>
            map_of (mMaterials s') name = Some m \<and>
            (distinct (map (MatCBIndex \<circ> snd) (mMaterials s)) \<longrightarrow>
               ReadData (MaterialCB (mFrameResources s' ! p)) (MatCBIndex m) =
               ReadData (MaterialCB (mFrameResources s ! p)) (MatCBIndex m)))"
    by (rule UpdateMaterialCBs_skips)
next
  assume f: "runFrame M inp s = Inr s'"
  from runFrame_skips [OF f]
  show "map ObjCBIndex (mAllRitems s') = map ObjCBIndex (mAllRitems s)"
    and "WritesSince (ObjectCB (mFrameResources s ! nextSlot s))
          (ObjectCB (mFrameResources s' ! nextSlot s)) =
        rev (map (\<lambda>e. (unat (ObjCBIndex e), objConstants e))
               (filter (\<lambda>e. 0 < RenderItem.NumFramesDirty e) (mAllRitems s)))"
    and "\<forall>r < length (mAllRitems s). RenderItem.NumFramesDirty (mAllRitems s ! r) \<le> 0 \<longrightarrow>
         mAllRitems s' ! r = mAllRitems s ! r \<and>
         (distinct (map ObjCBIndex (mAllRitems s)) \<longrightarrow>
            (\<forall>q. ReadData (ObjectCB (mFrameResources s' ! q))
                   (unat (ObjCBIndex (mAllRitems s ! r))) =
                 ReadData (ObjectCB (mFrameResources s ! q))
                   (unat (ObjCBIndex (mAllRitems s ! r)))))"
    by blast+
next
  show "distinct (map ObjCBIndex
      (mAllRitems (Initialize M args n (NewTreeBillboardsApp base))))"
    by (rule Initialize_distinct)
  show "distinct (map (MatCBIndex \<circ> snd)
      (mMaterials (Initialize M args n (NewTreeBillboardsApp base))))"
    by (rule Initialize_distinct)
qed

lemma app0_four_frames:
  "\<exists>s1 s2 s3 s4. runFrame M0 inp0 app0 = Inr s1 \<and> runFrame M0 inp0 s1 = Inr s2 \<and>
     runFrame M0 inp0 s2 = Inr s3 \<and> runFrame M0 inp0 s3 = Inr s4 \<and>
     runFrames M0 [inp0, inp0, inp0] app0 = Inr s3"
proof -
  have "unat (mCurrentFence app0) + length [inp0, inp0, inp0, inp0] < 2 ^ 64"
    by (simp add: app0_fence)
  with runFrames_invariant [OF app0_SceneOK app0_FenceOK, of "[inp0, inp0, inp0, inp0]" M0]
  obtain s4 where "runFrames M0 [inp0, inp0, inp0, inp0] app0 = Inr s4" by auto
  then show ?thesis by (auto simp: andThen_eq_Inr)
qed

theorem C7_clean_entities_skipped_witness:
  "\<exists>s3 s4. runFrames M0 [inp0, inp0, inp0] app0 = Inr s3 \<and> runFrame M0 inp0 s3 = Inr s4 \<and>
     RenderItem.NumFramesDirty (mAllRitems s3 ! 19) = 0 \<and>
     mAllRitems s4 ! 19 = mAllRitems s3 ! 19 \<and>
     WritesSince (ObjectCB (mFrameResources s3 ! 1)) (ObjectCB (mFrameResources s4 ! 1)) = [] \<and>
     ReadData (ObjectCB (mFrameResources s4 ! 1)) 0 =
       ReadData (ObjectCB (mFrameResources s3 ! 1)) 0"
proof -
  from app0_four_frames obtain s1 s2 s3 s4 where
    f1: "runFrame M0 inp0 app0 = Inr s1" and f2: "runFrame M0 inp0 s1 = Inr s2"
    and f3: "runFrame M0 inp0 s2 = Inr s3" and f4: "runFrame M0 inp0 s3 = Inr s4"
    and fs: "runFrames M0 [inp0, inp0, inp0] app0 = Inr s3"
    by blast
  have len0: "length (mAllRitems app0) = 21" by (simp add: app0_def Initialize_length)
  have item: "mAllRitems s3 ! r = (mAllRitems app0 ! r)\<lparr>RenderItem.NumFramesDirty := 0\<rparr>"
    if r: "r < 21" for r
  proof -
    from r have r': "r < length (mAllRitems app0)" by (simp add: len0)
    then have "mAllRitems app0 ! r \<in> set (mAllRitems app0)" by (rule nth_mem)
    with Initialize_dirty [of M0 args0 4 base0]
    have "RenderItem.NumFramesDirty (mAllRitems app0 ! r) = 3"
      by (simp add: app0_def gNumFrameResources_def)
    from three_frames_item [OF f1 f2 f3 r' this] show ?thesis by blast
  qed
  have len3: "length (mAllRitems s3) = 21"
    by (simp add: frame_items_length [OF f3] frame_items_length [OF f2]
          frame_items_length [OF f1] len0)
  have clean: "\<not> 0 < RenderItem.NumFramesDirty e" if "e \<in> set (mAllRitems s3)" for e
  proof -
    from that obtain r where "r < 21" "e = mAllRitems s3 ! r"
      by (auto simp: in_set_conv_nth len3)
    with item [of r] show ?thesis by simp
  qed
  then have none: "filter (\<lambda>e. 0 < RenderItem.NumFramesDirty e) (mAllRitems s3) = []"
    by (simp add: filter_empty_conv)
  have slot: "nextSlot s3 = 1"
    using nextSlot_step [OF f1] nextSlot_step [OF f2] nextSlot_step [OF f3]
    by (simp add: nextSlot_def app0_index)
  have c19: "RenderItem.NumFramesDirty (mAllRitems s3 ! 19) = 0"
    by (simp add: item)
  have i19: "unat (ObjCBIndex (mAllRitems s3 ! 19)) = 0"
    by (simp add: item app0_def Initialize_mAllRitems wavesRitem_def)
  note t1 = C7_clean_entities_skipped [where s = app0 and s' = s1 and M = M0 and inp = inp0]
  note t2 = C7_clean_entities_skipped [where s = s1 and s' = s2 and M = M0 and inp = inp0]
  note t3 = C7_clean_entities_skipped [where s = s2 and s' = s3 and M = M0 and inp = inp0
      and args = args0 and n = 4 and base = base0]
  note t4 = C7_clean_entities_skipped [where s = s3 and s' = s4 and M = M0 and inp = inp0]
  from t1 t2 t3 f1 f2 f3
  have "map ObjCBIndex (mAllRitems s3) = map ObjCBIndex (mAllRitems app0)" by simp
  moreover from t3 have "distinct (map ObjCBIndex (mAllRitems app0))"
    by (simp add: app0_def)
  ultimately have d: "distinct (map ObjCBIndex (mAllRitems s3))" by simp
  from t4 f4 have w: "WritesSince (ObjectCB (mFrameResources s3 ! nextSlot s3))
          (ObjectCB (mFrameResources s4 ! nextSlot s3)) =
        rev (map (\<lambda>e. (unat (ObjCBIndex e), objConstants e))
               (filter (\<lambda>e. 0 < RenderItem.NumFramesDirty e) (mAllRitems s3)))"
    and c: "\<forall>r < length (mAllRitems s3). RenderItem.NumFramesDirty (mAllRitems s3 ! r) \<le> 0 \<longrightarrow>
         mAllRitems s4 ! r = mAllRitems s3 ! r \<and>
         (distinct (map ObjCBIndex (mAllRitems s3)) \<longrightarrow>
            (\<forall>q. ReadData (ObjectCB (mFrameResources s4 ! q))
                   (unat (ObjCBIndex (mAllRitems s3 ! r))) =
                 ReadData (ObjectCB (mFrameResources s3 ! q))
                   (unat (ObjCBIndex (mAllRitems s3 ! r)))))"
    by blast+
  from w have w1: "WritesSince (ObjectCB (mFrameResources s3 ! 1))
      (ObjectCB (mFrameResources s4 ! 1)) = []"
    by (simp add: none slot)
  from c [rule_format, of 19] c19 d len3
  have "mAllRitems s4 ! 19 = mAllRitems s3 ! 19"
    and "ReadData (ObjectCB (mFrameResources s4 ! 1)) 0 =
       ReadData (ObjectCB (mFrameResources s3 ! 1)) 0"
    by (simp_all add: i19)
  with fs f4 c19 w1 show ?thesis by blast
qed

















end
